theory Spec2Isabelle
  imports Complex_Main "HOL-Library.Word"
begin

section \<open>ProcessMonitor.c: data model\<close>

text \<open>
  A shallow embedding of the monitoring core of \<^verbatim>\<open>ProcessMonitor.c\<close> (version 0.48).
  Every Win32 call the code makes is an input of the model: the value the call returned
  is a field of an environment record, and the function that makes the call reads it there.
  What the code does to the outside (log lines, balloons, opening a process for
  termination, \<^verbatim>\<open>TerminateProcess\<close>, the backoff sleep) is returned as a list of
  actions, in program order.

  \<^verbatim>\<open>DWORD\<close> is a 32-bit word, \<^verbatim>\<open>ULONGLONG\<close>, \<^verbatim>\<open>LARGE_INTEGER\<close> and the
  \<^verbatim>\<open>QuadPart\<close> of a \<^verbatim>\<open>FILETIME\<close> are 64-bit words. A \<^verbatim>\<open>WCHAR\<close> string is a
  \<open>string\<close>: the list of its characters up to the terminating zero. The C \<^verbatim>\<open>int\<close>
  counters are \<open>int\<close>: the code increments a counter only below
  \<^verbatim>\<open>TERMINATE_RETRY_LIMIT\<close>, so they never overflow. \<^verbatim>\<open>float\<close> and
  \<^verbatim>\<open>double\<close> values are modelled by the real numbers they round.
\<close>

type_synonym DWORD = "32 word"
type_synonym ULONGLONG = "64 word"
type_synonym FILETIME = "64 word"

subsection \<open>Configuration constants\<close>

definition DEFAULT_MONITOR_INTERVAL_MS :: DWORD where "DEFAULT_MONITOR_INTERVAL_MS = 5000"
definition MAX_EXCLUDE_COUNT :: nat where "MAX_EXCLUDE_COUNT = 32"
definition MAX_PATH_LEN :: nat where "MAX_PATH_LEN = 260"

definition MIN_MONITOR_INTERVAL_MS :: DWORD where "MIN_MONITOR_INTERVAL_MS = 1000"
definition MAX_MONITOR_INTERVAL_MS :: DWORD where "MAX_MONITOR_INTERVAL_MS = 60000"
definition MIN_CPU_THRESHOLD :: DWORD where "MIN_CPU_THRESHOLD = 1"
definition MAX_CPU_THRESHOLD :: DWORD where "MAX_CPU_THRESHOLD = 100"
definition MIN_MEM_THRESHOLD_MB :: DWORD where "MIN_MEM_THRESHOLD_MB = 1"
definition MAX_MEM_THRESHOLD_MB :: DWORD where "MAX_MEM_THRESHOLD_MB = 65536"
definition MIN_HANG_TIMEOUT_MS :: DWORD where "MIN_HANG_TIMEOUT_MS = 1000"
definition MAX_HANG_TIMEOUT_MS :: DWORD where "MAX_HANG_TIMEOUT_MS = 30000"
definition MIN_LOG_SIZE_BYTES :: DWORD where "MIN_LOG_SIZE_BYTES = 1024"
definition MAX_LOG_SIZE_BYTES :: DWORD where "MAX_LOG_SIZE_BYTES = 100 * 1024 * 1024"
definition MIN_MAX_HUNG_WINDOWS :: DWORD where "MIN_MAX_HUNG_WINDOWS = 10"
definition MAX_MAX_HUNG_WINDOWS :: DWORD where "MAX_MAX_HUNG_WINDOWS = 5000"

definition TERMINATE_RETRY_LIMIT :: int where "TERMINATE_RETRY_LIMIT = 5"
definition MAX_BACKOFF_WAIT_MS :: ULONGLONG where "MAX_BACKOFF_WAIT_MS = 60000"
definition SUSPICIOUS_BALLOON_COOLDOWN_MS :: ULONGLONG where
  "SUSPICIOUS_BALLOON_COOLDOWN_MS = 5 * 60 * 1000"
definition ENCODING_WARNING_COOLDOWN_MS :: ULONGLONG where
  "ENCODING_WARNING_COOLDOWN_MS = 7 * 24 * 60 * 60 * 1000"
definition WARNING_COOLDOWN_MS :: ULONGLONG where
  "WARNING_COOLDOWN_MS = 7 * 24 * 60 * 60 * 1000"
definition ERROR_ACCESS_DENIED :: DWORD where "ERROR_ACCESS_DENIED = 5"

subsection \<open>Structures\<close>

record CONFIG =
  monitorIntervalMs :: DWORD
  cpuThresholdPercent :: DWORD
  memThresholdMb :: DWORD
  hangTimeoutMs :: DWORD
  logMaxSizeBytes :: DWORD
  maxHungWindows :: DWORD
  notifyOnTermination :: bool
  excludeList :: "string list"
  monitoringDefault :: bool

text \<open>
  \<^verbatim>\<open>excludeCount\<close> is the length of \<open>excludeList\<close>: the code reads the array only
  below \<^verbatim>\<open>excludeCount\<close>.
\<close>

record BALLOON_COOLDOWN =
  processName :: string
  lastTick :: ULONGLONG

record PROCESS_HISTORY =
  pid :: DWORD
  ftCreate :: FILETIME
  ftKernel :: FILETIME
  ftUser :: FILETIME
  perfTime :: "64 word"
  terminateAttempts :: int
  terminateAttemptsHung :: int
  terminateLogSent :: int
  terminateLogSentHung :: int
  seen :: bool

text \<open>
  The fields of \<^verbatim>\<open>struct _GLOBAL\<close> the monitoring core reads and writes, and with
  them the function-local \<^verbatim>\<open>static\<close> variables, which are global state too:
  \<open>accessDeniedShown\<close> of \<^verbatim>\<open>TryTerminateProcess\<close>, and the two variables that
  \<^verbatim>\<open>ProcessSnapshot\<close> declares under the one name
  \<^verbatim>\<open>consecutiveSnapshotFailures\<close>: one in the block that handles a failed snapshot,
  one in the block that follows it. They are two objects, each with its own storage.
  The history and the cooldown cache are linked lists: the head of the list is the head of
  the HOL list.
\<close>

record GLOBAL =
  sysDir32 :: string
  sysDir64 :: string
  sysDirDrivers :: string
  balloonCooldown :: "BALLOON_COOLDOWN list"
  lastBalloonCleanupTick :: ULONGLONG
  lastEncodingWarningTick :: ULONGLONG
  lastClampWarningTick :: ULONGLONG
  lastExcludeWarningTick :: ULONGLONG
  config :: CONFIG
  history :: "PROCESS_HISTORY list"
  accessDeniedShown :: bool
  consecutiveSnapshotFailures :: DWORD
  consecutiveSnapshotFailures_after :: DWORD

text \<open>The fields of \<^verbatim>\<open>PROCESSENTRY32W\<close> the code reads.\<close>

record PROCESSENTRY32W =
  th32ProcessID :: DWORD
  szExeFile :: string

subsection \<open>What the program does to the outside\<close>

datatype CONFIG_FIELD =
  MonitorIntervalMs | CpuThresholdPercent | MemThresholdMb | HangTimeoutMs
  | LogMaxSizeBytes | MaxHungWindows

text \<open>
  The reason \<^verbatim>\<open>FormatReason\<close> writes (the text is not modelled, the case is), and
  the reason \<^verbatim>\<open>CheckSystemProcess\<close> writes.
\<close>

datatype REASON = HighCPU | HighMemory | WindowNotResponding

datatype SYSTEM_REASON =
  HungWindow | HighInstantaneousCPU | HighAverageCPU | HighMemoryUse

text \<open>The lines \<^verbatim>\<open>LoadConfig\<close> logs while it reads \<^verbatim>\<open>ExcludeProcesses\<close>.\<close>

datatype EXCLUDE_LINE =
  WildcardIgnored string | PathSeparatorIgnored string | TooLongTruncated string
  | ListTruncated | ExcludeAllocationFailed

text \<open>One constructor per \<^verbatim>\<open>LogMessage\<close>/\<^verbatim>\<open>LogError\<close> format string.\<close>

datatype LOG_LINE =
  ConfigAdjusted CONFIG_FIELD DWORD DWORD DWORD DWORD
  | ExcludeNote EXCLUDE_LINE
  | BomNote
  | NonAsciiNote
  | FailedToOpenForTermination DWORD
  | SuccessfullyTerminated DWORD
  | FailedToTerminate DWORD
  | AttemptsExhaustedWillStopTrying DWORD
  | HungButAttemptsExhausted DWORD
  | ExceedsThresholdButAttemptsExhausted DWORD
  | TerminatedProcessEvent DWORD REASON
  | SuspiciousSystemProcessEvent DWORD SYSTEM_REASON
  | SnapshotFailedWillRetry
  | SnapshotFailedConsecutively DWORD
  | SnapshotSucceededAfter DWORD

datatype BALLOON =
  ConfigurationNotice | ExcludeListNotice | ConfigEncoding | PermissionNotice
  | ProcessTerminated DWORD | SuspiciousSystemProcess DWORD

datatype ACTION =
  Log LOG_LINE
  | ShowBalloon BALLOON
  | OpenProcessTerminate DWORD
  | TerminateProcess DWORD
  | BackoffWait ULONGLONG

section \<open>Configuration loading\<close>

text \<open>
  What \<^verbatim>\<open>LoadConfig\<close> reads from the outside: whether \<^verbatim>\<open>config.ini\<close> exists, the
  eight values \<^verbatim>\<open>GetPrivateProfileIntW\<close> returned (the API has already put the default
  in place of a missing key), the tick count, the outcome of reading and splitting
  \<^verbatim>\<open>ExcludeProcesses\<close> (the list, the warning flag and the lines logged on the way;
  \<^verbatim>\<open>SplitExcludeString\<close> itself is not modelled), and the first bytes of the file
  (empty when the file could not be opened or read).
\<close>

record CONFIG_ENV =
  fileExists :: bool
  iniMonitorIntervalMs :: DWORD
  iniCpuThresholdPercent :: DWORD
  iniMemThresholdMb :: DWORD
  iniHangTimeoutMs :: DWORD
  iniLogMaxSizeBytes :: DWORD
  iniMaxHungWindows :: DWORD
  iniNotifyOnTermination :: DWORD
  iniStartMonitoringOnLaunch :: DWORD
  configTick :: ULONGLONG
  excludeParsed :: "string list"
  excludeWarning :: bool
  excludeLog :: "EXCLUDE_LINE list"
  fileHead :: "8 word list"

text \<open>
  The \<^verbatim>\<open>CLAMP\<close> macro on one field: the new value, whether \<^verbatim>\<open>clamped\<close> was set,
  and the line logged when the value changed.
\<close>

definition CLAMP :: "CONFIG_FIELD \<Rightarrow> DWORD \<Rightarrow> DWORD \<Rightarrow> DWORD \<Rightarrow> DWORD \<times> bool \<times> ACTION list" where
  "CLAMP name mn mx orig =
     (let (v1, c1) = (if orig < mn then (mn, True) else (orig, False));
          (v2, c2) = (if v1 > mx then (mx, True) else (v1, c1))
      in (v2, c2, if v2 \<noteq> orig then [Log (ConfigAdjusted name orig v2 mn mx)] else []))"

definition hasBOM :: "8 word list \<Rightarrow> bool" where
  "hasBOM buffer =
     ((length buffer \<ge> 2 \<and> buffer ! 0 = 0xFF \<and> buffer ! 1 = 0xFE) \<or>
      (length buffer \<ge> 3 \<and> buffer ! 0 = 0xEF \<and> buffer ! 1 = 0xBB \<and> buffer ! 2 = 0xBF))"

definition LoadConfig :: "CONFIG_ENV \<Rightarrow> GLOBAL \<Rightarrow> bool \<times> GLOBAL \<times> ACTION list" where
  "LoadConfig env g =
     (if \<not> fileExists env then (False, g, [])
      else
        let now = configTick env;
            (v1, c1, l1) = CLAMP MonitorIntervalMs MIN_MONITOR_INTERVAL_MS MAX_MONITOR_INTERVAL_MS
                             (iniMonitorIntervalMs env);
            (v2, c2, l2) = CLAMP CpuThresholdPercent MIN_CPU_THRESHOLD MAX_CPU_THRESHOLD
                             (iniCpuThresholdPercent env);
            (v3, c3, l3) = CLAMP MemThresholdMb MIN_MEM_THRESHOLD_MB MAX_MEM_THRESHOLD_MB
                             (iniMemThresholdMb env);
            (v4, c4, l4) = CLAMP HangTimeoutMs MIN_HANG_TIMEOUT_MS MAX_HANG_TIMEOUT_MS
                             (iniHangTimeoutMs env);
            (v5, c5, l5) = CLAMP LogMaxSizeBytes MIN_LOG_SIZE_BYTES MAX_LOG_SIZE_BYTES
                             (iniLogMaxSizeBytes env);
            (v6, c6, l6) = CLAMP MaxHungWindows MIN_MAX_HUNG_WINDOWS MAX_MAX_HUNG_WINDOWS
                             (iniMaxHungWindows env);
            clamped = (c1 \<or> c2 \<or> c3 \<or> c4 \<or> c5 \<or> c6);
            clampNotice = (clamped \<and> now - lastClampWarningTick g \<ge> WARNING_COOLDOWN_MS);
            excludeNotice = (excludeWarning env \<and> now - lastExcludeWarningTick g \<ge> WARNING_COOLDOWN_MS);
            buffer = take 255 (fileHead env);
            encodingNotice = (buffer \<noteq> [] \<and> (hasBOM buffer \<or> buffer ! 0 > 127) \<and>
                              now - lastEncodingWarningTick g \<ge> ENCODING_WARNING_COOLDOWN_MS);
            newConfig = \<lparr> monitorIntervalMs = v1, cpuThresholdPercent = v2, memThresholdMb = v3,
                          hangTimeoutMs = v4, logMaxSizeBytes = v5, maxHungWindows = v6,
                          notifyOnTermination = (iniNotifyOnTermination env \<noteq> 0),
                          excludeList = excludeParsed env,
                          monitoringDefault = (iniStartMonitoringOnLaunch env \<noteq> 0) \<rparr>
        in (True,
            g \<lparr> config := newConfig,
                lastClampWarningTick := (if clampNotice then now else lastClampWarningTick g),
                lastExcludeWarningTick := (if excludeNotice then now else lastExcludeWarningTick g),
                lastEncodingWarningTick := (if encodingNotice then now else lastEncodingWarningTick g) \<rparr>,
            l1 @ l2 @ l3 @ l4 @ l5 @ l6 @
            (if clampNotice then [ShowBalloon ConfigurationNotice] else []) @
            map (\<lambda>l. Log (ExcludeNote l)) (excludeLog env) @
            (if excludeNotice then [ShowBalloon ExcludeListNotice] else []) @
            (if encodingNotice
             then [Log (if hasBOM buffer then BomNote else NonAsciiNote), ShowBalloon ConfigEncoding]
             else [])))"

text \<open>The six clamped fields: the value read, the documented range, the value loaded.\<close>

fun ini_value :: "CONFIG_ENV \<Rightarrow> CONFIG_FIELD \<Rightarrow> DWORD" where
  "ini_value env MonitorIntervalMs = iniMonitorIntervalMs env"
| "ini_value env CpuThresholdPercent = iniCpuThresholdPercent env"
| "ini_value env MemThresholdMb = iniMemThresholdMb env"
| "ini_value env HangTimeoutMs = iniHangTimeoutMs env"
| "ini_value env LogMaxSizeBytes = iniLogMaxSizeBytes env"
| "ini_value env MaxHungWindows = iniMaxHungWindows env"

fun field_min :: "CONFIG_FIELD \<Rightarrow> DWORD" where
  "field_min MonitorIntervalMs = MIN_MONITOR_INTERVAL_MS"
| "field_min CpuThresholdPercent = MIN_CPU_THRESHOLD"
| "field_min MemThresholdMb = MIN_MEM_THRESHOLD_MB"
| "field_min HangTimeoutMs = MIN_HANG_TIMEOUT_MS"
| "field_min LogMaxSizeBytes = MIN_LOG_SIZE_BYTES"
| "field_min MaxHungWindows = MIN_MAX_HUNG_WINDOWS"

fun field_max :: "CONFIG_FIELD \<Rightarrow> DWORD" where
  "field_max MonitorIntervalMs = MAX_MONITOR_INTERVAL_MS"
| "field_max CpuThresholdPercent = MAX_CPU_THRESHOLD"
| "field_max MemThresholdMb = MAX_MEM_THRESHOLD_MB"
| "field_max HangTimeoutMs = MAX_HANG_TIMEOUT_MS"
| "field_max LogMaxSizeBytes = MAX_LOG_SIZE_BYTES"
| "field_max MaxHungWindows = MAX_MAX_HUNG_WINDOWS"

fun loaded_value :: "CONFIG \<Rightarrow> CONFIG_FIELD \<Rightarrow> DWORD" where
  "loaded_value c MonitorIntervalMs = monitorIntervalMs c"
| "loaded_value c CpuThresholdPercent = cpuThresholdPercent c"
| "loaded_value c MemThresholdMb = memThresholdMb c"
| "loaded_value c HangTimeoutMs = hangTimeoutMs c"
| "loaded_value c LogMaxSizeBytes = logMaxSizeBytes c"
| "loaded_value c MaxHungWindows = maxHungWindows c"

section \<open>Strings\<close>

text \<open>
  \<^verbatim>\<open>_wcsicmp\<close> and \<^verbatim>\<open>_wcsnicmp\<close> compare the lower-case forms of the characters.
  The program never calls \<^verbatim>\<open>setlocale\<close>, so the C locale is in force and only the
  letters A to Z have a lower-case form. The model keeps the test the code makes of the
  result: \<open>wcsicmp_eq a b\<close> is \<^verbatim>\<open>_wcsicmp(a, b) == 0\<close>, and \<open>wcsnicmp_eq a b n\<close> is
  \<^verbatim>\<open>_wcsnicmp(a, b, n) == 0\<close> (the first \<open>n\<close> characters agree, or both strings end
  before that and agree).
\<close>

definition towlower :: "char \<Rightarrow> char" where
  "towlower c =
     (let n = (of_char c :: nat) in if 65 \<le> n \<and> n \<le> 90 then char_of (n + 32) else c)"

definition wcsicmp_eq :: "string \<Rightarrow> string \<Rightarrow> bool" where
  "wcsicmp_eq a b = (map towlower a = map towlower b)"

definition wcsnicmp_eq :: "string \<Rightarrow> string \<Rightarrow> nat \<Rightarrow> bool" where
  "wcsnicmp_eq a b n = (take n (map towlower a) = take n (map towlower b))"

text \<open>\<^verbatim>\<open>wcsncpy_s(dest, MAX_PATH_LEN, src, _TRUNCATE)\<close>: at most 259 characters are kept.\<close>

definition wcsncpy_truncate :: "string \<Rightarrow> string" where
  "wcsncpy_truncate src = take (MAX_PATH_LEN - 1) src"

section \<open>Balloon cooldown\<close>

text \<open>
  The loop of \<^verbatim>\<open>ShouldShowBalloonForProcess\<close> over the cooldown list: \<open>None\<close> when
  no node has the name, otherwise the value returned and the list, with the node's
  \<^verbatim>\<open>lastTick\<close> refreshed when the cooldown has elapsed. The subtraction is unsigned
  64-bit.
\<close>

fun cooldown_loop :: "string \<Rightarrow> ULONGLONG \<Rightarrow> BALLOON_COOLDOWN list \<Rightarrow> (bool \<times> BALLOON_COOLDOWN list) option" where
  "cooldown_loop name now [] = None"
| "cooldown_loop name now (cur # rest) =
     (if wcsicmp_eq (processName cur) name
      then (if now - lastTick cur < SUSPICIOUS_BALLOON_COOLDOWN_MS
            then Some (False, cur # rest)
            else Some (True, cur \<lparr> lastTick := now \<rparr> # rest))
      else (case cooldown_loop name now rest of
              None \<Rightarrow> None
            | Some (r, rest') \<Rightarrow> Some (r, cur # rest')))"

text \<open>
  \<^verbatim>\<open>ShouldShowBalloonForProcess\<close>. \<open>now\<close> is what \<^verbatim>\<open>GetTickCount64\<close> returned and
  \<open>mallocOk\<close> whether \<^verbatim>\<open>malloc\<close> returned a node. The callers pass the
  \<^verbatim>\<open>szExeFile\<close> array, never a null pointer, so the name is a string; the empty
  string takes the early return.
\<close>

definition ShouldShowBalloonForProcess ::
  "string \<Rightarrow> ULONGLONG \<Rightarrow> bool \<Rightarrow> BALLOON_COOLDOWN list \<Rightarrow> bool \<times> BALLOON_COOLDOWN list" where
  "ShouldShowBalloonForProcess name now mallocOk cooldown =
     (if name = [] then (False, cooldown)
      else (case cooldown_loop name now cooldown of
              Some r \<Rightarrow> r
            | None \<Rightarrow>
                (True,
                 if mallocOk
                 then \<lparr> processName = wcsncpy_truncate name, lastTick = now \<rparr> # cooldown
                 else cooldown)))"

definition BALLOON_CLEANUP_INTERVAL_MS :: ULONGLONG where
  "BALLOON_CLEANUP_INTERVAL_MS = 60 * 60 * 1000"

definition PeriodicBalloonCleanup :: "ULONGLONG \<Rightarrow> GLOBAL \<Rightarrow> GLOBAL" where
  "PeriodicBalloonCleanup now g =
     (if now - lastBalloonCleanupTick g < BALLOON_CLEANUP_INTERVAL_MS then g
      else g \<lparr> balloonCooldown :=
                 filter (\<lambda>cur. \<not> now - lastTick cur > SUSPICIOUS_BALLOON_COOLDOWN_MS)
                   (balloonCooldown g),
               lastBalloonCleanupTick := now \<rparr>)"

section \<open>Process history\<close>

text \<open>
  The three times the code keeps of \<^verbatim>\<open>GetProcessTimes\<close>: creation, kernel, user;
  \<open>None\<close> when the call (or the \<^verbatim>\<open>OpenProcess\<close> before it) failed.
\<close>

type_synonym PROCESS_TIMES = "(FILETIME \<times> FILETIME \<times> FILETIME) option"

text \<open>The node \<^verbatim>\<open>FindOrCreateHistory\<close> builds: zeroed, then the process ID, the seen
  mark and, when the times could be read, the baseline.\<close>

definition new_history :: "DWORD \<Rightarrow> PROCESS_TIMES \<Rightarrow> 64 word \<Rightarrow> PROCESS_HISTORY" where
  "new_history p ptimes perf =
     (let zeroed = \<lparr> pid = p, ftCreate = 0, ftKernel = 0, ftUser = 0, perfTime = 0,
                      terminateAttempts = 0, terminateAttemptsHung = 0, terminateLogSent = 0,
                      terminateLogSentHung = 0, seen = True \<rparr>
      in case ptimes of
           None \<Rightarrow> zeroed
         | Some (c, k, u) \<Rightarrow> zeroed \<lparr> ftCreate := c, ftKernel := k, ftUser := u, perfTime := perf \<rparr>)"

text \<open>The first node with a process ID, and a change made through a pointer to it.\<close>

fun find_history :: "DWORD \<Rightarrow> PROCESS_HISTORY list \<Rightarrow> PROCESS_HISTORY option" where
  "find_history p [] = None"
| "find_history p (cur # rest) = (if pid cur = p then Some cur else find_history p rest)"

fun update_history ::
  "DWORD \<Rightarrow> (PROCESS_HISTORY \<Rightarrow> PROCESS_HISTORY) \<Rightarrow> PROCESS_HISTORY list \<Rightarrow> PROCESS_HISTORY list" where
  "update_history p f [] = []"
| "update_history p f (cur # rest) =
     (if pid cur = p then f cur # rest else cur # update_history p f rest)"

text \<open>
  \<^verbatim>\<open>FindOrCreateHistory\<close> returns a pointer into the list. The model returns the node
  it points to (\<open>None\<close> for the null pointer) and the list; what the caller then writes
  through the pointer is stored back with \<open>store_history\<close>, at the first node with that
  process ID, which is the node the pointer is to.
\<close>

definition FindOrCreateHistory ::
  "DWORD \<Rightarrow> bool \<Rightarrow> PROCESS_TIMES \<Rightarrow> 64 word \<Rightarrow> PROCESS_HISTORY list
     \<Rightarrow> PROCESS_HISTORY option \<times> PROCESS_HISTORY list" where
  "FindOrCreateHistory p mallocOk ptimes perf hs =
     (case find_history p hs of
        Some cur \<Rightarrow> (Some (cur \<lparr> seen := True \<rparr>), update_history p (\<lambda>h. h \<lparr> seen := True \<rparr>) hs)
      | None \<Rightarrow>
          if mallocOk
          then (let newHist = new_history p ptimes perf in (Some newHist, newHist # hs))
          else (None, hs))"

definition store_history :: "PROCESS_HISTORY \<Rightarrow> PROCESS_HISTORY list \<Rightarrow> PROCESS_HISTORY list" where
  "store_history h hs = update_history (pid h) (\<lambda>_. h) hs"

fun RemoveHistory :: "DWORD \<Rightarrow> PROCESS_HISTORY list \<Rightarrow> PROCESS_HISTORY list" where
  "RemoveHistory p [] = []"
| "RemoveHistory p (cur # rest) = (if pid cur = p then rest else cur # RemoveHistory p rest)"

fun CleanupHistory :: "PROCESS_HISTORY list \<Rightarrow> PROCESS_HISTORY list" where
  "CleanupHistory [] = []"
| "CleanupHistory (cur # rest) =
     (if \<not> seen cur then CleanupHistory rest
      else cur \<lparr> seen := False \<rparr> # CleanupHistory rest)"

definition ResetAllHistory :: "PROCESS_HISTORY list \<Rightarrow> PROCESS_HISTORY list" where
  "ResetAllHistory hs = []"

section \<open>Floating point\<close>

text \<open>
  The \<^verbatim>\<open>float\<close> and \<^verbatim>\<open>double\<close> values of the program are IEEE 754 binary32 and
  binary64 numbers, every operation rounded to the type it has in the C code, to the
  nearest value and, of two nearest values, to the one with an even last digit. A value
  is a number or not a number; in the computations of the program an infinity comes up
  only as the divisor \<^verbatim>\<open>seconds\<close> of \<^verbatim>\<open>CalcCpuUsage\<close> when the frequency is 0, and
  that case is written out there.
\<close>

datatype FLOAT = Finite real | NaN

text \<open>The comparisons of C: each is false when the value is not a number.\<close>

fun float_less :: "FLOAT \<Rightarrow> real \<Rightarrow> bool" where
  "float_less (Finite x) y = (x < y)"
| "float_less NaN y = False"

fun float_greater :: "FLOAT \<Rightarrow> real \<Rightarrow> bool" where
  "float_greater (Finite x) y = (x > y)"
| "float_greater NaN y = False"

fun float_greater_eq :: "FLOAT \<Rightarrow> real \<Rightarrow> bool" where
  "float_greater_eq (Finite x) y = (x \<ge> y)"
| "float_greater_eq NaN y = False"

text \<open>The nearest integer, and the even one of two nearest.\<close>

definition round_even :: "real \<Rightarrow> int" where
  "round_even x =
     (let n = \<lfloor>x\<rfloor>; d = x - of_int n
      in if d < 1 / 2 then n else if 1 / 2 < d then n + 1 else if even n then n else n + 1)"

text \<open>
  The exponent \<open>e\<close> of a number \<open>x\<close> other than 0, with \<open>2 powi e \<le> \<bar>x\<bar> < 2 powi (e + 1)\<close>.
  It is looked for from \<open>-1100\<close> up to \<open>1100\<close>, which is more than the exponents of a
  \<^verbatim>\<open>double\<close>.
\<close>

fun binade_up :: "nat \<Rightarrow> int \<Rightarrow> real \<Rightarrow> int" where
  "binade_up 0 e x = e"
| "binade_up (Suc n) e x = (if x < 2 powi (e + 1) then e else binade_up n (e + 1) x)"

definition binade :: "real \<Rightarrow> int" where
  "binade x = binade_up 2200 (- 1100) \<bar>x\<bar>"

text \<open>
  Rounding to \<open>p\<close> significant binary digits. This is the rounding of IEEE 754 for a
  result that is neither too large nor too small for the type. The results rounded in
  the program are such: each is 0 or of a size between \<open>10 powi (- 24)\<close> and
  \<open>10 powi 35\<close>, as 64-bit integers and their quotients by each other and by the
  constants 10, 10000 and 10000000 are, which is within the range of a \<^verbatim>\<open>float\<close>.
\<close>

definition to_precision :: "nat \<Rightarrow> real \<Rightarrow> real" where
  "to_precision p x =
     (if x = 0 then 0
      else let ulp = 2 powi (binade x - int p + 1)
           in of_int (round_even (x / ulp)) * ulp)"

definition to_double :: "real \<Rightarrow> real" where
  "to_double x = to_precision 53 x"

definition to_float :: "real \<Rightarrow> real" where
  "to_float x = to_precision 24 x"

text \<open>The division of two \<^verbatim>\<open>double\<close> numbers, the divisor not 0.\<close>

definition double_div :: "real \<Rightarrow> real \<Rightarrow> real" where
  "double_div a b = to_double (a / b)"

section \<open>CPU usage\<close>

text \<open>
  \<^verbatim>\<open>CalcCpuUsage\<close>. \<open>hProcess\<close> says whether the handle is non-null, \<open>ptimes\<close> is what
  \<^verbatim>\<open>GetProcessTimes\<close> gave, \<open>nowPerf\<close> and \<open>perfFreq\<close> what
  \<^verbatim>\<open>QueryPerformanceCounter\<close> and \<^verbatim>\<open>QueryPerformanceFrequency\<close> gave.
  \<^verbatim>\<open>timeDelta\<close> is unsigned 64-bit arithmetic; the difference of the two counters is
  signed 64-bit. The result is the returned \<^verbatim>\<open>float\<close> and the history node, whose
  baseline moves only on the last path.

  With the frequency 0 the division that gives \<^verbatim>\<open>seconds\<close> is a division by zero:
  \<^verbatim>\<open>seconds\<close> is minus infinity for a negative difference of the counters, which is
  \<^verbatim>\<open>\<le> 0.0\<close>; plus infinity for a positive one, which makes the percentage 0; and
  not a number for the difference 0, which is not \<^verbatim>\<open>\<le> 0.0\<close> and makes the percentage
  not a number.
\<close>

definition CalcCpuUsage ::
  "bool \<Rightarrow> PROCESS_TIMES \<Rightarrow> 64 word \<Rightarrow> 64 word \<Rightarrow> PROCESS_HISTORY \<Rightarrow> FLOAT \<times> PROCESS_HISTORY" where
  "CalcCpuUsage hProcess ptimes nowPerf perfFreq hist =
     (if \<not> hProcess then (Finite (- 1), hist)
      else (case ptimes of
              None \<Rightarrow> (Finite (- 1), hist)
            | Some (ftCreate', ftKernel', ftUser') \<Rightarrow>
                let timeDelta = (ftKernel' - ftKernel hist) + (ftUser' - ftUser hist);
                    moved = hist \<lparr> ftKernel := ftKernel', ftUser := ftUser', perfTime := nowPerf \<rparr>
                in if timeDelta = 0 then (Finite 0, hist)
                   else if sint perfFreq = 0
                   then (if sint (nowPerf - perfTime hist) < 0 then (Finite 0, hist)
                         else if sint (nowPerf - perfTime hist) = 0 then (NaN, moved)
                         else (Finite 0, moved))
                   else
                     let seconds = double_div (to_double (real_of_int (sint (nowPerf - perfTime hist))))
                                     (to_double (real_of_int (sint perfFreq)))
                     in if seconds \<le> 0 then (Finite 0, hist)
                        else (Finite (to_float
                                (double_div
                                   (double_div (double_div (to_double (real (unat timeDelta))) 10000)
                                      seconds)
                                   10)),
                              moved)))"

text \<open>\<^verbatim>\<open>CalcAverageCpuUsage\<close>; \<open>nowFt\<close> is what \<^verbatim>\<open>GetSystemTimeAsFileTime\<close> gave.\<close>

definition CalcAverageCpuUsage :: "bool \<Rightarrow> PROCESS_TIMES \<Rightarrow> FILETIME \<Rightarrow> FLOAT" where
  "CalcAverageCpuUsage hProcess ptimes nowFt =
     (if \<not> hProcess then Finite (- 1)
      else (case ptimes of
              None \<Rightarrow> Finite (- 1)
            | Some (ftCreate', ftKernel', ftUser') \<Rightarrow>
                let totalTime = ftKernel' + ftUser';
                    age = nowFt - ftCreate'
                in if age = 0 then Finite 0
                   else Finite (to_float
                          (double_div
                             (double_div (double_div (to_double (real (unat totalTime))) 10000)
                                (double_div (to_double (real (unat age))) 10000000))
                             10))))"

section \<open>Checking one process\<close>

text \<open>
  What the calls made for one process in one scan returned:
  \<^item> \<open>processPath\<close>: the path \<^verbatim>\<open>GetProcessPathW\<close> wrote in \<^verbatim>\<open>CheckProcess\<close>;
  \<^item> \<open>historyMalloc\<close>, \<open>baselineTimes\<close>, \<open>baselinePerf\<close>: in
    \<^verbatim>\<open>FindOrCreateHistory\<close>, whether \<^verbatim>\<open>malloc\<close> returned a node, the process times
    and the performance counter;
  \<^item> \<open>queryHandle\<close>: whether the handle for querying is non-null
    (\<^verbatim>\<open>OpenProcessForQuery\<close>, or the \<^verbatim>\<open>OpenProcess\<close> of \<^verbatim>\<open>CheckSystemProcess\<close>);
  \<^item> \<open>processTimes\<close>, \<open>nowPerf\<close>, \<open>perfFreq\<close>: the three calls of \<^verbatim>\<open>CalcCpuUsage\<close>;
  \<^item> \<open>workingSetSize\<close>: \<^verbatim>\<open>WorkingSetSize\<close> in bytes, \<open>None\<close> when
    \<^verbatim>\<open>GetProcessMemoryInfo\<close> failed;
  \<^item> \<open>averageTimes\<close>, \<open>nowFileTime\<close>: the two calls of \<^verbatim>\<open>CalcAverageCpuUsage\<close>;
  \<^item> \<open>terminateOpenError\<close>: \<open>None\<close> when \<^verbatim>\<open>OpenProcess(PROCESS_TERMINATE)\<close>
    returned a handle, otherwise the error code; \<open>terminateOk\<close>: what
    \<^verbatim>\<open>TerminateProcess\<close> returned;
  \<^item> \<open>balloonTick\<close>, \<open>balloonMalloc\<close>: in \<^verbatim>\<open>ShouldShowBalloonForProcess\<close>, the tick
    count and whether \<^verbatim>\<open>malloc\<close> returned a node.
  The paths written into log lines and balloons are not modelled.
\<close>

record PROCESS_ENV =
  processPath :: string
  historyMalloc :: bool
  baselineTimes :: PROCESS_TIMES
  baselinePerf :: "64 word"
  queryHandle :: bool
  processTimes :: PROCESS_TIMES
  nowPerf :: "64 word"
  perfFreq :: "64 word"
  workingSetSize :: "nat option"
  averageTimes :: PROCESS_TIMES
  nowFileTime :: FILETIME
  terminateOpenError :: "DWORD option"
  terminateOk :: bool
  balloonTick :: ULONGLONG
  balloonMalloc :: bool

fun IsProcessHung :: "DWORD \<Rightarrow> DWORD list \<Rightarrow> bool" where
  "IsProcessHung p [] = False"
| "IsProcessHung p (node # hungList) = (if node = p then True else IsProcessHung p hungList)"

text \<open>
  \<^verbatim>\<open>MeasureProcessResources\<close>: the CPU percentage (the sentinel replaced by 0), the
  memory in MB, whether the memory is valid, and the history node after
  \<^verbatim>\<open>CalcCpuUsage\<close>. It is called with a non-null handle.
\<close>

definition MeasureProcessResources ::
  "PROCESS_ENV \<Rightarrow> PROCESS_HISTORY \<Rightarrow> FLOAT \<times> nat \<times> bool \<times> PROCESS_HISTORY" where
  "MeasureProcessResources env hist =
     (let (cpu, hist') = CalcCpuUsage True (processTimes env) (nowPerf env) (perfFreq env) hist;
          cpu' = (if float_less cpu 0 then Finite 0 else cpu)
      in case workingSetSize env of
           Some w \<Rightarrow> (cpu', w div (1024 * 1024), True, hist')
         | None \<Rightarrow> (cpu', 0, False, hist'))"

text \<open>
  \<^verbatim>\<open>FormatReason\<close>: \<open>None\<close> is the empty buffer. The comparison of the \<^verbatim>\<open>float\<close>
  with the \<^verbatim>\<open>DWORD\<close> threshold is made in \<^verbatim>\<open>float\<close>, to which the threshold is
  converted.
\<close>

definition FormatReason :: "FLOAT \<Rightarrow> DWORD \<Rightarrow> bool \<Rightarrow> nat \<Rightarrow> DWORD \<Rightarrow> bool \<Rightarrow> REASON option" where
  "FormatReason cpu cpuThreshold memValid memMB memThreshold hung =
     (if float_greater cpu (to_float (real (unat cpuThreshold))) then Some HighCPU
      else if memValid \<and> memMB > unat memThreshold then Some HighMemory
      else if hung then Some WindowNotResponding
      else None)"

text \<open>
  \<^verbatim>\<open>TryTerminateProcess\<close>. Both callers pass the addresses of two variables, so
  \<open>attempts\<close> and \<open>logSent\<close> are values and the new values are returned, with the new
  value of the static \<open>accessDeniedShown\<close>. The result is: the returned flag, the two
  counters, the static, the actions.
\<close>

definition TryTerminateProcess ::
  "DWORD \<Rightarrow> int \<Rightarrow> int \<Rightarrow> PROCESS_ENV \<Rightarrow> bool \<Rightarrow> bool \<times> int \<times> int \<times> bool \<times> ACTION list" where
  "TryTerminateProcess p attempts logSent env shown =
     (case terminateOpenError env of
        Some err \<Rightarrow>
          let notice = (err = ERROR_ACCESS_DENIED \<and> \<not> shown)
          in (False, attempts, logSent, (shown \<or> notice),
              [OpenProcessTerminate p, Log (FailedToOpenForTermination p)] @
              (if notice then [ShowBalloon PermissionNotice] else []))
      | None \<Rightarrow>
          if terminateOk env
          then (True, attempts, logSent, shown,
                [OpenProcessTerminate p, TerminateProcess p, Log (SuccessfullyTerminated p)])
          else
            let attempts' = attempts + 1;
                exhausted = (logSent = 0 \<and> attempts' \<ge> TERMINATE_RETRY_LIMIT)
            in (False, attempts', (if exhausted then 1 else logSent), shown,
                [OpenProcessTerminate p, TerminateProcess p, Log (FailedToTerminate p)] @
                (if exhausted then [Log (AttemptsExhaustedWillStopTrying p)] else [])))"

text \<open>
  The two functions that decide on a termination take the history node the caller's
  pointer is to and return: the node as they leave it, whether they called
  \<^verbatim>\<open>RemoveHistory\<close>, the static \<open>accessDeniedShown\<close>, and the actions.
  \<^verbatim>\<open>CheckProcessHungAndTerminate\<close> is also called with a null pointer: \<open>None\<close>.
\<close>

definition CheckProcessHungAndTerminate ::
  "PROCESS_HISTORY option \<Rightarrow> DWORD \<Rightarrow> DWORD list \<Rightarrow> PROCESS_ENV \<Rightarrow> bool
     \<Rightarrow> PROCESS_HISTORY option \<times> bool \<times> bool \<times> ACTION list" where
  "CheckProcessHungAndTerminate hist p hungList env shown =
     (if \<not> IsProcessHung p hungList
      then (map_option (\<lambda>h. h \<lparr> terminateAttemptsHung := 0 \<rparr>) hist, False, shown, [])
      else
        let attempts = (case hist of Some h \<Rightarrow> terminateAttemptsHung h | None \<Rightarrow> 0);
            logSent = (case hist of Some h \<Rightarrow> terminateLogSentHung h | None \<Rightarrow> 0)
        in if attempts \<ge> TERMINATE_RETRY_LIMIT
           then (case hist of
                   Some h \<Rightarrow>
                     if logSent = 0
                     then (Some (h \<lparr> terminateLogSentHung := 1 \<rparr>), False, shown,
                           [Log (HungButAttemptsExhausted p)])
                     else (hist, False, shown, [])
                 | None \<Rightarrow> (hist, False, shown, []))
           else
             let (ok, attempts', logSent', shown', acts) =
                   TryTerminateProcess p attempts logSent env shown
             in if ok then (hist, True, shown', acts)
                else (map_option (\<lambda>h. h \<lparr> terminateAttemptsHung := attempts',
                                            terminateLogSentHung := logSent' \<rparr>) hist,
                      False, shown', acts))"

text \<open>
  \<^verbatim>\<open>LogEvent\<close> with \<^verbatim>\<open>isSuspicious\<close> false: the "Terminated process" line and, when
  \<^verbatim>\<open>g.config.notifyOnTermination\<close> is set, the balloon.
\<close>

definition LogEvent_terminated :: "DWORD \<Rightarrow> REASON \<Rightarrow> bool \<Rightarrow> ACTION list" where
  "LogEvent_terminated p reason notify =
     Log (TerminatedProcessEvent p reason) #
     (if notify then [ShowBalloon (ProcessTerminated p)] else [])"

definition CheckProcessResourcesAndTerminate ::
  "PROCESS_HISTORY \<Rightarrow> DWORD \<Rightarrow> CONFIG \<Rightarrow> DWORD list \<Rightarrow> PROCESS_ENV \<Rightarrow> bool \<Rightarrow> bool
     \<Rightarrow> PROCESS_HISTORY \<times> bool \<times> bool \<times> ACTION list" where
  "CheckProcessResourcesAndTerminate hist p cfg hungList env notify shown =
     (let (cpu, memMB, memValid, hist1) = MeasureProcessResources env hist;
          hung = IsProcessHung p hungList
      in case FormatReason cpu (cpuThresholdPercent cfg) memValid memMB (memThresholdMb cfg) hung of
           Some reason \<Rightarrow>
             if terminateAttempts hist1 \<ge> TERMINATE_RETRY_LIMIT
             then (if terminateLogSent hist1 = 0
                   then (hist1 \<lparr> terminateLogSent := 1 \<rparr>, False, shown,
                         [Log (ExceedsThresholdButAttemptsExhausted p)])
                   else (hist1, False, shown, []))
             else
               let (ok, attempts', logSent', shown', acts) =
                     TryTerminateProcess p (terminateAttempts hist1) (terminateLogSent hist1) env shown
               in (hist1 \<lparr> terminateAttempts := attempts', terminateLogSent := logSent' \<rparr>,
                   ok, shown', LogEvent_terminated p reason notify @ acts)
         | None \<Rightarrow> (hist1 \<lparr> terminateAttempts := 0, terminateLogSent := 0 \<rparr>, False, shown, []))"

text \<open>
  \<^verbatim>\<open>CheckNormalProcess\<close>: the node is fetched, handed to one of the two functions,
  and what they did through the pointer is put into the list.
\<close>

definition CheckNormalProcess ::
  "PROCESSENTRY32W \<Rightarrow> CONFIG \<Rightarrow> DWORD list \<Rightarrow> PROCESS_ENV \<Rightarrow> GLOBAL \<Rightarrow> GLOBAL \<times> ACTION list" where
  "CheckNormalProcess pe cfg hungList env g =
     (let p = th32ProcessID pe;
          (hist, hs) = FindOrCreateHistory p (historyMalloc env) (baselineTimes env)
                         (baselinePerf env) (history g)
      in case hist of
           None \<Rightarrow>
             let (hist', removed, shown', acts) =
                   CheckProcessHungAndTerminate None p hungList env (accessDeniedShown g)
             in (g \<lparr> history := (if removed then RemoveHistory p hs else hs),
                      accessDeniedShown := shown' \<rparr>, acts)
         | Some h \<Rightarrow>
             if \<not> queryHandle env
             then
               let (hist', removed, shown', acts) =
                     CheckProcessHungAndTerminate (Some h) p hungList env (accessDeniedShown g)
               in (g \<lparr> history := (if removed then RemoveHistory p hs
                                     else (case hist' of Some h' \<Rightarrow> store_history h' hs | None \<Rightarrow> hs)),
                        accessDeniedShown := shown' \<rparr>, acts)
             else
               let (h', removed, shown', acts) =
                     CheckProcessResourcesAndTerminate h p cfg hungList env
                       (notifyOnTermination (config g)) (accessDeniedShown g)
               in (g \<lparr> history := (if removed then RemoveHistory p hs else store_history h' hs),
                        accessDeniedShown := shown' \<rparr>, acts))"

text \<open>
  \<^verbatim>\<open>CheckSystemProcess\<close>. It calls \<^verbatim>\<open>LogEvent\<close> with \<^verbatim>\<open>isSuspicious\<close> true,
  which writes the one "SUSPICIOUS SYSTEM PROCESS" line.
\<close>

definition suspicious_alert ::
  "PROCESSENTRY32W \<Rightarrow> SYSTEM_REASON \<Rightarrow> PROCESS_ENV \<Rightarrow> GLOBAL \<Rightarrow> GLOBAL \<times> ACTION list" where
  "suspicious_alert pe reason env g =
     (let (allow, cooldown) =
            ShouldShowBalloonForProcess (szExeFile pe) (balloonTick env) (balloonMalloc env)
              (balloonCooldown g)
      in (g \<lparr> balloonCooldown := cooldown \<rparr>,
          (if allow then [ShowBalloon (SuspiciousSystemProcess (th32ProcessID pe))] else []) @
          [Log (SuspiciousSystemProcessEvent (th32ProcessID pe) reason)]))"

definition CheckSystemProcess ::
  "PROCESSENTRY32W \<Rightarrow> CONFIG \<Rightarrow> DWORD list \<Rightarrow> PROCESS_ENV \<Rightarrow> GLOBAL \<Rightarrow> GLOBAL \<times> ACTION list" where
  "CheckSystemProcess pe cfg hungList env g =
     (let p = th32ProcessID pe
      in if IsProcessHung p hungList then suspicious_alert pe HungWindow env g
         else if \<not> queryHandle env then (g, [])
         else
           let (hist, hs) = FindOrCreateHistory p (historyMalloc env) (baselineTimes env)
                              (baselinePerf env) (history g);
               (instCpu, hs') =
                 (case hist of
                    None \<Rightarrow> (Finite 0, hs)
                  | Some h \<Rightarrow>
                      let (cpu, h') = CalcCpuUsage True (processTimes env) (nowPerf env) (perfFreq env) h
                      in ((if float_less cpu 0 then Finite 0 else cpu), store_history h' hs));
               (memMB, memValid) =
                 (case workingSetSize env of
                    Some w \<Rightarrow> (w div (1024 * 1024), True)
                  | None \<Rightarrow> (0, False));
               avgCpu = CalcAverageCpuUsage True (averageTimes env) (nowFileTime env);
               cpuValid = float_greater_eq avgCpu 0;
               g' = g \<lparr> history := hs' \<rparr>
           in if float_greater instCpu (to_float (real (unat (cpuThresholdPercent cfg))))
              then suspicious_alert pe HighInstantaneousCPU env g'
              else if cpuValid \<and> float_greater avgCpu (to_float (real (unat (cpuThresholdPercent cfg))))
              then suspicious_alert pe HighAverageCPU env g'
              else if memValid \<and> memMB > unat (memThresholdMb cfg)
              then suspicious_alert pe HighMemoryUse env g'
              else (g', []))"

section \<open>Routing\<close>

definition systemNames :: "string list" where
  "systemNames =
     [''csrss.exe'', ''services.exe'', ''lsass.exe'', ''lsm.exe'', ''smss.exe'', ''wininit.exe'',
      ''winlogon.exe'', ''system'', ''system.exe'', ''svchost.exe'', ''dwm.exe'',
      ''conhost.exe'', ''spoolsv.exe'', ''taskhost.exe'', ''taskhostw.exe'',
      ''explorer.exe'', ''fontdrvhost.exe'', ''SearchIndexer.exe'', ''SearchHost.exe'',
      ''RuntimeBroker.exe'', ''SecurityHealthService.exe'', ''SecurityHealthSystray.exe'',
      ''SgrmBroker.exe'', ''StartMenuExperienceHost.exe'', ''TextInputHost.exe'',
      ''Widgets.exe'', ''WindowsTerminal.exe'', ''wlanext.exe'',
      ''WmiPrvSE.exe'', ''WUDFHost.exe'', ''dllhost.exe'', ''taskeng.exe'',
      ''audiodg.exe'', ''LogonUI.exe'', ''userinit.exe'']"

definition IsSystemDirectory :: "string \<Rightarrow> GLOBAL \<Rightarrow> bool" where
  "IsSystemDirectory fullPath g =
     (if fullPath = [] then False
      else if wcsnicmp_eq fullPath (sysDir32 g) (length (sysDir32 g)) then True
      else if wcsnicmp_eq fullPath (sysDir64 g) (length (sysDir64 g)) then True
      else if wcsnicmp_eq fullPath (sysDirDrivers g) (length (sysDirDrivers g)) then True
      else False)"

fun name_matches :: "string \<Rightarrow> string list \<Rightarrow> bool" where
  "name_matches fileName [] = False"
| "name_matches fileName (n # names) =
     (if wcsicmp_eq fileName n then True else name_matches fileName names)"

definition IsBuiltInExcluded :: "string \<Rightarrow> string \<Rightarrow> GLOBAL \<Rightarrow> bool" where
  "IsBuiltInExcluded fileName fullPath g =
     (if \<not> name_matches fileName systemNames then False
      else if fullPath = [] then True
      else IsSystemDirectory fullPath g)"

definition IsProcessExcluded :: "string \<Rightarrow> CONFIG \<Rightarrow> bool" where
  "IsProcessExcluded nameW cfg = name_matches nameW (excludeList cfg)"

text \<open>\<^verbatim>\<open>CheckProcess\<close>; \<open>self\<close> is what \<^verbatim>\<open>GetCurrentProcessId\<close> returned.\<close>

definition CheckProcess ::
  "PROCESSENTRY32W \<Rightarrow> CONFIG \<Rightarrow> DWORD list \<Rightarrow> DWORD \<Rightarrow> PROCESS_ENV \<Rightarrow> GLOBAL \<Rightarrow> GLOBAL \<times> ACTION list" where
  "CheckProcess pe cfg hungList self env g =
     (if th32ProcessID pe = self then (g, [])
      else
        let exeNameW = wcsncpy_truncate (szExeFile pe);
            pathBuf = processPath env
        in if IsBuiltInExcluded exeNameW pathBuf g then CheckSystemProcess pe cfg hungList env g
           else if IsProcessExcluded exeNameW cfg then (g, [])
           else CheckNormalProcess pe cfg hungList env g)"

section \<open>One scan\<close>

text \<open>
  What one call of \<^verbatim>\<open>ProcessSnapshot\<close> gets from the outside: the list
  \<^verbatim>\<open>BuildHungProcessList\<close> built, the process ID of the monitor, and the snapshot.
  \<open>None\<close> is \<^verbatim>\<open>CreateToolhelp32Snapshot\<close> returning \<^verbatim>\<open>INVALID_HANDLE_VALUE\<close>;
  otherwise the entries \<^verbatim>\<open>Process32FirstW\<close> and \<^verbatim>\<open>Process32NextW\<close> deliver, in
  order, each with the answers of the calls made for it. \<^verbatim>\<open>Process32FirstW\<close> fails when
  there is no entry. \<^verbatim>\<open>RotateLogIfNeeded\<close>, which touches the log file only, is not
  modelled.
\<close>

record SCAN_ENV =
  hungWindows :: "DWORD list"
  currentProcessId :: DWORD
  snapshot :: "(PROCESSENTRY32W \<times> PROCESS_ENV) list option"

text \<open>The \<^verbatim>\<open>do\<close> loop over the entries of the snapshot.\<close>

fun CheckProcesses ::
  "(PROCESSENTRY32W \<times> PROCESS_ENV) list \<Rightarrow> CONFIG \<Rightarrow> DWORD list \<Rightarrow> DWORD \<Rightarrow> GLOBAL
     \<Rightarrow> GLOBAL \<times> ACTION list" where
  "CheckProcesses [] cfg hungList self g = (g, [])"
| "CheckProcesses ((pe, env) # rest) cfg hungList self g =
     (let (g1, acts1) = CheckProcess pe cfg hungList self env g;
          (g2, acts2) = CheckProcesses rest cfg hungList self g1
      in (g2, acts1 @ acts2))"

text \<open>
  The wait computed after a failed snapshot. \<^verbatim>\<open>shift\<close> is an \<^verbatim>\<open>int\<close>; the product
  is unsigned 64-bit. The loop that then sleeps in steps of 200 ms until the wait has
  passed or the stop event is set is the action \<open>BackoffWait\<close>.
\<close>

definition backoff_wait :: "DWORD \<Rightarrow> DWORD \<Rightarrow> ULONGLONG" where
  "backoff_wait interval failures =
     (let wait0 = (ucast interval :: ULONGLONG);
          wait1 = (if failures > 1
                   then (let shift = sint (failures - 1);
                             shift' = (if shift > 10 then 10 else shift)
                         in ucast interval * push_bit (nat shift') 1)
                   else wait0)
      in if wait1 > MAX_BACKOFF_WAIT_MS then MAX_BACKOFF_WAIT_MS else wait1)"

definition ProcessSnapshot :: "CONFIG \<Rightarrow> SCAN_ENV \<Rightarrow> GLOBAL \<Rightarrow> GLOBAL \<times> ACTION list" where
  "ProcessSnapshot localConfig env g =
     (case snapshot env of
        None \<Rightarrow>
          let failures = consecutiveSnapshotFailures g + 1
          in (g \<lparr> consecutiveSnapshotFailures := failures \<rparr>,
              (if failures = 1 then [Log SnapshotFailedWillRetry]
               else if failures > 3 then [Log (SnapshotFailedConsecutively failures)]
               else []) @
              [BackoffWait (backoff_wait (monitorIntervalMs localConfig) failures)])
      | Some entries \<Rightarrow>
          let (g0, acts0) =
                (if consecutiveSnapshotFailures_after g > 0
                 then (g \<lparr> consecutiveSnapshotFailures_after := 0 \<rparr>,
                       [Log (SnapshotSucceededAfter (consecutiveSnapshotFailures_after g))])
                 else (g, []));
              g1 = g0 \<lparr> history := map (\<lambda>h. h \<lparr> seen := False \<rparr>) (history g0) \<rparr>
          in if entries = [] then (g1, acts0)
             else
               let (g2, acts) = CheckProcesses entries localConfig (hungWindows env)
                                  (currentProcessId env) g1
               in (g2 \<lparr> history := CleanupHistory (history g2) \<rparr>, acts0 @ acts))"

text \<open>
  Successive iterations of the loop of \<^verbatim>\<open>MonitorThread\<close> while monitoring is active,
  the configuration is unchanged and no resume from suspend is signalled: one
  \<^verbatim>\<open>ProcessSnapshot\<close> per iteration. The result is the state and the actions of each
  scan.
\<close>

fun MonitorScans :: "CONFIG \<Rightarrow> SCAN_ENV list \<Rightarrow> GLOBAL \<Rightarrow> GLOBAL \<times> ACTION list list" where
  "MonitorScans localConfig [] g = (g, [])"
| "MonitorScans localConfig (env # envs) g =
     (let (g1, acts) = ProcessSnapshot localConfig env g;
          (g2, later) = MonitorScans localConfig envs g1
      in (g2, acts # later))"


section \<open>Notions used to state the properties\<close>

text \<open>The two actions that are a termination of process \<open>q\<close>.\<close>

definition termination_of :: "DWORD \<Rightarrow> ACTION set" where
  "termination_of q = {OpenProcessTerminate q, TerminateProcess q}"

text \<open>Two states with the same trusted system directories.\<close>

definition same_directories :: "GLOBAL \<Rightarrow> GLOBAL \<Rightarrow> bool" where
  "same_directories g g' =
     (sysDir32 g' = sysDir32 g \<and> sysDir64 g' = sysDir64 g \<and> sysDirDrivers g' = sysDirDrivers g)"


text \<open>The node of the cooldown list that a request for \<open>name\<close> finds: the first one
  whose name compares equal, ignoring case.\<close>

definition cooldown_record :: "string \<Rightarrow> BALLOON_COOLDOWN list \<Rightarrow> BALLOON_COOLDOWN option" where
  "cooldown_record name cooldown = find (\<lambda>c. wcsicmp_eq (processName c) name) cooldown"


text \<open>Two states with the same values of the two snapshot-failure statics.\<close>

definition same_failure_counts :: "GLOBAL \<Rightarrow> GLOBAL \<Rightarrow> bool" where
  "same_failure_counts g g' =
     (consecutiveSnapshotFailures g' = consecutiveSnapshotFailures g \<and>
      consecutiveSnapshotFailures_after g' = consecutiveSnapshotFailures_after g)"


text \<open>Every node of the history that \<open>keep\<close> holds of has its process ID in \<open>S\<close>.\<close>

definition pids_within :: "(PROCESS_HISTORY \<Rightarrow> bool) \<Rightarrow> DWORD set \<Rightarrow> PROCESS_HISTORY list \<Rightarrow> bool" where
  "pids_within keep S hs = (\<forall>h \<in> set hs. keep h \<longrightarrow> pid h \<in> S)"

text \<open>The history node as \<^verbatim>\<open>MeasureProcessResources\<close> leaves it.\<close>

definition measured :: "PROCESS_ENV \<Rightarrow> PROCESS_HISTORY \<Rightarrow> PROCESS_HISTORY" where
  "measured env hist = snd (snd (snd (MeasureProcessResources env hist)))"

text \<open>How many of the three lines about exhausted termination attempts of process \<open>p\<close>
  a list of actions has.\<close>

definition exhaustion_lines :: "DWORD \<Rightarrow> ACTION list \<Rightarrow> nat" where
  "exhaustion_lines p acts =
     length (filter (\<lambda>a. a = Log (AttemptsExhaustedWillStopTrying p) \<or>
                          a = Log (ExceedsThresholdButAttemptsExhausted p) \<or>
                          a = Log (HungButAttemptsExhausted p)) acts)"

text \<open>The flag \<^verbatim>\<open>terminateLogSent\<close> is set exactly when \<^verbatim>\<open>terminateAttempts\<close> is at the
  limit.\<close>

definition resource_flag_consistent :: "PROCESS_HISTORY \<Rightarrow> bool" where
  "resource_flag_consistent h =
     (if terminateAttempts h \<ge> TERMINATE_RETRY_LIMIT then terminateLogSent h = 1
      else terminateLogSent h = 0)"

text \<open>The reason \<^verbatim>\<open>CheckProcessResourcesAndTerminate\<close> finds: what \<^verbatim>\<open>FormatReason\<close>
  makes of the measurement and of the hang test.\<close>

definition breach_reason ::
  "PROCESS_ENV \<Rightarrow> PROCESS_HISTORY \<Rightarrow> DWORD \<Rightarrow> CONFIG \<Rightarrow> DWORD list \<Rightarrow> REASON option" where
  "breach_reason env hist p cfg hungList =
     (let (cpu, memMB, memValid, hist1) = MeasureProcessResources env hist
      in FormatReason cpu (cpuThresholdPercent cfg) memValid memMB (memThresholdMb cfg)
           (IsProcessHung p hungList))"

text \<open>
  The state in which a scan that got a snapshot checks the entry that comes after the
  entries \<open>before\<close>: the reset of the second static and of the \<open>seen\<close> marks, and the
  checks of the entries before it.
\<close>

definition scan_until ::
  "(PROCESSENTRY32W \<times> PROCESS_ENV) list \<Rightarrow> CONFIG \<Rightarrow> SCAN_ENV \<Rightarrow> GLOBAL \<Rightarrow> GLOBAL" where
  "scan_until before cfg env g =
     fst (CheckProcesses before cfg (hungWindows env) (currentProcessId env)
            (g \<lparr> consecutiveSnapshotFailures_after := 0,
                 history := map (\<lambda>h. h \<lparr> seen := False \<rparr>) (history g) \<rparr>))"

section \<open>Example inputs\<close>

text \<open>
  A \<^verbatim>\<open>config.ini\<close> with \<^verbatim>\<open>MonitorIntervalMs=500\<close> (below the range),
  \<^verbatim>\<open>CpuThresholdPercent=250\<close> (above the range) and the defaults elsewhere.
\<close>

definition example_config_env :: CONFIG_ENV where
  "example_config_env =
     \<lparr> fileExists = True, iniMonitorIntervalMs = 500, iniCpuThresholdPercent = 250,
       iniMemThresholdMb = 500, iniHangTimeoutMs = 5000, iniLogMaxSizeBytes = 1048576,
       iniMaxHungWindows = 500, iniNotifyOnTermination = 0, iniStartMonitoringOnLaunch = 1,
       configTick = 1000, excludeParsed = [], excludeWarning = False, excludeLog = [],
       fileHead = [] \<rparr>"

definition example_config :: CONFIG where
  "example_config =
     \<lparr> monitorIntervalMs = 5000, cpuThresholdPercent = 80, memThresholdMb = 500,
       hangTimeoutMs = 5000, logMaxSizeBytes = 1048576, maxHungWindows = 500,
       notifyOnTermination = False, excludeList = [], monitoringDefault = True \<rparr>"

text \<open>
  The state right after start-up, as \<^verbatim>\<open>GetSystemDirectories\<close> fills the directories
  on a 64-bit Windows installed in \<^verbatim>\<open>C:\<close>; \<open>sep\<close> is the backslash.
\<close>

definition sep :: string where
  "sep = [CHR 0x5C]"

definition example_global :: GLOBAL where
  "example_global =
     \<lparr> sysDir32 = ''C:'' @ sep @ ''Windows'' @ sep @ ''System32'' @ sep,
       sysDir64 = ''C:'' @ sep @ ''Windows'' @ sep @ ''SysWOW64'' @ sep,
       sysDirDrivers = ''C:'' @ sep @ ''Windows'' @ sep @ ''SysWOW64'' @ sep @ ''System32'' @ sep @ ''drivers'' @ sep,
       balloonCooldown = [], lastBalloonCleanupTick = 0, lastEncodingWarningTick = 0,
       lastClampWarningTick = 0, lastExcludeWarningTick = 0, config = example_config,
       history = [], accessDeniedShown = False, consecutiveSnapshotFailures = 0,
       consecutiveSnapshotFailures_after = 0 \<rparr>"


text \<open>
  \<^verbatim>\<open>svchost.exe\<close> running from \<^verbatim>\<open>System32\<close> with a working set of 900 MB (the
  threshold of \<open>example_config\<close> is 500 MB), whose CPU times cannot be read, and which
  \<^verbatim>\<open>TerminateProcess\<close> would end if it were called. The monitor is process 4242.
\<close>

definition example_system_entry :: PROCESSENTRY32W where
  "example_system_entry = \<lparr> th32ProcessID = 620, szExeFile = ''svchost.exe'' \<rparr>"

definition example_system_path :: string where
  "example_system_path = ''C:'' @ sep @ ''Windows'' @ sep @ ''System32'' @ sep @ ''svchost.exe''"

definition example_system_env :: PROCESS_ENV where
  "example_system_env =
     \<lparr> processPath = example_system_path,
       historyMalloc = True, baselineTimes = None, baselinePerf = 0,
       queryHandle = True, processTimes = None, nowPerf = 0,
       perfFreq = 10000000, workingSetSize = Some (900 * 1024 * 1024),
       averageTimes = None, nowFileTime = 0,
       terminateOpenError = None, terminateOk = True, balloonTick = 1000, balloonMalloc = True \<rparr>"

definition example_system_scan :: SCAN_ENV where
  "example_system_scan =
     \<lparr> hungWindows = [], currentProcessId = 4242,
       snapshot = Some [(example_system_entry, example_system_env)] \<rparr>"


text \<open>
  A history node with a zero baseline, and a performance counter of 10 MHz.
\<close>

definition example_history :: PROCESS_HISTORY where
  "example_history = new_history 1234 None 0"

definition example_perf_freq :: "64 word" where
  "example_perf_freq = 10000000"


text \<open>
  A scan in which \<^verbatim>\<open>CreateToolhelp32Snapshot\<close> fails, and a scan in which it succeeds
  and the snapshot holds the monitor itself.
\<close>

definition example_failed_scan :: SCAN_ENV where
  "example_failed_scan = \<lparr> hungWindows = [], currentProcessId = 4242, snapshot = None \<rparr>"

definition example_own_scan :: SCAN_ENV where
  "example_own_scan =
     \<lparr> hungWindows = [], currentProcessId = 4242,
       snapshot = Some [(\<lparr> th32ProcessID = 4242, szExeFile = ''ProcessMonitor.exe'' \<rparr>,
                         example_system_env)] \<rparr>"


text \<open>
  A history that still holds a node for process 1234, with three failed terminations
  and an old CPU baseline.
\<close>

definition example_stale_history :: PROCESS_HISTORY where
  "example_stale_history =
     \<lparr> pid = 1234, ftCreate = 100, ftKernel = 999, ftUser = 888, perfTime = 777,
       terminateAttempts = 3, terminateAttemptsHung = 2, terminateLogSent = 0,
       terminateLogSentHung = 0, seen = True \<rparr>"

definition example_stale_global :: GLOBAL where
  "example_stale_global = example_global \<lparr> history := [example_stale_history] \<rparr>"

text \<open>
  An ordinary process, not on the allowlist and not excluded: 100 MB of working set,
  its times cannot be read (so the CPU figure is 0), and \<^verbatim>\<open>TerminateProcess\<close> fails on
  it. Its history node with the four retry fields as parameters.
\<close>

definition example_app_entry :: PROCESSENTRY32W where
  "example_app_entry = \<lparr> th32ProcessID = 1234, szExeFile = ''app.exe'' \<rparr>"

definition example_app_path :: string where
  "example_app_path = ''C:'' @ sep @ ''Apps'' @ sep @ ''app.exe''"

definition example_app_env :: PROCESS_ENV where
  "example_app_env =
     \<lparr> processPath = example_app_path,
       historyMalloc = True, baselineTimes = None, baselinePerf = 0,
       queryHandle = True, processTimes = None, nowPerf = 0,
       perfFreq = 10000000, workingSetSize = Some (100 * 1024 * 1024),
       averageTimes = None, nowFileTime = 0,
       terminateOpenError = None, terminateOk = False, balloonTick = 0, balloonMalloc = True \<rparr>"

definition app_history :: "int \<Rightarrow> int \<Rightarrow> int \<Rightarrow> int \<Rightarrow> PROCESS_HISTORY" where
  "app_history a l ah lh =
     \<lparr> pid = 1234, ftCreate = 0, ftKernel = 0, ftUser = 0, perfTime = 0,
       terminateAttempts = a, terminateAttemptsHung = ah, terminateLogSent = l,
       terminateLogSentHung = lh, seen = True \<rparr>"

text \<open>
  A scan whose snapshot was obtained and in which \<^verbatim>\<open>Process32FirstW\<close> fails; and a
  scan whose snapshot has the example process only, with process times that can be read
  when its history node is made.
\<close>

definition example_empty_scan :: SCAN_ENV where
  "example_empty_scan = \<lparr> hungWindows = [], currentProcessId = 4242, snapshot = Some [] \<rparr>"

definition example_back_env :: PROCESS_ENV where
  "example_back_env = example_app_env \<lparr> baselineTimes := Some (7, 8, 9), baselinePerf := 10 \<rparr>"

definition example_app_scan :: SCAN_ENV where
  "example_app_scan =
     \<lparr> hungWindows = [], currentProcessId = 4242,
       snapshot = Some [(example_app_entry, example_back_env)] \<rparr>"

text \<open>The example process with 8.0000001 seconds of CPU time in the 10 seconds since the
  baseline of its node.\<close>

definition example_busy_env :: PROCESS_ENV where
  "example_busy_env =
     example_app_env \<lparr> processTimes := Some (0, 80000001, 0), nowPerf := 100000000 \<rparr>"


section \<open>Floating point: signs and exact values\<close>

lemma round_even_of_int: "round_even (of_int n) = n"
  by (simp add: round_even_def)

lemma round_even_nonneg: "0 \<le> x \<Longrightarrow> 0 \<le> round_even x"
  by (simp add: round_even_def Let_def)

lemma round_even_nonpos:
  assumes "x \<le> 0"
  shows "round_even x \<le> 0"
proof (cases "x - of_int \<lfloor>x\<rfloor> < 1 / 2")
  case True
  then show ?thesis
    using assms by (simp add: round_even_def Let_def)
next
  case False
  then have "of_int \<lfloor>x\<rfloor> < x" by simp
  then have "\<lfloor>x\<rfloor> < 0" using assms by linarith
  then have "\<lfloor>x\<rfloor> + 1 \<le> 0" "\<lfloor>x\<rfloor> \<le> 0" by linarith+
  then show ?thesis
    by (simp add: round_even_def Let_def)
qed

lemma to_precision_nonneg: "0 \<le> x \<Longrightarrow> 0 \<le> to_precision p x"
  by (simp add: to_precision_def Let_def round_even_nonneg)

lemma to_precision_nonpos: "x \<le> 0 \<Longrightarrow> to_precision p x \<le> 0"
  by (simp add: to_precision_def Let_def round_even_nonpos mult_le_0_iff divide_le_0_iff)

lemma double_div_nonneg: "0 \<le> a \<Longrightarrow> 0 \<le> b \<Longrightarrow> 0 \<le> double_div a b"
  by (simp add: double_div_def to_double_def to_precision_nonneg)

lemma double_div_nonpos: "a \<le> 0 \<Longrightarrow> 0 \<le> b \<Longrightarrow> double_div a b \<le> 0"
  by (simp add: double_div_def to_double_def to_precision_nonpos divide_le_0_iff)

lemma binade_up_bounds:
  "2 powi e \<le> x \<Longrightarrow> x < 2 powi (e + int n) \<Longrightarrow>
   2 powi (binade_up n e x) \<le> x \<and> x < 2 powi (binade_up n e x + 1)"
proof (induction n arbitrary: e)
  case 0
  then show ?case by simp
next
  case (Suc n)
  show ?case
  proof (cases "x < 2 powi (e + 1)")
    case True
    then show ?thesis using Suc.prems by simp
  next
    case False
    then have "2 powi (e + 1) \<le> x" by simp
    moreover have "x < 2 powi (e + 1 + int n)"
      using Suc.prems(2) by (simp add: ac_simps)
    ultimately show ?thesis
      using Suc.IH [of "e + 1"] False by simp
  qed
qed

lemma binade_bounds:
  assumes "2 powi (- 1100) \<le> \<bar>x\<bar>" and "\<bar>x\<bar> < 2 powi 1100"
  shows "2 powi (binade x) \<le> \<bar>x\<bar> \<and> \<bar>x\<bar> < 2 powi (binade x + 1)"
  unfolding binade_def
  using binade_up_bounds [of "- 1100" "\<bar>x\<bar>" 2200] assms by simp

text \<open>An integer of fewer than \<open>p\<close> binary digits is a number of \<open>p\<close> significant
  digits: rounding leaves it as it is.\<close>

lemma to_precision_of_int:
  assumes "\<bar>m\<bar> < 2 ^ p" and "p \<le> 1100"
  shows "to_precision p (of_int m) = of_int m"
proof (cases "m = 0")
  case True
  then show ?thesis by (simp add: to_precision_def)
next
  case False
  let ?x = "real_of_int m"
  have one: "1 \<le> \<bar>?x\<bar>" using False by (simp flip: of_int_abs)
  have "\<bar>?x\<bar> < 2 ^ p"
    using assms(1) by (metis of_int_abs of_int_less_iff of_int_numeral of_int_power)
  then have below: "\<bar>?x\<bar> < 2 powi (int p)" by simp
  have "(2::real) powi (int p) \<le> 2 powi 1100"
    using assms(2) by (intro power_int_increasing) simp_all
  moreover have "(2::real) powi (- 1100) \<le> 1"
    using power_int_increasing [of "- 1100" 0 "2::real"] by simp
  ultimately have b: "2 powi (binade ?x) \<le> \<bar>?x\<bar>" "\<bar>?x\<bar> < 2 powi (binade ?x + 1)"
    using binade_bounds [of ?x] one below by auto
  have "(2::real) powi (binade ?x) < 2 powi (int p)"
    using b(1) below by simp
  then have hi: "binade ?x < int p"
    using power_int_le_imp_less_exp [of "2::real" "binade ?x" "int p"] by simp
  define k where "k = nat (int p - 1 - binade ?x)"
  have k: "binade ?x - int p + 1 = - int k"
    using hi by (simp add: k_def)
  have ulp: "(2::real) powi (binade ?x - int p + 1) = 1 / 2 ^ k"
    by (simp add: k power_int_minus_divide)
  have "?x / (1 / 2 ^ k) = of_int (m * 2 ^ k)" by simp
  then have "round_even (?x / (1 / 2 ^ k)) = m * 2 ^ k"
    by (simp only: round_even_of_int)
  then show ?thesis
    using False by (simp add: to_precision_def Let_def ulp)
qed

lemma to_double_of_int: "\<bar>m\<bar> < 2 ^ 53 \<Longrightarrow> to_double (of_int m) = of_int m"
  by (simp add: to_double_def to_precision_of_int)

lemma to_float_of_int: "\<bar>m\<bar> < 2 ^ 24 \<Longrightarrow> to_float (of_int m) = of_int m"
  by (simp add: to_float_def to_precision_of_int)

lemma binade_eq:
  assumes "2 powi e \<le> \<bar>x\<bar>" and "\<bar>x\<bar> < 2 powi (e + 1)" and "- 1100 \<le> e" and "e < 1100"
  shows "binade x = e"
proof -
  have "(2::real) powi (- 1100) \<le> 2 powi e"
    using assms(3) by (intro power_int_increasing) simp_all
  moreover have "(2::real) powi (e + 1) \<le> 2 powi 1100"
    using assms(4) by (intro power_int_increasing) simp_all
  ultimately have b: "2 powi (binade x) \<le> \<bar>x\<bar>" "\<bar>x\<bar> < 2 powi (binade x + 1)"
    using binade_bounds [of x] assms(1,2) by auto
  have "\<not> binade x < e"
  proof
    assume "binade x < e"
    then have "(2::real) powi (binade x + 1) \<le> 2 powi e"
      by (intro power_int_increasing) simp_all
    then show False using b(2) assms(1) by simp
  qed
  moreover have "\<not> e < binade x"
  proof
    assume "e < binade x"
    then have "(2::real) powi (e + 1) \<le> 2 powi (binade x)"
      by (intro power_int_increasing) simp_all
    then show False using b(1) assms(2) by simp
  qed
  ultimately show ?thesis by simp
qed

lemma to_precision_at:
  assumes "2 powi e \<le> \<bar>x\<bar>" and "\<bar>x\<bar> < 2 powi (e + 1)" and "- 1100 \<le> e" and "e < 1100"
  shows "to_precision p x = of_int (round_even (x / 2 powi (e - int p + 1))) * 2 powi (e - int p + 1)"
proof -
  have pos: "(0::real) < 2 powi e" by (rule zero_less_power_int) simp
  have "x \<noteq> 0"
  proof
    assume "x = 0"
    then have "(2::real) powi e \<le> 0" using assms(1) by simp
    then show False using pos by linarith
  qed
  then show ?thesis
    by (simp add: to_precision_def Let_def binade_eq [OF assms])
qed

text \<open>
  A percentage just over 80 that is 80 as a \<^verbatim>\<open>float\<close>: 8.0000001 seconds of CPU time
  in 10 seconds, computed as in \<^verbatim>\<open>CalcCpuUsage\<close>. The exact quotient is 80.000001; the
  three divisions in \<^verbatim>\<open>double\<close> give 703687450572733 / 8796093022208, and the
  conversion to \<^verbatim>\<open>float\<close> gives 80.
\<close>

lemma just_over_80:
  "double_div 80000001 10000 = 8796093132159163 / 1099511627776"
  "double_div (8796093132159163 / 1099511627776) 10 = 3518437252863665 / 4398046511104"
  "double_div (3518437252863665 / 4398046511104) 10 = 703687450572733 / 8796093022208"
  "to_float (703687450572733 / 8796093022208) = 80"
  "(80 :: real) < 703687450572733 / 8796093022208"
  "(80 :: real) < 80000001 / 10000 / 10 / 10"
proof -
  show "double_div 80000001 10000 = 8796093132159163 / 1099511627776"
    unfolding double_div_def to_double_def
    by (subst to_precision_at [of 12]) (simp_all add: round_even_def Let_def power_int_minus_divide)
  show "double_div (8796093132159163 / 1099511627776) 10 = 3518437252863665 / 4398046511104"
    unfolding double_div_def to_double_def
    by (subst to_precision_at [of 9]) (simp_all add: round_even_def Let_def power_int_minus_divide)
  show "double_div (3518437252863665 / 4398046511104) 10 = 703687450572733 / 8796093022208"
    unfolding double_div_def to_double_def
    by (subst to_precision_at [of 6]) (simp_all add: round_even_def Let_def power_int_minus_divide)
  show "to_float (703687450572733 / 8796093022208) = 80"
    unfolding to_float_def
    by (subst to_precision_at [of 6]) (simp_all add: round_even_def Let_def power_int_minus_divide)
qed simp_all

lemma exact_values:
  "to_double 0 = 0" "to_double 1 = 1" "to_double 500 = 500" "to_double 5000000 = 5000000"
  "to_double 10000000 = 10000000" "to_double 50 = 50" "to_double 10 = 10"
  "to_double 100000000 = 100000000" "to_double 80000001 = 80000001"
  "to_float 0 = 0" "to_float 50 = 50" "to_float 80 = 80"
  using to_double_of_int [of 0] to_double_of_int [of 1] to_double_of_int [of 500]
    to_double_of_int [of 5000000] to_double_of_int [of 10000000] to_double_of_int [of 50]
    to_double_of_int [of 10] to_double_of_int [of 100000000] to_double_of_int [of 80000001]
    to_float_of_int [of 0] to_float_of_int [of 50] to_float_of_int [of 80]
  by simp_all


section \<open>Configuration loading clamps\<close>

lemma CLAMP_value:
  "mn \<le> mx \<Longrightarrow> fst (CLAMP name mn mx v) = (if v < mn then mn else if mx < v then mx else v)"
  by (auto simp: CLAMP_def)

lemma CLAMP_line_iff:
  "Log (ConfigAdjusted f v n a b) \<in> set (snd (snd (CLAMP name mn mx orig))) \<longleftrightarrow>
     f = name \<and> v = orig \<and> n = fst (CLAMP name mn mx orig) \<and> a = mn \<and> b = mx \<and> n \<noteq> orig"
  by (auto simp: CLAMP_def Let_def split: if_splits)

lemmas config_bounds =
  MIN_MONITOR_INTERVAL_MS_def MAX_MONITOR_INTERVAL_MS_def
  MIN_CPU_THRESHOLD_def MAX_CPU_THRESHOLD_def MIN_MEM_THRESHOLD_MB_def MAX_MEM_THRESHOLD_MB_def
  MIN_HANG_TIMEOUT_MS_def MAX_HANG_TIMEOUT_MS_def MIN_LOG_SIZE_BYTES_def MAX_LOG_SIZE_BYTES_def
  MIN_MAX_HUNG_WINDOWS_def MAX_MAX_HUNG_WINDOWS_def

lemma field_range: "field_min f \<le> field_max f"
  by (cases f) (simp_all add: config_bounds)

lemma LoadConfig_ok: "fileExists env \<Longrightarrow> fst (LoadConfig env g)"
  by (simp add: LoadConfig_def Let_def case_prod_beta)

lemma LoadConfig_loaded:
  "fileExists env \<Longrightarrow>
   loaded_value (config (fst (snd (LoadConfig env g)))) f =
     fst (CLAMP f (field_min f) (field_max f) (ini_value env f))"
  by (cases f) (simp_all add: LoadConfig_def Let_def case_prod_beta)

lemma LoadConfig_adjust_lines:
  "fileExists env \<Longrightarrow>
   Log (ConfigAdjusted f v n a b) \<in> set (snd (snd (LoadConfig env g))) \<longleftrightarrow>
   Log (ConfigAdjusted f v n a b) \<in> set (snd (snd (CLAMP f (field_min f) (field_max f) (ini_value env f))))"
  by (cases f) (simp_all add: LoadConfig_def Let_def case_prod_beta CLAMP_line_iff image_iff)

text \<open>
  Claim C8. When \<^verbatim>\<open>config.ini\<close> exists, \<^verbatim>\<open>LoadConfig\<close> succeeds whatever the six
  numeric values are. For each of the six fields \<open>f\<close>: a value below the field's minimum
  is loaded as the minimum, a value above its maximum as the maximum, and in both cases
  the line "Config f adjusted from (value) to (boundary) (range min-max)" is logged; a
  value inside the range is loaded unchanged, and no adjustment line is logged for \<open>f\<close>.
\<close>

theorem LoadConfig_clamps_to_range:
  assumes "fileExists env" and "LoadConfig env g = (ok, g', acts)"
  shows "ok \<and>
    (ini_value env f < field_min f \<longrightarrow>
       loaded_value (config g') f = field_min f \<and>
       Log (ConfigAdjusted f (ini_value env f) (field_min f) (field_min f) (field_max f)) \<in> set acts) \<and>
    (field_max f < ini_value env f \<longrightarrow>
       loaded_value (config g') f = field_max f \<and>
       Log (ConfigAdjusted f (ini_value env f) (field_max f) (field_min f) (field_max f)) \<in> set acts) \<and>
    (field_min f \<le> ini_value env f \<and> ini_value env f \<le> field_max f \<longrightarrow>
       loaded_value (config g') f = ini_value env f \<and>
       (\<forall>v n a b. Log (ConfigAdjusted f v n a b) \<notin> set acts))"
proof -
  note range = field_range [of f]
  have ok: "ok"
    using LoadConfig_ok [OF assms(1), of g] assms(2) by simp
  have loaded: "loaded_value (config g') f = fst (CLAMP f (field_min f) (field_max f) (ini_value env f))"
    using LoadConfig_loaded [OF assms(1), of g f] assms(2) by simp
  have lines: "Log (ConfigAdjusted f v n a b) \<in> set acts \<longleftrightarrow>
      Log (ConfigAdjusted f v n a b) \<in> set (snd (snd (CLAMP f (field_min f) (field_max f) (ini_value env f))))"
    for v n a b
    using LoadConfig_adjust_lines [OF assms(1), of f v n a b g] assms(2) by simp
  have below: "ini_value env f < field_min f \<Longrightarrow> field_min f \<noteq> ini_value env f"
    by auto
  have above: "field_max f < ini_value env f \<Longrightarrow>
      \<not> ini_value env f < field_min f \<and> field_max f \<noteq> ini_value env f"
    using range by auto
  show ?thesis
    using ok loaded below above range
    by (auto simp: lines CLAMP_line_iff CLAMP_value)
qed

lemma example_config_load:
  "LoadConfig example_config_env example_global =
     (True,
      example_global \<lparr> config := example_config \<lparr> monitorIntervalMs := 1000, cpuThresholdPercent := 100 \<rparr> \<rparr>,
      [Log (ConfigAdjusted MonitorIntervalMs 500 1000 1000 60000),
       Log (ConfigAdjusted CpuThresholdPercent 250 100 1 100)])"
  by (simp add: LoadConfig_def CLAMP_def example_config_env_def example_global_def
      example_config_def config_bounds WARNING_COOLDOWN_MS_def ENCODING_WARNING_COOLDOWN_MS_def)

theorem LoadConfig_clamps_to_range_witness:
  "fileExists example_config_env \<and>
   ini_value example_config_env MonitorIntervalMs < field_min MonitorIntervalMs \<and>
   field_max CpuThresholdPercent < ini_value example_config_env CpuThresholdPercent \<and>
   field_min MemThresholdMb \<le> ini_value example_config_env MemThresholdMb \<and>
   ini_value example_config_env MemThresholdMb \<le> field_max MemThresholdMb \<and>
   monitorIntervalMs (config (fst (snd (LoadConfig example_config_env example_global)))) = 1000 \<and>
   cpuThresholdPercent (config (fst (snd (LoadConfig example_config_env example_global)))) = 100 \<and>
   memThresholdMb (config (fst (snd (LoadConfig example_config_env example_global)))) = 500 \<and>
   Log (ConfigAdjusted MonitorIntervalMs 500 1000 1000 60000)
     \<in> set (snd (snd (LoadConfig example_config_env example_global))) \<and>
   Log (ConfigAdjusted CpuThresholdPercent 250 100 1 100)
     \<in> set (snd (snd (LoadConfig example_config_env example_global)))"
proof -
  have ex: "fileExists example_config_env"
    by (simp add: example_config_env_def)
  note t = LoadConfig_clamps_to_range [OF ex example_config_load]
  show ?thesis
    unfolding example_config_load
    using t [of MonitorIntervalMs] t [of CpuThresholdPercent] t [of MemThresholdMb]
    by (simp add: example_config_env_def config_bounds example_config_def)
qed


section \<open>The system-process path never terminates\<close>

lemma suspicious_alert_actions:
  "snd (suspicious_alert pe reason env g) =
     (if fst (ShouldShowBalloonForProcess (szExeFile pe) (balloonTick env) (balloonMalloc env)
                (balloonCooldown g))
      then [ShowBalloon (SuspiciousSystemProcess (th32ProcessID pe))] else []) @
     [Log (SuspiciousSystemProcessEvent (th32ProcessID pe) reason)]"
  by (simp add: suspicious_alert_def case_prod_beta)

lemma CheckSystemProcess_actions:
  "snd (CheckSystemProcess pe cfg hungList env g) = [] \<or>
   (\<exists>reason. snd (CheckSystemProcess pe cfg hungList env g) =
      (if fst (ShouldShowBalloonForProcess (szExeFile pe) (balloonTick env) (balloonMalloc env)
                 (balloonCooldown g))
       then [ShowBalloon (SuspiciousSystemProcess (th32ProcessID pe))] else []) @
      [Log (SuspiciousSystemProcessEvent (th32ProcessID pe) reason)])"
  by (simp add: CheckSystemProcess_def Let_def case_prod_beta suspicious_alert_actions)

lemma CheckProcess_system_actions:
  assumes "IsBuiltInExcluded (wcsncpy_truncate (szExeFile pe)) (processPath env) g"
      and "CheckProcess pe cfg hungList self env g = (g', acts)"
  shows "(\<forall>q. OpenProcessTerminate q \<notin> set acts \<and> TerminateProcess q \<notin> set acts) \<and>
         set acts \<subseteq> insert (ShowBalloon (SuspiciousSystemProcess (th32ProcessID pe)))
                      (range (\<lambda>r. Log (SuspiciousSystemProcessEvent (th32ProcessID pe) r))) \<and>
         (ShowBalloon (SuspiciousSystemProcess (th32ProcessID pe)) \<in> set acts \<longrightarrow>
            fst (ShouldShowBalloonForProcess (szExeFile pe) (balloonTick env) (balloonMalloc env)
                   (balloonCooldown g)))"
proof -
  have "acts = [] \<or> acts = snd (CheckSystemProcess pe cfg hungList env g)"
    using assms by (auto simp: CheckProcess_def Let_def split: if_splits)
  then show ?thesis
    using CheckSystemProcess_actions [of pe cfg hungList env g]
    by (auto split: if_splits)
qed

text \<open>Every termination in the actions of a function is of the process the function checks.\<close>

lemma TryTerminateProcess_targets:
  assumes "TryTerminateProcess p attempts logSent env shown = (ok, attempts', logSent', shown', acts)"
      and "a \<in> set acts" and "a \<in> termination_of q"
  shows "q = p"
  using assms
  by (auto simp: TryTerminateProcess_def termination_of_def Let_def split: option.splits if_splits)

lemma CheckProcessHungAndTerminate_targets:
  assumes "CheckProcessHungAndTerminate hist p hungList env shown = (hist', removed, shown', acts)"
      and "a \<in> set acts" and "a \<in> termination_of q"
  shows "q = p"
proof -
  obtain ok att ls sh acts1 where
    t: "TryTerminateProcess p (case hist of Some h \<Rightarrow> terminateAttemptsHung h | None \<Rightarrow> 0)
          (case hist of Some h \<Rightarrow> terminateLogSentHung h | None \<Rightarrow> 0) env shown = (ok, att, ls, sh, acts1)"
    by (metis prod_cases5)
  have "acts = [] \<or> acts = [Log (HungButAttemptsExhausted p)] \<or> acts = acts1"
    using assms(1) t
    by (auto simp: CheckProcessHungAndTerminate_def Let_def split: if_splits option.splits)
  then show ?thesis
    using TryTerminateProcess_targets [OF t] assms(2,3)
    by (auto simp: termination_of_def)
qed

lemma CheckProcessResourcesAndTerminate_targets:
  assumes "CheckProcessResourcesAndTerminate hist p cfg hungList env notify shown = (hist', removed, shown', acts)"
      and "a \<in> set acts" and "a \<in> termination_of q"
  shows "q = p"
proof -
  obtain cpu memMB memValid hist1 where
    m: "MeasureProcessResources env hist = (cpu, memMB, memValid, hist1)"
    by (metis prod_cases4)
  obtain ok att ls sh acts1 where
    t: "TryTerminateProcess p (terminateAttempts hist1) (terminateLogSent hist1) env shown = (ok, att, ls, sh, acts1)"
    by (metis prod_cases5)
  have "acts = [] \<or> acts = [Log (ExceedsThresholdButAttemptsExhausted p)] \<or>
        (\<exists>r. acts = LogEvent_terminated p r notify @ acts1)"
    using assms(1) m t
    by (auto simp: CheckProcessResourcesAndTerminate_def Let_def split: if_splits option.splits)
  then show ?thesis
    using TryTerminateProcess_targets [OF t] assms(2,3)
    by (auto simp: termination_of_def LogEvent_terminated_def split: if_splits)
qed

lemma CheckNormalProcess_targets:
  assumes "CheckNormalProcess pe cfg hungList env g = (g', acts)"
      and "a \<in> set acts" and "a \<in> termination_of q"
  shows "q = th32ProcessID pe"
  using assms
  by (auto simp: CheckNormalProcess_def Let_def
      split: prod.splits option.splits if_splits
      dest: CheckProcessHungAndTerminate_targets CheckProcessResourcesAndTerminate_targets)

text \<open>No function of a scan writes the system directories, so the routing is the same
  in every state of the scan.\<close>

lemma IsBuiltInExcluded_directories:
  "same_directories g g' \<Longrightarrow> IsBuiltInExcluded n p g' = IsBuiltInExcluded n p g"
  by (simp add: same_directories_def IsBuiltInExcluded_def IsSystemDirectory_def)

lemma suspicious_alert_directories: "same_directories g (fst (suspicious_alert pe r env g))"
  by (simp add: suspicious_alert_def same_directories_def case_prod_beta)

lemma CheckSystemProcess_directories:
  "same_directories g (fst (CheckSystemProcess pe cfg hungList env g))"
  using suspicious_alert_directories
  by (simp add: CheckSystemProcess_def Let_def case_prod_beta same_directories_def)

lemma CheckNormalProcess_directories:
  "same_directories g (fst (CheckNormalProcess pe cfg hungList env g))"
  by (simp add: CheckNormalProcess_def Let_def case_prod_beta same_directories_def
      split: option.splits)

lemma CheckProcess_directories:
  "same_directories g (fst (CheckProcess pe cfg hungList self env g))"
  using CheckSystemProcess_directories CheckNormalProcess_directories
  by (simp add: CheckProcess_def Let_def same_directories_def)


lemma CheckProcess_targets:
  assumes "CheckProcess pe cfg hungList self env g = (g', acts)"
      and "a \<in> set acts" and "a \<in> termination_of q"
  shows "q = th32ProcessID pe \<and>
         \<not> IsBuiltInExcluded (wcsncpy_truncate (szExeFile pe)) (processPath env) g"
proof (cases "th32ProcessID pe \<noteq> self \<and>
    IsBuiltInExcluded (wcsncpy_truncate (szExeFile pe)) (processPath env) g")
  case True
  then have "acts = snd (CheckSystemProcess pe cfg hungList env g)"
    using assms(1) by (simp add: CheckProcess_def Let_def)
  then show ?thesis
    using CheckSystemProcess_actions [of pe cfg hungList env g] assms(2,3)
    by (auto simp: termination_of_def split: if_splits)
next
  case False
  then have "acts = [] \<or> CheckNormalProcess pe cfg hungList env g = (g', acts)"
    using assms(1) by (auto simp: CheckProcess_def Let_def split: if_splits)
  then show ?thesis
    using False assms CheckNormalProcess_targets [of pe cfg hungList env g g' acts a q]
    by (auto simp: CheckProcess_def)
qed

lemma CheckProcesses_targets:
  assumes "CheckProcesses entries cfg hungList self g = (g', acts)"
      and "a \<in> set acts" and "a \<in> termination_of q"
  shows "\<exists>(pe, env) \<in> set entries. th32ProcessID pe = q \<and>
           \<not> IsBuiltInExcluded (wcsncpy_truncate (szExeFile pe)) (processPath env) g"
  using assms
proof (induction entries arbitrary: g g' acts)
  case Nil
  then show ?case by simp
next
  case (Cons e entries)
  obtain pe env where e: "e = (pe, env)" by (cases e)
  obtain g1 acts1 where one: "CheckProcess pe cfg hungList self env g = (g1, acts1)"
    by (cases "CheckProcess pe cfg hungList self env g")
  obtain g2 acts2 where rest: "CheckProcesses entries cfg hungList self g1 = (g2, acts2)"
    by (cases "CheckProcesses entries cfg hungList self g1")
  have acts: "acts = acts1 @ acts2"
    using Cons.prems(1) e one rest by simp
  have dirs: "same_directories g g1"
    using CheckProcess_directories [of g pe cfg hungList self env] one by simp
  show ?case
  proof (cases "a \<in> set acts1")
    case True
    then show ?thesis
      using CheckProcess_targets [OF one True Cons.prems(3)] e by auto
  next
    case False
    then have "a \<in> set acts2" using Cons.prems(2) acts by simp
    from Cons.IH [OF rest this Cons.prems(3)]
    show ?thesis
      using IsBuiltInExcluded_directories [OF dirs] by auto
  qed
qed

lemma ProcessSnapshot_targets:
  assumes "ProcessSnapshot cfg senv g = (g', acts)"
      and "a \<in> set acts" and "a \<in> termination_of q"
  shows "\<exists>entries. snapshot senv = Some entries \<and>
           (\<exists>(pe, env) \<in> set entries. th32ProcessID pe = q \<and>
              \<not> IsBuiltInExcluded (wcsncpy_truncate (szExeFile pe)) (processPath env) g)"
proof (cases "snapshot senv")
  case None
  then show ?thesis
    using assms by (auto simp: ProcessSnapshot_def Let_def termination_of_def split: if_splits)
next
  case (Some entries)
  define g0 where "g0 = (if consecutiveSnapshotFailures_after g > 0
      then g \<lparr> consecutiveSnapshotFailures_after := 0 \<rparr> else g)"
  define g1 where "g1 = g0 \<lparr> history := map (\<lambda>h. h \<lparr> seen := False \<rparr>) (history g0) \<rparr>"
  have dirs: "same_directories g g1"
    by (simp add: g1_def g0_def same_directories_def)
  obtain g2 acts2 where loop:
    "CheckProcesses entries cfg (hungWindows senv) (currentProcessId senv) g1 = (g2, acts2)"
    by (cases "CheckProcesses entries cfg (hungWindows senv) (currentProcessId senv) g1")
  have "a \<in> set acts2"
    using assms Some loop
    by (auto simp: ProcessSnapshot_def Let_def g1_def g0_def termination_of_def split: if_splits)
  from CheckProcesses_targets [OF loop this assms(3)]
  show ?thesis
    using Some IsBuiltInExcluded_directories [OF dirs] by auto
qed

text \<open>
  Claim C1. A process that \<^verbatim>\<open>CheckProcess\<close> routes to the system-process path
  (\<^verbatim>\<open>IsBuiltInExcluded\<close> holds of its name and path) is never terminated, whatever the
  thresholds, the state and the answers of the operating system: the actions of its check
  hold no \<^verbatim>\<open>OpenProcess(PROCESS_TERMINATE)\<close> and no \<^verbatim>\<open>TerminateProcess\<close>; they are
  at most the "Suspicious System Process" balloon and the "SUSPICIOUS SYSTEM PROCESS"
  log line, and the balloon is there only when \<^verbatim>\<open>ShouldShowBalloonForProcess\<close> allowed
  it. For a whole scan: when every entry of the snapshot with process ID \<open>q\<close> is routed
  to the system-process path, the scan holds no termination of \<open>q\<close>.
\<close>

theorem system_process_never_terminated:
  "(IsBuiltInExcluded (wcsncpy_truncate (szExeFile pe)) (processPath env) g \<and>
    CheckProcess pe cfg hungList self env g = (g', acts) \<longrightarrow>
      (\<forall>q. OpenProcessTerminate q \<notin> set acts \<and> TerminateProcess q \<notin> set acts) \<and>
      set acts \<subseteq> insert (ShowBalloon (SuspiciousSystemProcess (th32ProcessID pe)))
                   (range (\<lambda>r. Log (SuspiciousSystemProcessEvent (th32ProcessID pe) r))) \<and>
      (ShowBalloon (SuspiciousSystemProcess (th32ProcessID pe)) \<in> set acts \<longrightarrow>
         fst (ShouldShowBalloonForProcess (szExeFile pe) (balloonTick env) (balloonMalloc env)
                (balloonCooldown g)))) \<and>
   (ProcessSnapshot cfg senv g = (gs, sacts) \<and> snapshot senv = Some entries \<and>
    (\<forall>(pe', env') \<in> set entries. th32ProcessID pe' = q \<longrightarrow>
        IsBuiltInExcluded (wcsncpy_truncate (szExeFile pe')) (processPath env') g) \<longrightarrow>
      OpenProcessTerminate q \<notin> set sacts \<and> TerminateProcess q \<notin> set sacts)"
proof (intro conjI impI)
  assume "ProcessSnapshot cfg senv g = (gs, sacts) \<and> snapshot senv = Some entries \<and>
    (\<forall>(pe', env') \<in> set entries. th32ProcessID pe' = q \<longrightarrow>
        IsBuiltInExcluded (wcsncpy_truncate (szExeFile pe')) (processPath env') g)"
  then have scan: "ProcessSnapshot cfg senv g = (gs, sacts)"
    and entries: "snapshot senv = Some entries"
    and routed: "\<forall>(pe', env') \<in> set entries. th32ProcessID pe' = q \<longrightarrow>
        IsBuiltInExcluded (wcsncpy_truncate (szExeFile pe')) (processPath env') g"
    by simp_all
  have none: "a \<in> termination_of q \<Longrightarrow> a \<notin> set sacts" for a
    using ProcessSnapshot_targets [OF scan, of a q] entries routed by auto
  show "OpenProcessTerminate q \<notin> set sacts" "TerminateProcess q \<notin> set sacts"
    using none by (simp_all add: termination_of_def)
qed (use CheckProcess_system_actions [of pe env g cfg hungList self g' acts] in simp_all)

lemma example_global_fields:
  "balloonCooldown example_global = []" "history example_global = []"
  "accessDeniedShown example_global = False" "config example_global = example_config"
  "consecutiveSnapshotFailures example_global = 0"
  "consecutiveSnapshotFailures_after example_global = 0"
  by (simp_all add: example_global_def)

lemma example_system_name: "name_matches ''svchost.exe'' systemNames"
  by code_simp

lemma example_system_directory: "IsSystemDirectory example_system_path example_global"
  by code_simp

lemma example_system_path_nonempty: "example_system_path \<noteq> []"
  by (simp add: example_system_path_def)

lemma example_system_routed:
  "IsBuiltInExcluded (wcsncpy_truncate (szExeFile example_system_entry))
     (processPath example_system_env) example_global"
  by (simp add: IsBuiltInExcluded_def wcsncpy_truncate_def example_system_entry_def MAX_PATH_LEN_def
      example_system_env_def example_system_name example_system_path_nonempty
      example_system_directory)

lemma example_system_alert:
  "CheckSystemProcess example_system_entry example_config [] example_system_env example_global =
     (example_global
        \<lparr> history := [new_history 620 None 0],
          balloonCooldown := [\<lparr> processName = ''svchost.exe'', lastTick = 1000 \<rparr>] \<rparr>,
      [ShowBalloon (SuspiciousSystemProcess 620),
       Log (SuspiciousSystemProcessEvent 620 HighMemoryUse)])"
  by (simp add: CheckSystemProcess_def suspicious_alert_def ShouldShowBalloonForProcess_def
      FindOrCreateHistory_def CalcCpuUsage_def CalcAverageCpuUsage_def store_history_def
      new_history_def wcsncpy_truncate_def MAX_PATH_LEN_def Let_def exact_values
      example_system_entry_def example_system_env_def example_config_def example_global_fields)

lemma example_system_check:
  "CheckProcess example_system_entry example_config [] 4242 example_system_env example_global =
     (example_global
        \<lparr> history := [new_history 620 None 0],
          balloonCooldown := [\<lparr> processName = ''svchost.exe'', lastTick = 1000 \<rparr>] \<rparr>,
      [ShowBalloon (SuspiciousSystemProcess 620),
       Log (SuspiciousSystemProcessEvent 620 HighMemoryUse)])"
proof -
  have "th32ProcessID example_system_entry \<noteq> 4242"
    by (simp add: example_system_entry_def)
  then show ?thesis
    using example_system_routed
    by (simp add: CheckProcess_def Let_def example_system_alert)
qed

lemma example_system_snapshot:
  "snd (ProcessSnapshot example_config example_system_scan example_global) =
     [ShowBalloon (SuspiciousSystemProcess 620),
      Log (SuspiciousSystemProcessEvent 620 HighMemoryUse)]"
proof -
  have same: "example_global \<lparr> history := [] \<rparr> = example_global"
    by (simp add: example_global_def)
  show ?thesis
    by (simp add: ProcessSnapshot_def example_system_scan_def example_global_fields same
        example_system_check)
qed

theorem system_process_never_terminated_witness:
  "IsBuiltInExcluded (wcsncpy_truncate (szExeFile example_system_entry))
     (processPath example_system_env) example_global \<and>
   snd (CheckProcess example_system_entry example_config [] 4242 example_system_env example_global) =
     [ShowBalloon (SuspiciousSystemProcess 620),
      Log (SuspiciousSystemProcessEvent 620 HighMemoryUse)] \<and>
   fst (ShouldShowBalloonForProcess (szExeFile example_system_entry)
          (balloonTick example_system_env) (balloonMalloc example_system_env)
          (balloonCooldown example_global)) \<and>
   terminateOk example_system_env \<and>
   snapshot example_system_scan = Some [(example_system_entry, example_system_env)] \<and>
   OpenProcessTerminate 620
     \<notin> set (snd (ProcessSnapshot example_config example_system_scan example_global)) \<and>
   TerminateProcess 620
     \<notin> set (snd (ProcessSnapshot example_config example_system_scan example_global))"
proof -
  have entries: "snapshot example_system_scan = Some [(example_system_entry, example_system_env)]"
    by (simp add: example_system_scan_def)
  have ok: "terminateOk example_system_env"
    by (simp add: example_system_env_def)
  have pid: "th32ProcessID example_system_entry = 620"
    by (simp add: example_system_entry_def)
  show ?thesis
    using system_process_never_terminated
      [of example_system_entry example_system_env example_global example_config "[]" 4242
        "fst (CheckProcess example_system_entry example_config [] 4242 example_system_env example_global)"
        "snd (CheckProcess example_system_entry example_config [] 4242 example_system_env example_global)"
        example_system_scan
        "fst (ProcessSnapshot example_config example_system_scan example_global)"
        "snd (ProcessSnapshot example_config example_system_scan example_global)"
        "[(example_system_entry, example_system_env)]" 620]
      example_system_routed entries ok
    by (simp add: example_system_check pid)
qed


section \<open>Notification cooldown\<close>

lemma wcsicmp_eq_same_name:
  "wcsicmp_eq name' name \<Longrightarrow> wcsicmp_eq s name' = wcsicmp_eq s name"
  by (auto simp: wcsicmp_eq_def)

lemma wcsicmp_eq_nonempty: "wcsicmp_eq name' name \<Longrightarrow> name \<noteq> [] \<Longrightarrow> name' \<noteq> []"
  by (auto simp: wcsicmp_eq_def)

lemma cooldown_loop_same_name:
  "wcsicmp_eq name' name \<Longrightarrow> cooldown_loop name' now cooldown = cooldown_loop name now cooldown"
  by (induction cooldown) (simp_all add: wcsicmp_eq_same_name)

lemma cooldown_loop_first:
  "cooldown_record name cooldown = None \<Longrightarrow> cooldown_loop name now cooldown = None"
  by (induction cooldown) (simp_all add: cooldown_record_def split: if_splits)

lemma cooldown_loop_within:
  "cooldown_record name cooldown = Some r \<Longrightarrow>
   now - lastTick r < SUSPICIOUS_BALLOON_COOLDOWN_MS \<Longrightarrow>
   cooldown_loop name now cooldown = Some (False, cooldown)"
  by (induction cooldown) (auto simp: cooldown_record_def split: if_splits)

lemma cooldown_loop_elapsed:
  "cooldown_record name cooldown = Some r \<Longrightarrow>
   \<not> now - lastTick r < SUSPICIOUS_BALLOON_COOLDOWN_MS \<Longrightarrow>
   \<exists>cooldown'. cooldown_loop name now cooldown = Some (True, cooldown') \<and>
      cooldown_record name cooldown' = Some (r \<lparr> lastTick := now \<rparr>)"
  by (induction cooldown) (auto simp: cooldown_record_def split: if_splits)

text \<open>\<^verbatim>\<open>GetTickCount64\<close> does not go back, so the unsigned difference is the time elapsed.\<close>

lemma tick_difference:
  fixes t1 t2 :: ULONGLONG
  assumes "unat t1 \<le> unat t2"
  shows "(t2 - t1 < SUSPICIOUS_BALLOON_COOLDOWN_MS) = (unat t2 - unat t1 < 300000)"
proof -
  have "t1 \<le> t2" using assms by (simp add: word_le_nat_alt)
  then have "unat (t2 - t1) = unat t2 - unat t1" by (simp add: unat_sub)
  then show ?thesis
    by (simp add: word_less_nat_alt SUSPICIOUS_BALLOON_COOLDOWN_MS_def)
qed

lemma example_name_case: "wcsicmp_eq ''SVCHOST.EXE'' ''svchost.exe''"
  by code_simp

text \<open>
  Claim C7 as the spec states it does not hold: the first request for a name returns
  allow, but it inserts a record only when \<^verbatim>\<open>malloc\<close> returns a node. When it does not,
  a second request one second later is allowed again. The empty name is denied at once,
  and a name longer than the 259 characters a node holds is stored truncated and never
  found again.
\<close>

theorem cooldown_allow_deny_counterexample:
  "ShouldShowBalloonForProcess ''svchost.exe'' 1000 False [] = (True, []) \<and>
   unat (2000 :: ULONGLONG) - unat (1000 :: ULONGLONG) < 300000 \<and>
   fst (ShouldShowBalloonForProcess ''svchost.exe'' 2000 True
          (snd (ShouldShowBalloonForProcess ''svchost.exe'' 1000 False []))) \<and>
   ShouldShowBalloonForProcess [] 1000 True [] = (False, []) \<and>
   fst (ShouldShowBalloonForProcess (replicate 260 (CHR ''a'')) 2000 True
          (snd (ShouldShowBalloonForProcess (replicate 260 (CHR ''a'')) 1000 True [])))"
  by (simp add: ShouldShowBalloonForProcess_def wcsncpy_truncate_def MAX_PATH_LEN_def
      wcsicmp_eq_def)

text \<open>
  Claim C7, amended. Take a non-empty process name of at most 259 characters (what
  \<^verbatim>\<open>szExeFile\<close> holds) for which the cache has no record, and let the allocation of the
  first request succeed. Then the first request returns allow and puts the record
  (name, tick) at the head of the cache. Let a later request come at a tick \<open>t2\<close> not
  before \<open>t1\<close>, under any spelling that differs in case only, in any cache where the
  record found for the name still has the tick of the first request. If less than 300000
  ms have passed, it returns deny and leaves the cache as it is. Otherwise it returns
  allow and the record found for the name then carries the tick \<open>t2\<close>.
\<close>

theorem cooldown_allow_then_deny_or_refresh:
  assumes "name \<noteq> []" and "length name < MAX_PATH_LEN"
      and "wcsicmp_eq name' name"
      and "cooldown_record name cooldown = None"
      and "unat t1 \<le> unat t2"
  shows "ShouldShowBalloonForProcess name t1 True cooldown =
           (True, \<lparr> processName = name, lastTick = t1 \<rparr> # cooldown) \<and>
         cooldown_record name (\<lparr> processName = name, lastTick = t1 \<rparr> # cooldown) =
           Some \<lparr> processName = name, lastTick = t1 \<rparr> \<and>
         (\<forall>later r mallocOk.
            cooldown_record name later = Some r \<and> lastTick r = t1 \<longrightarrow>
              (unat t2 - unat t1 < 300000 \<longrightarrow>
                 ShouldShowBalloonForProcess name' t2 mallocOk later = (False, later)) \<and>
              (300000 \<le> unat t2 - unat t1 \<longrightarrow>
                 fst (ShouldShowBalloonForProcess name' t2 mallocOk later) \<and>
                 cooldown_record name (snd (ShouldShowBalloonForProcess name' t2 mallocOk later)) =
                   Some (r \<lparr> lastTick := t2 \<rparr>)))"
proof (intro conjI allI impI)
  show "ShouldShowBalloonForProcess name t1 True cooldown =
           (True, \<lparr> processName = name, lastTick = t1 \<rparr> # cooldown)"
    using assms(1,2,4)
    by (simp add: ShouldShowBalloonForProcess_def cooldown_loop_first wcsncpy_truncate_def)
  show "cooldown_record name (\<lparr> processName = name, lastTick = t1 \<rparr> # cooldown) =
           Some \<lparr> processName = name, lastTick = t1 \<rparr>"
    by (simp add: cooldown_record_def wcsicmp_eq_def)
next
  fix later r mallocOk
  assume rec: "cooldown_record name later = Some r \<and> lastTick r = t1"
  have ne: "name' \<noteq> []" using assms(1,3) by (rule wcsicmp_eq_nonempty [rotated])
  note same = cooldown_loop_same_name [OF assms(3)]
  note diff = tick_difference [OF assms(5)]
  {
    assume "unat t2 - unat t1 < 300000"
    then have "t2 - lastTick r < SUSPICIOUS_BALLOON_COOLDOWN_MS" using rec diff by simp
    from cooldown_loop_within [OF _ this] rec
    show "ShouldShowBalloonForProcess name' t2 mallocOk later = (False, later)"
      using ne by (simp add: ShouldShowBalloonForProcess_def same)
  }
  {
    assume "300000 \<le> unat t2 - unat t1"
    then have "\<not> t2 - lastTick r < SUSPICIOUS_BALLOON_COOLDOWN_MS" using rec diff by simp
    from cooldown_loop_elapsed [OF _ this] rec
    obtain cooldown' where "cooldown_loop name t2 later = Some (True, cooldown')"
      and "cooldown_record name cooldown' = Some (r \<lparr> lastTick := t2 \<rparr>)"
      by blast
    then show "fst (ShouldShowBalloonForProcess name' t2 mallocOk later)"
      and "cooldown_record name (snd (ShouldShowBalloonForProcess name' t2 mallocOk later)) =
                   Some (r \<lparr> lastTick := t2 \<rparr>)"
      using ne by (simp_all add: ShouldShowBalloonForProcess_def same)
  }
qed

theorem cooldown_allow_then_deny_or_refresh_witness:
  "''svchost.exe'' \<noteq> [] \<and> length ''svchost.exe'' < MAX_PATH_LEN \<and>
   wcsicmp_eq ''SVCHOST.EXE'' ''svchost.exe'' \<and>
   cooldown_record ''svchost.exe'' [] = None \<and>
   unat (1000 :: ULONGLONG) \<le> unat (2000 :: ULONGLONG) \<and>
   unat (1000 :: ULONGLONG) \<le> unat (400000 :: ULONGLONG) \<and>
   ShouldShowBalloonForProcess ''svchost.exe'' 1000 True [] =
     (True, [\<lparr> processName = ''svchost.exe'', lastTick = 1000 \<rparr>]) \<and>
   ShouldShowBalloonForProcess ''SVCHOST.EXE'' 2000 True
     [\<lparr> processName = ''svchost.exe'', lastTick = 1000 \<rparr>] =
     (False, [\<lparr> processName = ''svchost.exe'', lastTick = 1000 \<rparr>]) \<and>
   fst (ShouldShowBalloonForProcess ''SVCHOST.EXE'' 400000 True
          [\<lparr> processName = ''svchost.exe'', lastTick = 1000 \<rparr>]) \<and>
   cooldown_record ''svchost.exe''
     (snd (ShouldShowBalloonForProcess ''SVCHOST.EXE'' 400000 True
             [\<lparr> processName = ''svchost.exe'', lastTick = 1000 \<rparr>])) =
     Some \<lparr> processName = ''svchost.exe'', lastTick = 400000 \<rparr>"
proof -
  have h1: "''svchost.exe'' \<noteq> []" by simp
  have h2: "length ''svchost.exe'' < MAX_PATH_LEN" by (simp add: MAX_PATH_LEN_def)
  have h4: "cooldown_record ''svchost.exe'' [] = None" by (simp add: cooldown_record_def)
  have h5: "unat (1000 :: ULONGLONG) \<le> unat (2000 :: ULONGLONG)" by simp
  have h6: "unat (1000 :: ULONGLONG) \<le> unat (400000 :: ULONGLONG)" by simp
  have found: "cooldown_record ''svchost.exe'' [\<lparr> processName = ''svchost.exe'', lastTick = 1000 \<rparr>] =
      Some \<lparr> processName = ''svchost.exe'', lastTick = 1000 \<rparr>"
    by (simp add: cooldown_record_def wcsicmp_eq_def)
  note within = cooldown_allow_then_deny_or_refresh [OF h1 h2 example_name_case h4 h5]
  note elapsed = cooldown_allow_then_deny_or_refresh [OF h1 h2 example_name_case h4 h6]
  have a: "ShouldShowBalloonForProcess ''svchost.exe'' 1000 True [] =
     (True, [\<lparr> processName = ''svchost.exe'', lastTick = 1000 \<rparr>])"
    using within by blast
  have b: "ShouldShowBalloonForProcess ''SVCHOST.EXE'' 2000 True
     [\<lparr> processName = ''svchost.exe'', lastTick = 1000 \<rparr>] =
     (False, [\<lparr> processName = ''svchost.exe'', lastTick = 1000 \<rparr>])"
    using within found by simp
  have c: "fst (ShouldShowBalloonForProcess ''SVCHOST.EXE'' 400000 True
          [\<lparr> processName = ''svchost.exe'', lastTick = 1000 \<rparr>]) \<and>
     cooldown_record ''svchost.exe''
       (snd (ShouldShowBalloonForProcess ''SVCHOST.EXE'' 400000 True
             [\<lparr> processName = ''svchost.exe'', lastTick = 1000 \<rparr>])) =
     Some \<lparr> processName = ''svchost.exe'', lastTick = 400000 \<rparr>"
    using elapsed [THEN conjunct2, THEN conjunct2, rule_format,
        of "[\<lparr> processName = ''svchost.exe'', lastTick = 1000 \<rparr>]"
          "\<lparr> processName = ''svchost.exe'', lastTick = 1000 \<rparr>" True]
      found
    by simp
  show ?thesis
    using h1 h2 example_name_case h4 h5 h6 a b c by blast
qed

text \<open>
  Claim C10. When a request for a non-empty name finds no record and \<^verbatim>\<open>malloc\<close>
  returns no node, the request returns allow and the cache is what it was. As long as
  the cache has no record for the name, every later request for it (at any tick, so also
  within the cooldown window, and under any spelling that differs in case only) returns
  allow.
\<close>

theorem cooldown_lost_when_malloc_fails:
  assumes "name \<noteq> []"
      and "wcsicmp_eq name' name"
      and "cooldown_record name cooldown = None"
  shows "ShouldShowBalloonForProcess name t1 False cooldown = (True, cooldown) \<and>
         (\<forall>later t2 mallocOk. cooldown_record name later = None \<longrightarrow>
            fst (ShouldShowBalloonForProcess name' t2 mallocOk later))"
proof -
  have ne: "name' \<noteq> []" using assms(1,2) by (rule wcsicmp_eq_nonempty [rotated])
  show ?thesis
    using assms ne
    by (simp add: ShouldShowBalloonForProcess_def cooldown_loop_first
        cooldown_loop_same_name [OF assms(2)])
qed

theorem cooldown_lost_when_malloc_fails_witness:
  "''svchost.exe'' \<noteq> [] \<and> wcsicmp_eq ''SVCHOST.EXE'' ''svchost.exe'' \<and>
   cooldown_record ''svchost.exe'' [] = None \<and>
   ShouldShowBalloonForProcess ''svchost.exe'' 1000 False [] = (True, []) \<and>
   unat (2000 :: ULONGLONG) - unat (1000 :: ULONGLONG) < 300000 \<and>
   fst (ShouldShowBalloonForProcess ''SVCHOST.EXE'' 2000 False [])"
proof -
  have h1: "''svchost.exe'' \<noteq> []" by simp
  have h3: "cooldown_record ''svchost.exe'' [] = None" by (simp add: cooldown_record_def)
  show ?thesis
    using cooldown_lost_when_malloc_fails [OF h1 example_name_case h3, of 1000]
      h1 example_name_case h3
    by simp
qed


section \<open>CPU usage: sentinel and clamp\<close>

lemma CalcCpuUsage_unreadable:
  "\<not> hProcess \<or> ptimes = None \<Longrightarrow> CalcCpuUsage hProcess ptimes now freq hist = (Finite (- 1), hist)"
  by (auto simp: CalcCpuUsage_def)

lemma CalcCpuUsage_nonnegative:
  assumes "sint freq \<noteq> 0"
  shows "\<exists>x. fst (CalcCpuUsage True (Some (c, k, u)) now freq hist) = Finite x \<and> 0 \<le> x"
proof -
  define delta where "delta = (k - ftKernel hist) + (u - ftUser hist)"
  define s where "s = double_div (to_double (real_of_int (sint (now - perfTime hist))))
                        (to_double (real_of_int (sint freq)))"
  have "fst (CalcCpuUsage True (Some (c, k, u)) now freq hist) =
          (if delta = 0 then Finite 0 else if s \<le> 0 then Finite 0
           else Finite (to_float (double_div (double_div (double_div (to_double (real (unat delta))) 10000) s) 10)))"
    using assms by (simp add: CalcCpuUsage_def Let_def delta_def s_def del: of_int_sint of_nat_unat)
  moreover have "0 \<le> to_float (double_div (double_div (double_div (to_double (real (unat delta))) 10000) s) 10)"
    if "\<not> s \<le> 0"
    using that
    by (simp add: to_float_def to_double_def to_precision_nonneg double_div_nonneg del: of_nat_unat)
  ultimately show ?thesis by auto
qed

lemma CalcCpuUsage_zero:
  assumes "0 < sint freq"
      and "sint (now - perfTime hist) \<le> 0 \<or> (k - ftKernel hist) + (u - ftUser hist) = 0"
  shows "CalcCpuUsage True (Some (c, k, u)) now freq hist = (Finite 0, hist)"
proof -
  have "double_div (to_double (real_of_int (sint (now - perfTime hist))))
          (to_double (real_of_int (sint freq))) \<le> 0"
    if "sint (now - perfTime hist) \<le> 0"
    using that assms(1)
    by (intro double_div_nonpos) (simp_all add: to_double_def to_precision_nonpos to_precision_nonneg
        del: of_int_sint)
  then show ?thesis
    using assms by (auto simp: CalcCpuUsage_def Let_def simp del: of_int_sint of_nat_unat)
qed

text \<open>
  Claim C5. \<^verbatim>\<open>QueryPerformanceFrequency\<close> returns a positive frequency (on every
  Windows the program runs on). Then \<^verbatim>\<open>CalcCpuUsage\<close> returns the sentinel \<open>-1\<close>
  exactly when the handle is null or \<^verbatim>\<open>GetProcessTimes\<close> failed. When the handle is
  there and the times were read: the result is 0 whenever the signed difference between
  the performance counter and the cached one is zero or negative, or the CPU-time delta
  is zero, and the baseline of the node is then left as it was; and the result is a
  number that is never negative.
\<close>

theorem CalcCpuUsage_sentinel_and_clamp:
  assumes "0 < sint freq"
  shows "(fst (CalcCpuUsage hProcess ptimes now freq hist) = Finite (- 1)) =
           (\<not> hProcess \<or> ptimes = None) \<and>
         (hProcess \<and> ptimes = Some (c, k, u) \<longrightarrow>
            (sint (now - perfTime hist) \<le> 0 \<or> (k - ftKernel hist) + (u - ftUser hist) = 0 \<longrightarrow>
               CalcCpuUsage hProcess ptimes now freq hist = (Finite 0, hist)) \<and>
            (\<exists>x. fst (CalcCpuUsage hProcess ptimes now freq hist) = Finite x \<and> 0 \<le> x))"
proof (cases "\<not> hProcess \<or> ptimes = None")
  case True
  then show ?thesis
    using CalcCpuUsage_unreadable [of hProcess ptimes now freq hist] by auto
next
  case False
  then obtain c' k' u' where readable: "hProcess" "ptimes = Some (c', k', u')"
    by (cases ptimes) auto
  have nonzero: "sint freq \<noteq> 0" using assms by simp
  have "fst (CalcCpuUsage hProcess ptimes now freq hist) \<noteq> Finite (- 1)"
    using CalcCpuUsage_nonnegative [OF nonzero, of c' k' u' now hist] readable by auto
  then show ?thesis
    using False readable CalcCpuUsage_nonnegative [OF nonzero, of c k u now hist]
      CalcCpuUsage_zero [OF assms, of now hist k u c]
    by auto
qed

theorem CalcCpuUsage_sentinel_and_clamp_witness:
  "0 < sint example_perf_freq \<and>
   fst (CalcCpuUsage False (Some (0, 3000000, 2000000)) 10000000 example_perf_freq example_history) =
     Finite (- 1) \<and>
   fst (CalcCpuUsage True None 10000000 example_perf_freq example_history) = Finite (- 1) \<and>
   sint (0 - perfTime example_history) \<le> 0 \<and>
   CalcCpuUsage True (Some (0, 3000000, 2000000)) 0 example_perf_freq example_history =
     (Finite 0, example_history) \<and>
   fst (CalcCpuUsage True (Some (0, 3000000, 2000000)) 10000000 example_perf_freq example_history) =
     Finite 50 \<and>
   fst (CalcCpuUsage True (Some (0, 3000000, 2000000)) 10000000 example_perf_freq example_history) \<noteq>
     Finite (- 1)"
proof -
  have positive: "0 < sint example_perf_freq"
    by (simp add: example_perf_freq_def)
  have base: "sint (0 - perfTime example_history) \<le> 0"
    by (simp add: example_history_def new_history_def)
  have half: "fst (CalcCpuUsage True (Some (0, 3000000, 2000000)) 10000000 example_perf_freq
      example_history) = Finite 50"
    by (simp add: CalcCpuUsage_def example_history_def new_history_def example_perf_freq_def
        double_div_def exact_values)
  note t = CalcCpuUsage_sentinel_and_clamp [OF positive]
  show ?thesis
    using positive base half
      t [of False "Some (0, 3000000, 2000000)" 10000000 example_history 0 3000000 2000000]
      t [of True None 10000000 example_history 0 3000000 2000000]
      t [of True "Some (0, 3000000, 2000000)" 0 example_history 0 3000000 2000000]
      t [of True "Some (0, 3000000, 2000000)" 10000000 example_history 0 3000000 2000000]
    by simp
qed


section \<open>Backoff after a failed snapshot\<close>

text \<open>The wait, as a number, while the count of failures fits the \<^verbatim>\<open>int\<close> it is
  copied to.\<close>

lemma shift_value:
  fixes n :: DWORD
  assumes "1 < unat n" "unat n \<le> 2 ^ 31"
  shows "sint (n - 1) = int (unat n - 1)"
proof -
  have "n \<noteq> 0" using assms(1) by auto
  then have u: "unat (n - 1) = unat n - 1" by (rule unat_minus_one)
  have "uint (n - 1) = int (unat (n - 1))" by simp
  then have "uint (n - 1) = int (unat n - 1)" using u by simp
  moreover have "unat n - 1 < 2 ^ 31" using assms by linarith
  then have "int (unat n - 1) < int (2 ^ 31)" by (simp only: of_nat_less_iff)
  then have "int (unat n - 1) < 2 ^ 31" by simp
  ultimately show ?thesis
    by (simp add: sint_uint signed_take_bit_int_eq_self)
qed

lemma scaled_interval:
  fixes i :: DWORD
  assumes "k \<le> 10"
  shows "unat ((ucast i :: ULONGLONG) * push_bit k 1) = unat i * 2 ^ k"
proof -
  have eq: "(ucast i :: ULONGLONG) * push_bit k 1 = of_nat (unat i * 2 ^ k)"
    by (simp add: push_bit_eq_mult)
  have "unat i < 2 ^ 32" using unsigned_less [of i] by simp
  moreover have "(2::nat) ^ k \<le> 2 ^ 10" by (rule power_increasing) (use assms in simp_all)
  ultimately have "unat i * 2 ^ k < 2 ^ 32 * 2 ^ 10"
    by (meson mult_less_le_imp_less zero_less_numeral zero_less_power le0)
  then have "unat i * 2 ^ k < 2 ^ LENGTH(64)" by simp
  then have "unat (of_nat (unat i * 2 ^ k) :: ULONGLONG) = unat i * 2 ^ k"
    by (simp only: unat_of_nat mod_less)
  then show ?thesis
    by (simp only: eq)
qed

lemma capped_wait:
  fixes w :: ULONGLONG
  shows "unat (if w > MAX_BACKOFF_WAIT_MS then MAX_BACKOFF_WAIT_MS else w) = min (unat w) 60000"
  by (simp add: MAX_BACKOFF_WAIT_MS_def word_less_nat_alt)

lemma backoff_wait_formula:
  assumes "0 < unat n" "unat n \<le> 2 ^ 31"
  shows "unat (backoff_wait i n) = min (unat i * 2 ^ min (unat n - 1) 10) 60000"
proof (cases "1 < unat n")
  case True
  then have more: "n > 1" by (simp add: word_less_nat_alt)
  have shift: "sint (n - 1) = int (unat n - 1)"
    using True assms(2) by (rule shift_value)
  have k: "nat (if sint (n - 1) > 10 then 10 else sint (n - 1)) = min (unat n - 1) 10"
    unfolding shift by auto
  have "backoff_wait i n =
      (if ucast i * push_bit (min (unat n - 1) 10) 1 > MAX_BACKOFF_WAIT_MS then MAX_BACKOFF_WAIT_MS
       else ucast i * push_bit (min (unat n - 1) 10) 1)"
    using more k by (simp only: backoff_wait_def Let_def if_True)
  then show ?thesis
    by (simp only: capped_wait scaled_interval [OF min.cobounded2])
next
  case False
  then have one: "unat n = 1" using assms(1) by linarith
  then have "\<not> n > 1" by (simp add: word_less_nat_alt)
  then have "backoff_wait i n =
      (if ucast i > MAX_BACKOFF_WAIT_MS then MAX_BACKOFF_WAIT_MS else ucast i)"
    by (simp only: backoff_wait_def Let_def if_False)
  then show ?thesis
    using one scaled_interval [of 0 i] by (simp add: capped_wait)
qed


text \<open>
  A failed snapshot adds one to the static of the failure block, and the wait follows
  from the new value: interval times 2 to the power (value - 1), the exponent capped at
  10 and the wait at 60000 ms.
\<close>

lemma ProcessSnapshot_failed:
  assumes "snapshot env = None"
  shows "ProcessSnapshot cfg env g =
     (g \<lparr> consecutiveSnapshotFailures := consecutiveSnapshotFailures g + 1 \<rparr>,
      (if consecutiveSnapshotFailures g + 1 = 1 then [Log SnapshotFailedWillRetry]
       else if consecutiveSnapshotFailures g + 1 > 3
       then [Log (SnapshotFailedConsecutively (consecutiveSnapshotFailures g + 1))]
       else []) @
      [BackoffWait (backoff_wait (monitorIntervalMs cfg) (consecutiveSnapshotFailures g + 1))])"
  using assms by (simp add: ProcessSnapshot_def Let_def)

lemma failed_scan_wait:
  assumes "unat (consecutiveSnapshotFailures g) < 2 ^ 31"
  shows "unat (backoff_wait (monitorIntervalMs cfg) (consecutiveSnapshotFailures g + 1)) =
         min (unat (monitorIntervalMs cfg) * 2 ^ min (unat (consecutiveSnapshotFailures g)) 10) 60000"
proof -
  have "unat (consecutiveSnapshotFailures g) + unat (1 :: DWORD) < 2 ^ LENGTH(32)"
    using assms by simp
  then have "unat (consecutiveSnapshotFailures g + 1) = unat (consecutiveSnapshotFailures g) + 1"
    by (simp only: unat_add_lem [THEN iffD1] unat_1)
  then show ?thesis
    using assms backoff_wait_formula [of "consecutiveSnapshotFailures g + 1" "monitorIntervalMs cfg"]
    by simp
qed

text \<open>
  A snapshot that succeeds tests and clears the static of its own block, which nothing
  ever sets; the static that counts the failures is not written.
\<close>

lemma suspicious_alert_failure_counts:
  "same_failure_counts g (fst (suspicious_alert pe r env g))"
  by (simp add: suspicious_alert_def same_failure_counts_def case_prod_beta)

lemma CheckSystemProcess_failure_counts:
  "same_failure_counts g (fst (CheckSystemProcess pe cfg hungList env g))"
  using suspicious_alert_failure_counts
  by (simp add: CheckSystemProcess_def Let_def case_prod_beta same_failure_counts_def)

lemma CheckNormalProcess_failure_counts:
  "same_failure_counts g (fst (CheckNormalProcess pe cfg hungList env g))"
  by (simp add: CheckNormalProcess_def Let_def case_prod_beta same_failure_counts_def
      split: option.splits)

lemma CheckProcess_failure_counts:
  "same_failure_counts g (fst (CheckProcess pe cfg hungList self env g))"
  using CheckSystemProcess_failure_counts CheckNormalProcess_failure_counts
  by (simp add: CheckProcess_def Let_def same_failure_counts_def)

lemma CheckProcesses_failure_counts:
  "same_failure_counts g (fst (CheckProcesses entries cfg hungList self g))"
proof (induction entries arbitrary: g)
  case Nil
  show ?case by (simp add: same_failure_counts_def)
next
  case (Cons e entries)
  obtain pe env where e: "e = (pe, env)" by (cases e)
  show ?case
    using CheckProcess_failure_counts [of g pe cfg hungList self env]
      Cons.IH [of "fst (CheckProcess pe cfg hungList self env g)"]
    by (simp add: e case_prod_beta same_failure_counts_def)
qed

lemma ProcessSnapshot_succeeded_keeps_count:
  assumes "snapshot env = Some entries"
      and "consecutiveSnapshotFailures_after g = 0"
  shows "same_failure_counts g (fst (ProcessSnapshot cfg env g))"
  using assms
    CheckProcesses_failure_counts
      [of "g \<lparr> history := map (\<lambda>h. h \<lparr> seen := False \<rparr>) (history g) \<rparr>" entries cfg
        "hungWindows env" "currentProcessId env"]
  by (simp add: ProcessSnapshot_def Let_def case_prod_beta same_failure_counts_def)

lemma example_failed_snapshot:
  "ProcessSnapshot cfg example_failed_scan g =
     (g \<lparr> consecutiveSnapshotFailures := consecutiveSnapshotFailures g + 1 \<rparr>,
      (if consecutiveSnapshotFailures g + 1 = 1 then [Log SnapshotFailedWillRetry]
       else if consecutiveSnapshotFailures g + 1 > 3
       then [Log (SnapshotFailedConsecutively (consecutiveSnapshotFailures g + 1))]
       else []) @
      [BackoffWait (backoff_wait (monitorIntervalMs cfg) (consecutiveSnapshotFailures g + 1))])"
  by (rule ProcessSnapshot_failed) (simp add: example_failed_scan_def)

lemma example_own_snapshot:
  "history g = [] \<Longrightarrow> consecutiveSnapshotFailures_after g = 0 \<Longrightarrow>
   ProcessSnapshot cfg example_own_scan g = (g, [])"
  by (simp add: ProcessSnapshot_def example_own_scan_def CheckProcess_def)

lemma example_backoff_waits:
  "backoff_wait 5000 1 = 5000" "backoff_wait 5000 2 = 10000" "backoff_wait 5000 3 = 20000"
  "backoff_wait 5000 4 = 40000"
  by (simp_all add: backoff_wait_def MAX_BACKOFF_WAIT_MS_def)

text \<open>
  Claim C9 at a failing input. With an interval of 5000 ms the snapshot fails once,
  then succeeds, then fails three times in a row. The first failure of the new run waits
  10000 ms and logs nothing, where a first consecutive failure waits 5000 ms and logs
  "will retry with backoff"; the third consecutive failure waits 40000 ms and already
  logs "failed 4 times consecutively". The successful scan in between logs no
  "Snapshot succeeded after ... failures": it reads the other static, which is 0.
\<close>

theorem snapshot_failure_count_survives_success:
  "snd (MonitorScans example_config
          [example_failed_scan, example_own_scan, example_failed_scan, example_failed_scan,
           example_failed_scan]
          example_global) =
     [[Log SnapshotFailedWillRetry, BackoffWait 5000],
      [],
      [BackoffWait 10000],
      [BackoffWait 20000],
      [Log (SnapshotFailedConsecutively 4), BackoffWait 40000]]"
  by (simp add: example_failed_snapshot example_own_snapshot example_global_fields
      example_backoff_waits example_config_def)

section \<open>History: the process IDs of its nodes\<close>

lemma update_history_set:
  "h \<in> set (update_history p f hs) \<Longrightarrow> h \<in> set hs \<or> (\<exists>h0 \<in> set hs. pid h0 = p \<and> h = f h0)"
  by (induction hs) (auto split: if_splits)

lemma RemoveHistory_set: "h \<in> set (RemoveHistory p hs) \<Longrightarrow> h \<in> set hs"
  by (induction hs) (auto split: if_splits)

lemma find_history_pid: "find_history p hs = Some h \<Longrightarrow> pid h = p \<and> h \<in> set hs"
  by (induction hs) (auto split: if_splits)

lemma find_history_None: "find_history p hs = None \<longleftrightarrow> (\<forall>h \<in> set hs. pid h \<noteq> p)"
  by (induction hs) auto

lemma new_history_pid: "pid (new_history p ptimes perf) = p"
  by (simp add: new_history_def Let_def split: option.splits)

lemma pids_within_unseen: "pids_within seen S (map (\<lambda>h. h \<lparr> seen := False \<rparr>) hs)"
  by (simp add: pids_within_def)

lemma pids_within_remove: "pids_within keep S hs \<Longrightarrow> pids_within keep S (RemoveHistory p hs)"
  using RemoveHistory_set by (auto simp: pids_within_def)

lemma pids_within_store:
  "pids_within keep S hs \<Longrightarrow> pid h \<in> S \<Longrightarrow> pids_within keep S (store_history h hs)"
  by (auto simp: pids_within_def store_history_def dest: update_history_set)

lemma FindOrCreateHistory_pid:
  "FindOrCreateHistory p mallocOk ptimes perf hs = (Some h, hs') \<Longrightarrow> pid h = p"
  by (auto simp: FindOrCreateHistory_def Let_def new_history_pid
      split: option.splits if_splits dest: find_history_pid)

lemma pids_within_find:
  assumes "pids_within keep S hs" and "p \<in> S"
  shows "pids_within keep S (snd (FindOrCreateHistory p mallocOk ptimes perf hs))"
proof (cases "find_history p hs")
  case None
  then show ?thesis
    using assms by (auto simp: FindOrCreateHistory_def Let_def pids_within_def new_history_pid)
next
  case (Some cur)
  then show ?thesis
    using assms
    by (auto simp: FindOrCreateHistory_def pids_within_def dest!: update_history_set)
qed

lemma CalcCpuUsage_pid: "pid (snd (CalcCpuUsage hp ptimes now freq hist)) = pid hist"
  by (simp add: CalcCpuUsage_def Let_def split: option.splits)

lemma MeasureProcessResources_pid:
  "pid (snd (snd (snd (MeasureProcessResources env hist)))) = pid hist"
  using CalcCpuUsage_pid [of True "processTimes env" "nowPerf env" "perfFreq env" hist]
  by (simp add: MeasureProcessResources_def case_prod_beta Let_def split: option.splits)

lemma CheckProcessHungAndTerminate_pid:
  "CheckProcessHungAndTerminate (Some h) p hungList env shown = (Some h', removed, shown', acts)
   \<Longrightarrow> pid h' = pid h"
  by (auto simp: CheckProcessHungAndTerminate_def Let_def case_prod_beta split: if_splits)

lemma CheckProcessResourcesAndTerminate_pid:
  "pid (fst (CheckProcessResourcesAndTerminate h p cfg hungList env notify shown)) = pid h"
  using MeasureProcessResources_pid [of env h]
  by (simp add: CheckProcessResourcesAndTerminate_def Let_def case_prod_beta split: option.splits)

lemma pids_within_normal:
  assumes "pids_within keep S (history g)" and "th32ProcessID pe \<in> S"
  shows "pids_within keep S (history (fst (CheckNormalProcess pe cfg hungList env g)))"
proof -
  define p where "p = th32ProcessID pe"
  obtain hist hs where f: "FindOrCreateHistory p (historyMalloc env) (baselineTimes env)
      (baselinePerf env) (history g) = (hist, hs)"
    by (cases "FindOrCreateHistory p (historyMalloc env) (baselineTimes env) (baselinePerf env) (history g)")
  have hs: "pids_within keep S hs"
    using pids_within_find [OF assms(1), of p "historyMalloc env" "baselineTimes env" "baselinePerf env"]
      assms(2) f by (simp add: p_def)
  show ?thesis
  proof (cases hist)
    case None
    then show ?thesis
      using f hs pids_within_remove [OF hs]
      by (simp add: CheckNormalProcess_def Let_def case_prod_beta p_def)
  next
    case (Some h)
    have ph: "pid h = p" using f Some FindOrCreateHistory_pid by blast
    show ?thesis
    proof (cases "queryHandle env")
      case True
      have "pid (fst (CheckProcessResourcesAndTerminate h p cfg hungList env
          (notifyOnTermination (config g)) (accessDeniedShown g))) \<in> S"
        using CheckProcessResourcesAndTerminate_pid ph assms(2) by (simp add: p_def)
      then show ?thesis
        using f Some True pids_within_remove [OF hs] pids_within_store [OF hs]
        by (simp add: CheckNormalProcess_def Let_def case_prod_beta p_def)
    next
      case False
      obtain hist' removed shown' acts where c:
        "CheckProcessHungAndTerminate (Some h) p hungList env (accessDeniedShown g) =
           (hist', removed, shown', acts)"
        by (metis prod_cases4)
      have "hist' = Some h' \<Longrightarrow> pid h' \<in> S" for h'
        using c CheckProcessHungAndTerminate_pid ph assms(2) by (auto simp: p_def)
      then show ?thesis
        using f Some False c pids_within_remove [OF hs] pids_within_store [OF hs] hs
        by (auto simp: CheckNormalProcess_def Let_def p_def split: option.splits)
    qed
  qed
qed


lemma suspicious_alert_history: "history (fst (suspicious_alert pe r env g)) = history g"
  by (simp add: suspicious_alert_def case_prod_beta)

lemma pids_within_system:
  assumes "pids_within keep S (history g)" and "th32ProcessID pe \<in> S"
  shows "pids_within keep S (history (fst (CheckSystemProcess pe cfg hungList env g)))"
proof -
  define p where "p = th32ProcessID pe"
  obtain hist hs where f: "FindOrCreateHistory p (historyMalloc env) (baselineTimes env)
      (baselinePerf env) (history g) = (hist, hs)"
    by (cases "FindOrCreateHistory p (historyMalloc env) (baselineTimes env) (baselinePerf env) (history g)")
  have hs: "pids_within keep S hs"
    using pids_within_find [OF assms(1), of p "historyMalloc env" "baselineTimes env" "baselinePerf env"]
      assms(2) f by (simp add: p_def)
  have stored: "pids_within keep S
      (store_history (snd (CalcCpuUsage True (processTimes env) (nowPerf env) (perfFreq env) h)) hs)"
    if "hist = Some h" for h
  proof -
    have "pid h = p" using f that FindOrCreateHistory_pid by blast
    then show ?thesis
      using pids_within_store [OF hs] CalcCpuUsage_pid assms(2) by (simp add: p_def)
  qed
  show ?thesis
    using assms(1) f hs stored
    by (auto simp: CheckSystemProcess_def Let_def case_prod_beta suspicious_alert_history p_def
        split: option.splits)
qed

lemma pids_within_check:
  assumes "pids_within keep S (history g)" and "th32ProcessID pe \<in> S"
  shows "pids_within keep S (history (fst (CheckProcess pe cfg hungList self env g)))"
  using assms pids_within_system [OF assms] pids_within_normal [OF assms]
  by (simp add: CheckProcess_def Let_def)

lemma pids_within_checks:
  assumes "pids_within keep S (history g)" and "\<forall>(pe, env) \<in> set entries. th32ProcessID pe \<in> S"
  shows "pids_within keep S (history (fst (CheckProcesses entries cfg hungList self g)))"
  using assms
proof (induction entries arbitrary: g)
  case Nil
  then show ?case by simp
next
  case (Cons e entries)
  obtain pe env where e: "e = (pe, env)" by (cases e)
  have "pids_within keep S (history (fst (CheckProcess pe cfg hungList self env g)))"
    using Cons.prems e by (auto intro: pids_within_check)
  from Cons.IH [OF this] Cons.prems(2)
  show ?case by (simp add: e case_prod_beta)
qed

lemma CleanupHistory_set:
  "h \<in> set (CleanupHistory hs) \<Longrightarrow> \<exists>h0 \<in> set hs. seen h0 \<and> pid h = pid h0"
  by (induction hs) (auto split: if_splits)

lemma ProcessSnapshot_history:
  assumes "snapshot env = Some entries" and "entries \<noteq> []"
      and "h \<in> set (history (fst (ProcessSnapshot cfg env g)))"
  shows "pid h \<in> (\<lambda>(pe, e). th32ProcessID pe) ` set entries"
proof -
  define S where "S = (\<lambda>(pe, e :: PROCESS_ENV). th32ProcessID pe) ` set entries"
  define g0 where "g0 = (if consecutiveSnapshotFailures_after g > 0
      then g \<lparr> consecutiveSnapshotFailures_after := 0 \<rparr> else g)"
  define g1 where "g1 = g0 \<lparr> history := map (\<lambda>h. h \<lparr> seen := False \<rparr>) (history g0) \<rparr>"
  define g2 where "g2 = fst (CheckProcesses entries cfg (hungWindows env) (currentProcessId env) g1)"
  have "pids_within seen S (history g1)"
    by (simp add: g1_def pids_within_unseen)
  moreover have "\<forall>(pe, e) \<in> set entries. th32ProcessID pe \<in> S"
    by (auto simp: S_def)
  ultimately have inv: "pids_within seen S (history g2)"
    unfolding g2_def by (rule pids_within_checks)
  have "history (fst (ProcessSnapshot cfg env g)) = CleanupHistory (history g2)"
    using assms(1,2)
    by (simp add: ProcessSnapshot_def Let_def case_prod_beta g2_def g1_def g0_def)
  then obtain h0 where "h0 \<in> set (history g2)" "seen h0" "pid h = pid h0"
    using assms(3) CleanupHistory_set by force
  then show ?thesis
    using inv by (auto simp: pids_within_def S_def)
qed

lemma FindOrCreateHistory_absent:
  assumes "\<forall>h \<in> set hs. pid h \<noteq> p"
  shows "FindOrCreateHistory p mallocOk ptimes perf hs =
     (if mallocOk then (Some (new_history p ptimes perf), new_history p ptimes perf # hs)
      else (None, hs))"
  using assms find_history_None [of p hs]
  by (simp add: FindOrCreateHistory_def Let_def)

lemma new_history_fields:
  "terminateAttempts (new_history p ptimes perf) = 0"
  "terminateAttemptsHung (new_history p ptimes perf) = 0"
  "terminateLogSent (new_history p ptimes perf) = 0"
  "terminateLogSentHung (new_history p ptimes perf) = 0"
  "ftCreate (new_history p (Some (c, k, u)) perf) = c"
  "ftKernel (new_history p (Some (c, k, u)) perf) = k"
  "ftUser (new_history p (Some (c, k, u)) perf) = u"
  "perfTime (new_history p (Some (c, k, u)) perf) = perf"
  "ftKernel (new_history p None perf) = 0"
  "ftUser (new_history p None perf) = 0"
  "perfTime (new_history p None perf) = 0"
  by (simp_all add: new_history_def Let_def split: option.splits)


lemma absent_stays_absent_checks:
  assumes "\<forall>h \<in> set (history g). pid h \<noteq> p"
      and "\<forall>(pe, e) \<in> set entries. th32ProcessID pe \<noteq> p"
  shows "\<forall>h \<in> set (history (fst (CheckProcesses entries cfg hungList self g))). pid h \<noteq> p"
proof -
  have "pids_within (\<lambda>_. True) (- {p}) (history g)"
    using assms(1) by (simp add: pids_within_def)
  moreover have "\<forall>(pe, e) \<in> set entries. th32ProcessID pe \<in> - {p}"
    using assms(2) by auto
  ultimately have "pids_within (\<lambda>_. True) (- {p})
      (history (fst (CheckProcesses entries cfg hungList self g)))"
    by (rule pids_within_checks)
  then show ?thesis by (simp add: pids_within_def)
qed


section \<open>Retry counters of a normal process\<close>

subsection \<open>The counters through the measurement\<close>

lemma CalcCpuUsage_counters:
  "terminateAttempts (snd (CalcCpuUsage hp ptimes now freq hist)) = terminateAttempts hist"
  "terminateLogSent (snd (CalcCpuUsage hp ptimes now freq hist)) = terminateLogSent hist"
  "terminateAttemptsHung (snd (CalcCpuUsage hp ptimes now freq hist)) = terminateAttemptsHung hist"
  "terminateLogSentHung (snd (CalcCpuUsage hp ptimes now freq hist)) = terminateLogSentHung hist"
  by (simp_all add: CalcCpuUsage_def Let_def split: option.splits)

lemma CalcCpuUsage_hang_fields:
  "CalcCpuUsage hp ptimes now freq (hist \<lparr> terminateAttemptsHung := a, terminateLogSentHung := l \<rparr>) =
     (fst (CalcCpuUsage hp ptimes now freq hist),
      (snd (CalcCpuUsage hp ptimes now freq hist)) \<lparr> terminateAttemptsHung := a, terminateLogSentHung := l \<rparr>)"
  by (simp add: CalcCpuUsage_def Let_def split: option.splits)

lemma measured_counters:
  "terminateAttempts (measured env hist) = terminateAttempts hist"
  "terminateLogSent (measured env hist) = terminateLogSent hist"
  "terminateAttemptsHung (measured env hist) = terminateAttemptsHung hist"
  "terminateLogSentHung (measured env hist) = terminateLogSentHung hist"
  by (simp_all add: measured_def MeasureProcessResources_def case_prod_beta Let_def
      CalcCpuUsage_counters split: option.splits)

lemma measured_pid: "pid (measured env hist) = pid hist"
  by (simp add: measured_def MeasureProcessResources_pid)

lemma MeasureProcessResources_hang_fields:
  "MeasureProcessResources env (hist \<lparr> terminateAttemptsHung := a, terminateLogSentHung := l \<rparr>) =
     (fst (MeasureProcessResources env hist),
      fst (snd (MeasureProcessResources env hist)),
      fst (snd (snd (MeasureProcessResources env hist))),
      (measured env hist) \<lparr> terminateAttemptsHung := a, terminateLogSentHung := l \<rparr>)"
  by (simp add: measured_def MeasureProcessResources_def case_prod_beta Let_def
      CalcCpuUsage_hang_fields split: option.splits)

lemma breach_reason_hang_fields:
  "breach_reason env (hist \<lparr> terminateAttemptsHung := a, terminateLogSentHung := l \<rparr>) p cfg hungList =
     breach_reason env hist p cfg hungList"
  by (simp add: breach_reason_def MeasureProcessResources_hang_fields case_prod_beta)

text \<open>\<^verbatim>\<open>CheckProcessResourcesAndTerminate\<close> with the results of the measurement and of
  \<^verbatim>\<open>TryTerminateProcess\<close> written as projections.\<close>

lemma resource_check_unfold:
  "CheckProcessResourcesAndTerminate hist p cfg hungList env notify shown =
     (case breach_reason env hist p cfg hungList of
        Some reason \<Rightarrow>
          if terminateAttempts hist \<ge> TERMINATE_RETRY_LIMIT
          then (if terminateLogSent hist = 0
                then ((measured env hist) \<lparr> terminateLogSent := 1 \<rparr>, False, shown,
                      [Log (ExceedsThresholdButAttemptsExhausted p)])
                else (measured env hist, False, shown, []))
          else
            let t = TryTerminateProcess p (terminateAttempts hist) (terminateLogSent hist) env shown
            in ((measured env hist)
                  \<lparr> terminateAttempts := fst (snd t), terminateLogSent := fst (snd (snd t)) \<rparr>,
                fst t, fst (snd (snd (snd t))),
                LogEvent_terminated p reason notify @ snd (snd (snd (snd t))))
      | None \<Rightarrow> ((measured env hist) \<lparr> terminateAttempts := 0, terminateLogSent := 0 \<rparr>,
                 False, shown, []))"
  by (simp add: CheckProcessResourcesAndTerminate_def breach_reason_def measured_def Let_def
      case_prod_beta measured_counters [unfolded measured_def] split: option.splits)

lemma breach_reason_hung:
  "IsProcessHung p hungList \<Longrightarrow> breach_reason env hist p cfg hungList \<noteq> None"
  by (simp add: breach_reason_def FormatReason_def case_prod_beta)

lemma breach_reason_None:
  assumes "MeasureProcessResources env hist = (cpu, memMB, memValid, hist1)"
  shows "breach_reason env hist p cfg hungList = None \<longleftrightarrow>
     \<not> float_greater cpu (to_float (real (unat (cpuThresholdPercent cfg)))) \<and>
     \<not> (memValid \<and> memMB > unat (memThresholdMb cfg)) \<and> \<not> IsProcessHung p hungList"
  by (simp add: breach_reason_def assms FormatReason_def)

subsection \<open>What the two functions do with the counters\<close>

lemma TryTerminateProcess_cases:
  assumes "TryTerminateProcess p att ls env shown = (ok, att', ls', shown', acts)"
  shows "OpenProcessTerminate p \<in> set acts"
    and "OpenProcessTerminate q \<in> set acts \<or> TerminateProcess q \<in> set acts \<Longrightarrow> q = p"
    and "ok = (Log (SuccessfullyTerminated p) \<in> set acts)"
    and "ok \<Longrightarrow> att' = att \<and> ls' = ls"
    and "TerminateProcess p \<in> set acts \<Longrightarrow> \<not> ok \<Longrightarrow> att' = att + 1"
    and "att' = att \<or> att' = att + 1"
    and "ls' = (if ls = 0 \<and> att < att' \<and> TERMINATE_RETRY_LIMIT \<le> att' then 1 else ls)"
    and "exhaustion_lines p acts =
           (if ls = 0 \<and> att < att' \<and> TERMINATE_RETRY_LIMIT \<le> att' then 1 else 0)"
  using assms
  by (auto simp: TryTerminateProcess_def Let_def exhaustion_lines_def split: option.splits if_splits)

lemma LogEvent_terminated_lines:
  "OpenProcessTerminate q \<notin> set (LogEvent_terminated p reason notify)"
  "TerminateProcess q \<notin> set (LogEvent_terminated p reason notify)"
  "Log (SuccessfullyTerminated q) \<notin> set (LogEvent_terminated p reason notify)"
  "exhaustion_lines q (LogEvent_terminated p reason notify @ acts) = exhaustion_lines q acts"
  by (simp_all add: LogEvent_terminated_def exhaustion_lines_def)

text \<open>The three ways through \<^verbatim>\<open>CheckProcessResourcesAndTerminate\<close>.\<close>

lemma resource_check_cases:
  assumes "CheckProcessResourcesAndTerminate h p cfg hungList env notify shown =
             (h', removed, shown', acts)"
  obtains
    (recovered) "breach_reason env h p cfg hungList = None"
      "h' = (measured env h) \<lparr> terminateAttempts := 0, terminateLogSent := 0 \<rparr>"
      "\<not> removed" "acts = []"
  | (exhausted) reason where "breach_reason env h p cfg hungList = Some reason"
      "TERMINATE_RETRY_LIMIT \<le> terminateAttempts h"
      "h' = (measured env h) \<lparr> terminateLogSent := (if terminateLogSent h = 0 then 1 else terminateLogSent h) \<rparr>"
      "\<not> removed"
      "acts = (if terminateLogSent h = 0 then [Log (ExceedsThresholdButAttemptsExhausted p)] else [])"
  | (attempted) reason att' ls' sh acts1 where "breach_reason env h p cfg hungList = Some reason"
      "terminateAttempts h < TERMINATE_RETRY_LIMIT"
      "TryTerminateProcess p (terminateAttempts h) (terminateLogSent h) env shown =
         (removed, att', ls', sh, acts1)"
      "h' = (measured env h) \<lparr> terminateAttempts := att', terminateLogSent := ls' \<rparr>"
      "acts = LogEvent_terminated p reason notify @ acts1"
proof (cases "breach_reason env h p cfg hungList")
  case None
  then show ?thesis
    using assms recovered by (simp add: resource_check_unfold)
next
  case (Some reason)
  show ?thesis
  proof (cases "TERMINATE_RETRY_LIMIT \<le> terminateAttempts h")
    case True
    have "terminateLogSent (measured env h) = terminateLogSent h"
      by (simp add: measured_counters)
    then have "measured env h = (measured env h) \<lparr> terminateLogSent := terminateLogSent h \<rparr>"
      by (metis PROCESS_HISTORY.surjective PROCESS_HISTORY.update_convs(8))
    then show ?thesis
      using assms Some True exhausted [of reason]
      by (simp add: resource_check_unfold split: if_splits)
  next
    case False
    obtain ok att' ls' sh acts1 where
      t: "TryTerminateProcess p (terminateAttempts h) (terminateLogSent h) env shown =
            (ok, att', ls', sh, acts1)"
      by (metis prod_cases5)
    show ?thesis
      using assms Some False t attempted [of reason att' ls' sh acts1]
      by (auto simp: resource_check_unfold Let_def)
  qed
qed

lemma resource_check_summary:
  assumes "CheckProcessResourcesAndTerminate h p cfg hungList env notify shown =
             (h', removed, shown', acts)"
  shows "pid h' = pid h"
    and "terminateAttemptsHung h' = terminateAttemptsHung h \<and>
         terminateLogSentHung h' = terminateLogSentHung h"
    and "OpenProcessTerminate p \<in> set acts \<longleftrightarrow>
           breach_reason env h p cfg hungList \<noteq> None \<and> terminateAttempts h < TERMINATE_RETRY_LIMIT"
    and "OpenProcessTerminate q \<in> set acts \<or> TerminateProcess q \<in> set acts \<Longrightarrow>
           q = p \<and> terminateAttempts h < TERMINATE_RETRY_LIMIT"
    and "removed = (Log (SuccessfullyTerminated p) \<in> set acts)"
    and "TerminateProcess p \<in> set acts \<Longrightarrow> \<not> removed \<Longrightarrow>
           terminateAttempts h' = terminateAttempts h + 1"
    and "TERMINATE_RETRY_LIMIT \<le> terminateAttempts h \<Longrightarrow>
           \<not> removed \<and>
           terminateAttempts h' =
             (if breach_reason env h p cfg hungList = None then 0 else terminateAttempts h)"
    and "resource_flag_consistent h \<Longrightarrow>
           resource_flag_consistent h' \<and>
           exhaustion_lines p acts =
             (if terminateAttempts h < TERMINATE_RETRY_LIMIT \<and>
                 TERMINATE_RETRY_LIMIT \<le> terminateAttempts h' then 1 else 0)"
proof -
  show "pid h' = pid h"
    using assms CheckProcessResourcesAndTerminate_pid [of h p cfg hungList env notify shown] by simp
  show "terminateAttemptsHung h' = terminateAttemptsHung h \<and>
        terminateLogSentHung h' = terminateLogSentHung h"
    using assms by (cases rule: resource_check_cases) (simp_all add: measured_counters)
  show "OpenProcessTerminate p \<in> set acts \<longleftrightarrow>
          breach_reason env h p cfg hungList \<noteq> None \<and> terminateAttempts h < TERMINATE_RETRY_LIMIT"
    using assms
  proof (cases rule: resource_check_cases)
    case (attempted reason att' ls' sh acts1)
    then show ?thesis
      using TryTerminateProcess_cases(1) [OF attempted(3)] by simp
  qed simp_all
  show "q = p \<and> terminateAttempts h < TERMINATE_RETRY_LIMIT"
    if "OpenProcessTerminate q \<in> set acts \<or> TerminateProcess q \<in> set acts"
    using assms that
  proof (cases rule: resource_check_cases)
    case (attempted reason att' ls' sh acts1)
    then show ?thesis
      using TryTerminateProcess_cases(2) [OF attempted(3), of q] that
      by (simp add: LogEvent_terminated_lines)
  qed (simp_all split: if_splits)
  show "removed = (Log (SuccessfullyTerminated p) \<in> set acts)"
    using assms
  proof (cases rule: resource_check_cases)
    case (attempted reason att' ls' sh acts1)
    then show ?thesis
      using TryTerminateProcess_cases(3) [OF attempted(3)]
      by (simp add: LogEvent_terminated_lines)
  qed simp_all
  show "terminateAttempts h' = terminateAttempts h + 1"
    if "TerminateProcess p \<in> set acts" and "\<not> removed"
    using assms that
  proof (cases rule: resource_check_cases)
    case (attempted reason att' ls' sh acts1)
    then show ?thesis
      using TryTerminateProcess_cases(5) [OF attempted(3)] that
      by (simp add: LogEvent_terminated_lines)
  qed (simp_all split: if_splits)
  show "\<not> removed \<and>
        terminateAttempts h' =
          (if breach_reason env h p cfg hungList = None then 0 else terminateAttempts h)"
    if "TERMINATE_RETRY_LIMIT \<le> terminateAttempts h"
    using assms that by (cases rule: resource_check_cases) (simp_all add: measured_counters)
  show "resource_flag_consistent h' \<and>
        exhaustion_lines p acts =
          (if terminateAttempts h < TERMINATE_RETRY_LIMIT \<and>
              TERMINATE_RETRY_LIMIT \<le> terminateAttempts h' then 1 else 0)"
    if "resource_flag_consistent h"
    using assms
  proof (cases rule: resource_check_cases)
    case recovered
    then show ?thesis
      by (simp add: resource_flag_consistent_def exhaustion_lines_def TERMINATE_RETRY_LIMIT_def)
  next
    case (exhausted reason)
    then show ?thesis
      using that
      by (simp add: resource_flag_consistent_def exhaustion_lines_def measured_counters)
  next
    case (attempted reason att' ls' sh acts1)
    have ls: "terminateLogSent h = 0"
      using that attempted(2) by (simp add: resource_flag_consistent_def)
    show ?thesis
      using TryTerminateProcess_cases(6,7,8) [OF attempted(3)] attempted(2)
      by (auto simp: attempted(4,5) ls resource_flag_consistent_def LogEvent_terminated_lines)
  qed
qed

text \<open>The three ways through \<^verbatim>\<open>CheckProcessHungAndTerminate\<close> with a node.\<close>

lemma hang_check_cases:
  assumes "CheckProcessHungAndTerminate (Some h) p hungList env shown = (hist', removed, shown', acts)"
  obtains
    (recovered) "\<not> IsProcessHung p hungList"
      "hist' = Some (h \<lparr> terminateAttemptsHung := 0 \<rparr>)" "\<not> removed" "acts = []"
  | (exhausted) "IsProcessHung p hungList" "TERMINATE_RETRY_LIMIT \<le> terminateAttemptsHung h"
      "hist' = Some (h \<lparr> terminateLogSentHung :=
                          (if terminateLogSentHung h = 0 then 1 else terminateLogSentHung h) \<rparr>)"
      "\<not> removed"
      "acts = (if terminateLogSentHung h = 0 then [Log (HungButAttemptsExhausted p)] else [])"
  | (attempted) att' ls' sh where "IsProcessHung p hungList"
      "terminateAttemptsHung h < TERMINATE_RETRY_LIMIT"
      "TryTerminateProcess p (terminateAttemptsHung h) (terminateLogSentHung h) env shown =
         (removed, att', ls', sh, acts)"
      "hist' = Some (if removed then h
                     else h \<lparr> terminateAttemptsHung := att', terminateLogSentHung := ls' \<rparr>)"
proof (cases "IsProcessHung p hungList")
  case False
  then show ?thesis
    using assms recovered by (simp add: CheckProcessHungAndTerminate_def)
next
  case True
  show ?thesis
  proof (cases "TERMINATE_RETRY_LIMIT \<le> terminateAttemptsHung h")
    case limit: True
    have "h = h \<lparr> terminateLogSentHung := terminateLogSentHung h \<rparr>" by simp
    then show ?thesis
      using assms True limit exhausted
      by (simp add: CheckProcessHungAndTerminate_def split: if_splits)
  next
    case False
    obtain ok att' ls' sh acts1 where
      t: "TryTerminateProcess p (terminateAttemptsHung h) (terminateLogSentHung h) env shown =
            (ok, att', ls', sh, acts1)"
      by (metis prod_cases5)
    show ?thesis
      using assms True False t attempted [of att' ls' sh]
      by (simp add: CheckProcessHungAndTerminate_def Let_def split: if_splits)
  qed
qed

lemma hang_check_summary:
  assumes "CheckProcessHungAndTerminate (Some h) p hungList env shown = (hist', removed, shown', acts)"
  shows "\<exists>h'. hist' = Some h' \<and> pid h' = pid h \<and>
           terminateAttempts h' = terminateAttempts h \<and> terminateLogSent h' = terminateLogSent h \<and>
           (TerminateProcess p \<in> set acts \<and> \<not> removed \<longrightarrow>
              terminateAttemptsHung h' = terminateAttemptsHung h + 1) \<and>
           (TERMINATE_RETRY_LIMIT \<le> terminateAttemptsHung h \<longrightarrow>
              terminateAttemptsHung h' =
                (if IsProcessHung p hungList then terminateAttemptsHung h else 0))"
    and "OpenProcessTerminate p \<in> set acts \<longleftrightarrow>
           IsProcessHung p hungList \<and> terminateAttemptsHung h < TERMINATE_RETRY_LIMIT"
    and "OpenProcessTerminate q \<in> set acts \<or> TerminateProcess q \<in> set acts \<Longrightarrow>
           q = p \<and> terminateAttemptsHung h < TERMINATE_RETRY_LIMIT"
    and "removed = (Log (SuccessfullyTerminated p) \<in> set acts)"
proof -
  show "\<exists>h'. hist' = Some h' \<and> pid h' = pid h \<and>
           terminateAttempts h' = terminateAttempts h \<and> terminateLogSent h' = terminateLogSent h \<and>
           (TerminateProcess p \<in> set acts \<and> \<not> removed \<longrightarrow>
              terminateAttemptsHung h' = terminateAttemptsHung h + 1) \<and>
           (TERMINATE_RETRY_LIMIT \<le> terminateAttemptsHung h \<longrightarrow>
              terminateAttemptsHung h' =
                (if IsProcessHung p hungList then terminateAttemptsHung h else 0))"
    using assms
  proof (cases rule: hang_check_cases)
    case (attempted att' ls' sh)
    then show ?thesis
      using TryTerminateProcess_cases(5) [OF attempted(3)] by simp
  qed (simp_all split: if_splits)
  show "OpenProcessTerminate p \<in> set acts \<longleftrightarrow>
          IsProcessHung p hungList \<and> terminateAttemptsHung h < TERMINATE_RETRY_LIMIT"
    using assms
  proof (cases rule: hang_check_cases)
    case (attempted att' ls' sh)
    then show ?thesis
      using TryTerminateProcess_cases(1) [OF attempted(3)] by simp
  qed simp_all
  show "q = p \<and> terminateAttemptsHung h < TERMINATE_RETRY_LIMIT"
    if "OpenProcessTerminate q \<in> set acts \<or> TerminateProcess q \<in> set acts"
    using assms that
  proof (cases rule: hang_check_cases)
    case (attempted att' ls' sh)
    then show ?thesis
      using TryTerminateProcess_cases(2) [OF attempted(3), of q] that by simp
  qed (simp_all split: if_splits)
  show "removed = (Log (SuccessfullyTerminated p) \<in> set acts)"
    using assms
  proof (cases rule: hang_check_cases)
    case (attempted att' ls' sh)
    then show ?thesis
      using TryTerminateProcess_cases(3) [OF attempted(3)] by simp
  qed simp_all
qed

lemma hang_check_null:
  assumes "CheckProcessHungAndTerminate None p hungList env shown = (hist', removed, shown', acts)"
  shows "hist' = None \<and> (OpenProcessTerminate p \<in> set acts \<longleftrightarrow> IsProcessHung p hungList)"
proof (cases "IsProcessHung p hungList")
  case False
  then show ?thesis
    using assms by (simp add: CheckProcessHungAndTerminate_def)
next
  case True
  obtain ok att' ls' sh acts1 where
    t: "TryTerminateProcess p 0 0 env shown = (ok, att', ls', sh, acts1)"
    by (metis prod_cases5)
  show ?thesis
    using assms True t TryTerminateProcess_cases(1) [OF t]
    by (simp add: CheckProcessHungAndTerminate_def Let_def TERMINATE_RETRY_LIMIT_def split: if_splits)
qed

subsection \<open>The node a check works on is the node of the list\<close>

lemma find_history_update:
  "find_history p hs = Some c \<Longrightarrow> pid (f c) = p \<Longrightarrow> find_history p (update_history p f hs) = Some (f c)"
  by (induction hs) (auto split: if_splits)

lemma FindOrCreateHistory_found:
  assumes "FindOrCreateHistory p mallocOk ptimes perf hs0 = (Some h, hs)"
  shows "find_history p hs = Some h"
proof (cases "find_history p hs0")
  case None
  then show ?thesis
    using assms by (auto simp: FindOrCreateHistory_def Let_def new_history_pid split: if_splits)
next
  case (Some cur)
  then have "pid cur = p" by (simp add: find_history_pid)
  then have "find_history p (update_history p (\<lambda>h. h \<lparr> seen := True \<rparr>) hs0) = Some (cur \<lparr> seen := True \<rparr>)"
    using Some by (simp add: find_history_update)
  then show ?thesis
    using assms Some by (auto simp: FindOrCreateHistory_def)
qed

lemma FindOrCreateHistory_stored:
  assumes "FindOrCreateHistory p mallocOk ptimes perf hs0 = (hist, hs)"
      and "find_history p hs0 = Some cur"
  shows "hist = Some (cur \<lparr> seen := True \<rparr>)"
  using assms by (auto simp: FindOrCreateHistory_def)

lemma FindOrCreateHistory_null:
  assumes "FindOrCreateHistory p mallocOk ptimes perf hs0 = (None, hs)"
  shows "hs = hs0 \<and> find_history p hs0 = None \<and> \<not> mallocOk"
  using assms by (auto simp: FindOrCreateHistory_def Let_def split: option.splits if_splits)

lemma RemoveHistory_absent: "find_history p hs = None \<Longrightarrow> RemoveHistory p hs = hs"
  by (induction hs) (auto split: if_splits)

lemma find_history_store:
  "find_history p hs = Some c \<Longrightarrow> pid h = p \<Longrightarrow> find_history p (store_history h hs) = Some h"
  by (simp add: store_history_def find_history_update)

text \<open>\<^verbatim>\<open>CheckNormalProcess\<close> on each of its three paths.\<close>

lemma normal_check_opened:
  assumes "FindOrCreateHistory (th32ProcessID pe) (historyMalloc env) (baselineTimes env)
             (baselinePerf env) (history g) = (Some h, hs)"
      and "queryHandle env"
      and "CheckNormalProcess pe cfg hungList env g = (g', acts)"
  shows "\<exists>h' removed shown'.
           CheckProcessResourcesAndTerminate h (th32ProcessID pe) cfg hungList env
             (notifyOnTermination (config g)) (accessDeniedShown g) = (h', removed, shown', acts) \<and>
           (\<not> removed \<longrightarrow> find_history (th32ProcessID pe) (history g') = Some h')"
proof -
  obtain h' removed shown' acts' where
    r: "CheckProcessResourcesAndTerminate h (th32ProcessID pe) cfg hungList env
          (notifyOnTermination (config g)) (accessDeniedShown g) = (h', removed, shown', acts')"
    by (metis prod_cases4)
  have "pid h' = th32ProcessID pe"
    using resource_check_summary(1) [OF r] FindOrCreateHistory_pid [OF assms(1)] by simp
  then have "find_history (th32ProcessID pe) (store_history h' hs) = Some h'"
    using FindOrCreateHistory_found [OF assms(1)] by (rule find_history_store [rotated])
  then show ?thesis
    using assms r by (auto simp: CheckNormalProcess_def Let_def)
qed

lemma normal_check_closed:
  assumes "FindOrCreateHistory (th32ProcessID pe) (historyMalloc env) (baselineTimes env)
             (baselinePerf env) (history g) = (Some h, hs)"
      and "\<not> queryHandle env"
      and "CheckNormalProcess pe cfg hungList env g = (g', acts)"
  shows "\<exists>h' removed shown'.
           CheckProcessHungAndTerminate (Some h) (th32ProcessID pe) hungList env
             (accessDeniedShown g) = (Some h', removed, shown', acts) \<and>
           (\<not> removed \<longrightarrow> find_history (th32ProcessID pe) (history g') = Some h')"
proof -
  obtain hist' removed shown' acts' where
    r: "CheckProcessHungAndTerminate (Some h) (th32ProcessID pe) hungList env
          (accessDeniedShown g) = (hist', removed, shown', acts')"
    by (metis prod_cases4)
  obtain h' where h': "hist' = Some h'" "pid h' = pid h"
    using hang_check_summary(1) [OF r] by auto
  have "pid h' = th32ProcessID pe"
    using h'(2) FindOrCreateHistory_pid [OF assms(1)] by simp
  then have "find_history (th32ProcessID pe) (store_history h' hs) = Some h'"
    using FindOrCreateHistory_found [OF assms(1)] by (rule find_history_store [rotated])
  then show ?thesis
    using assms r h'(1) by (auto simp: CheckNormalProcess_def Let_def)
qed

lemma normal_check_null:
  assumes "FindOrCreateHistory (th32ProcessID pe) (historyMalloc env) (baselineTimes env)
             (baselinePerf env) (history g) = (None, hs)"
      and "CheckNormalProcess pe cfg hungList env g = (g', acts)"
  shows "history g' = history g \<and>
         (OpenProcessTerminate (th32ProcessID pe) \<in> set acts \<longleftrightarrow>
            IsProcessHung (th32ProcessID pe) hungList)"
proof -
  obtain hist' removed shown' acts' where
    r: "CheckProcessHungAndTerminate None (th32ProcessID pe) hungList env
          (accessDeniedShown g) = (hist', removed, shown', acts')"
    by (metis prod_cases4)
  note n = FindOrCreateHistory_null [OF assms(1)]
  have "RemoveHistory (th32ProcessID pe) hs = hs"
    using n by (simp add: RemoveHistory_absent)
  then show ?thesis
    using assms r hang_check_null [OF r] n by (auto simp: CheckNormalProcess_def Let_def)
qed

subsection \<open>The example process, one check at a time\<close>

lemma example_app_name: "\<not> name_matches ''app.exe'' systemNames"
  by code_simp

lemma example_app_check:
  "CheckProcess example_app_entry example_config hungList 4242 env g =
   CheckNormalProcess example_app_entry example_config hungList env g"
  by (simp add: CheckProcess_def Let_def IsBuiltInExcluded_def IsProcessExcluded_def
      wcsncpy_truncate_def MAX_PATH_LEN_def example_app_entry_def example_app_name example_config_def)

lemmas normal_check_defs =
  CheckNormalProcess_def FindOrCreateHistory_def store_history_def
  CheckProcessResourcesAndTerminate_def CheckProcessHungAndTerminate_def
  MeasureProcessResources_def CalcCpuUsage_def FormatReason_def TryTerminateProcess_def
  LogEvent_terminated_def TERMINATE_RETRY_LIMIT_def Let_def exact_values

lemma example_app_measure:
  "MeasureProcessResources example_app_env (app_history a l ah lh) =
     (Finite 0, 100, True, app_history a l ah lh)"
  by (simp add: MeasureProcessResources_def CalcCpuUsage_def example_app_env_def Let_def)

lemma example_app_find:
  "FindOrCreateHistory 1234 mallocOk ptimes perf [app_history a l ah lh] =
     (Some (app_history a l ah lh), [app_history a l ah lh])"
  by (simp add: FindOrCreateHistory_def app_history_def)

lemma example_app_find_null: "FindOrCreateHistory 1234 False ptimes perf [] = (None, [])"
  by (simp add: FindOrCreateHistory_def)

lemma example_busy_measure:
  "MeasureProcessResources example_busy_env (app_history a l ah lh) =
     (Finite 80, 100, True,
      (app_history a l ah lh) \<lparr> ftKernel := 80000001, ftUser := 0, perfTime := 100000000 \<rparr>)"
  by (simp add: MeasureProcessResources_def CalcCpuUsage_def example_busy_env_def example_app_env_def
      app_history_def Let_def exact_values double_div_def [of 100000000 10000000] just_over_80)

lemma example_busy_open:
  "CheckNormalProcess example_app_entry example_config [] example_busy_env
     (example_global \<lparr> history := [app_history a l ah lh] \<rparr>) =
   (example_global
      \<lparr> history := [(app_history 0 0 ah lh)
                       \<lparr> ftKernel := 80000001, ftUser := 0, perfTime := 100000000 \<rparr>] \<rparr>, [])"
proof -
  have "FormatReason (Finite 80) (cpuThresholdPercent example_config) True 100
          (memThresholdMb example_config) (IsProcessHung 1234 []) = None"
    by (simp add: FormatReason_def example_config_def exact_values)
  then have "CheckProcessResourcesAndTerminate (app_history a l ah lh) 1234 example_config []
      example_busy_env False False =
      ((app_history 0 0 ah lh) \<lparr> ftKernel := 80000001, ftUser := 0, perfTime := 100000000 \<rparr>,
       False, False, [])"
    by (simp add: CheckProcessResourcesAndTerminate_def example_busy_measure)
       (simp add: app_history_def)
  moreover have "queryHandle example_busy_env" "historyMalloc example_busy_env"
    by (simp_all add: example_busy_env_def example_app_env_def)
  ultimately show ?thesis
    by (simp add: CheckNormalProcess_def example_app_find store_history_def example_global_fields
        example_app_entry_def example_config_def)
       (simp add: app_history_def)
qed

lemma example_busy_reason:
  "breach_reason example_busy_env (app_history a l ah lh) 1234 example_config [] = None"
  by (simp add: breach_reason_def example_busy_measure FormatReason_def example_config_def
      exact_values)

lemma example_busy_handle: "queryHandle example_busy_env"
  by (simp add: example_busy_env_def example_app_env_def)

lemma example_breach_reason:
  "breach_reason example_app_env (app_history a l ah lh) 1234 example_config hungList =
     (if IsProcessHung 1234 hungList then Some WindowNotResponding else None)"
  by (simp add: breach_reason_def example_app_measure FormatReason_def example_config_def
      exact_values)

lemma example_app_open:
  "CheckNormalProcess example_app_entry example_config hungList example_app_env
     (example_global \<lparr> history := [app_history a l ah lh] \<rparr>) =
   (if IsProcessHung 1234 hungList
    then (if a \<ge> 5
          then (example_global \<lparr> history := [app_history a (if l = 0 then 1 else l) ah lh] \<rparr>,
                if l = 0 then [Log (ExceedsThresholdButAttemptsExhausted 1234)] else [])
          else (example_global
                  \<lparr> history := [app_history (a + 1) (if l = 0 \<and> a + 1 \<ge> 5 then 1 else l) ah lh] \<rparr>,
                [Log (TerminatedProcessEvent 1234 WindowNotResponding), OpenProcessTerminate 1234,
                 TerminateProcess 1234, Log (FailedToTerminate 1234)] @
                (if l = 0 \<and> a + 1 \<ge> 5 then [Log (AttemptsExhaustedWillStopTrying 1234)] else [])))
    else (example_global \<lparr> history := [app_history 0 0 ah lh] \<rparr>, []))"
  by (simp add: normal_check_defs app_history_def example_app_entry_def example_app_env_def
      example_config_def example_global_fields)

lemma example_app_closed:
  "CheckNormalProcess example_app_entry example_config hungList
     (example_app_env \<lparr> queryHandle := False \<rparr>)
     (example_global \<lparr> history := [app_history a l ah lh] \<rparr>) =
   (if IsProcessHung 1234 hungList
    then (if ah \<ge> 5
          then (example_global \<lparr> history := [app_history a l ah (if lh = 0 then 1 else lh)] \<rparr>,
                if lh = 0 then [Log (HungButAttemptsExhausted 1234)] else [])
          else (example_global
                  \<lparr> history := [app_history a l (ah + 1) (if lh = 0 \<and> ah + 1 \<ge> 5 then 1 else lh)] \<rparr>,
                [OpenProcessTerminate 1234, TerminateProcess 1234, Log (FailedToTerminate 1234)] @
                (if lh = 0 \<and> ah + 1 \<ge> 5 then [Log (AttemptsExhaustedWillStopTrying 1234)] else [])))
    else (example_global \<lparr> history := [app_history a l 0 lh] \<rparr>, []))"
  by (simp add: normal_check_defs app_history_def example_app_entry_def example_app_env_def
      example_config_def example_global_fields)

lemma example_app_null:
  "CheckNormalProcess example_app_entry example_config hungList
     (example_app_env \<lparr> historyMalloc := False \<rparr>) example_global =
   (if IsProcessHung 1234 hungList
    then (example_global,
          [OpenProcessTerminate 1234, TerminateProcess 1234, Log (FailedToTerminate 1234)])
    else (example_global, []))"
  by (simp add: normal_check_defs example_app_entry_def example_app_env_def
      example_global_fields example_global_def)

lemma example_app_facts:
  "th32ProcessID example_app_entry = 1234" "queryHandle example_app_env"
  "\<not> queryHandle (example_app_env \<lparr> queryHandle := False \<rparr>)"
  "historyMalloc (example_app_env \<lparr> historyMalloc := m \<rparr>) = m"
  "historyMalloc (example_app_env \<lparr> queryHandle := opened \<rparr>) = True"
  "historyMalloc example_app_env"
  "cpuThresholdPercent example_config = 80" "memThresholdMb example_config = 500"
  "IsProcessHung 1234 [1234]" "\<not> IsProcessHung 1234 []"
  "terminateAttempts (app_history a l ah lh) = a" "terminateLogSent (app_history a l ah lh) = l"
  "terminateAttemptsHung (app_history a l ah lh) = ah"
  "terminateLogSentHung (app_history a l ah lh) = lh"
  "history (example_global \<lparr> history := hs \<rparr>) = hs"
  by (simp_all add: example_app_entry_def example_app_env_def example_config_def app_history_def)

subsection \<open>No breach: what is reset\<close>

text \<open>
  Claim C3, as the claim has it, fails on the example process. Its node has the hang
  counter at 3 after three scans in which it was hung, could not be opened for query,
  and \<^verbatim>\<open>TerminateProcess\<close> failed. In the next scan it is opened, is not hung, has
  CPU 0 (threshold 80) and 100 MB (threshold 500): no reason applies, and after the
  check the hang counter is still 3.
\<close>

theorem no_breach_keeps_hang_counter:
  "fst (CheckNormalProcess example_app_entry example_config [1234]
          (example_app_env \<lparr> queryHandle := False \<rparr>)
          (example_global \<lparr> history := [app_history 0 0 0 0] \<rparr>)) =
     example_global \<lparr> history := [app_history 0 0 1 0] \<rparr> \<and>
   fst (CheckNormalProcess example_app_entry example_config [1234]
          (example_app_env \<lparr> queryHandle := False \<rparr>)
          (example_global \<lparr> history := [app_history 0 0 1 0] \<rparr>)) =
     example_global \<lparr> history := [app_history 0 0 2 0] \<rparr> \<and>
   fst (CheckNormalProcess example_app_entry example_config [1234]
          (example_app_env \<lparr> queryHandle := False \<rparr>)
          (example_global \<lparr> history := [app_history 0 0 2 0] \<rparr>)) =
     example_global \<lparr> history := [app_history 0 0 3 0] \<rparr> \<and>
   queryHandle example_app_env \<and>
   MeasureProcessResources example_app_env (app_history 0 0 3 0) =
     (Finite 0, 100, True, app_history 0 0 3 0) \<and>
   cpuThresholdPercent example_config = 80 \<and> memThresholdMb example_config = 500 \<and>
   \<not> IsProcessHung 1234 [] \<and>
   CheckNormalProcess example_app_entry example_config [] example_app_env
     (example_global \<lparr> history := [app_history 0 0 3 0] \<rparr>) =
     (example_global \<lparr> history := [app_history 0 0 3 0] \<rparr>, []) \<and>
   terminateAttemptsHung (app_history 0 0 3 0) = 3"
  by (simp add: example_app_open example_app_closed example_app_measure example_app_facts)

text \<open>
  Claim C3, amended. A normal process is checked with a history node \<open>h\<close> (found or
  newly made by \<^verbatim>\<open>FindOrCreateHistory\<close>) and an open handle, and no reason applies: the
  CPU figure, a \<^verbatim>\<open>float\<close>, is not over its threshold converted to \<^verbatim>\<open>float\<close>, the
  memory is not over its threshold, the process is not hung. After the check the node of
  this process in the history has \<^verbatim>\<open>terminateAttempts\<close> and \<^verbatim>\<open>terminateLogSent\<close> at
  zero, its \<^verbatim>\<open>terminateAttemptsHung\<close> and \<^verbatim>\<open>terminateLogSentHung\<close> are those of \<open>h\<close>,
  which are those of the node that was in the history before, if there was one; and
  the check did nothing to the outside.
\<close>

theorem no_breach_resets_resource_counter_only:
  assumes "FindOrCreateHistory (th32ProcessID pe) (historyMalloc env) (baselineTimes env)
             (baselinePerf env) (history g) = (Some h, hs)"
      and "queryHandle env"
      and "MeasureProcessResources env h = (cpu, memMB, memValid, h1)"
      and "\<not> float_greater cpu (to_float (real (unat (cpuThresholdPercent cfg))))"
      and "\<not> (memValid \<and> memMB > unat (memThresholdMb cfg))"
      and "\<not> IsProcessHung (th32ProcessID pe) hungList"
  shows "(\<exists>h'. find_history (th32ProcessID pe)
                 (history (fst (CheckNormalProcess pe cfg hungList env g))) = Some h' \<and>
               terminateAttempts h' = 0 \<and> terminateLogSent h' = 0 \<and>
               terminateAttemptsHung h' = terminateAttemptsHung h \<and>
               terminateLogSentHung h' = terminateLogSentHung h) \<and>
         snd (CheckNormalProcess pe cfg hungList env g) = [] \<and>
         (\<forall>cur. find_history (th32ProcessID pe) (history g) = Some cur \<longrightarrow>
            terminateAttemptsHung h = terminateAttemptsHung cur \<and>
            terminateLogSentHung h = terminateLogSentHung cur)"
proof -
  let ?p = "th32ProcessID pe"
  obtain g' acts where c: "CheckNormalProcess pe cfg hungList env g = (g', acts)"
    by (cases "CheckNormalProcess pe cfg hungList env g")
  obtain h' removed shown' where
    r: "CheckProcessResourcesAndTerminate h ?p cfg hungList env
          (notifyOnTermination (config g)) (accessDeniedShown g) = (h', removed, shown', acts)"
    and f: "\<not> removed \<longrightarrow> find_history ?p (history g') = Some h'"
    using normal_check_opened [OF assms(1,2) c] by auto
  have none: "breach_reason env h ?p cfg hungList = None"
    using assms(4-6) by (simp add: breach_reason_None [OF assms(3)])
  from r have "find_history ?p (history g') = Some h' \<and>
      terminateAttempts h' = 0 \<and> terminateLogSent h' = 0 \<and>
      terminateAttemptsHung h' = terminateAttemptsHung h \<and>
      terminateLogSentHung h' = terminateLogSentHung h \<and> acts = []"
    using none f by (cases rule: resource_check_cases) (simp_all add: measured_counters)
  moreover have "terminateAttemptsHung h = terminateAttemptsHung cur \<and>
                 terminateLogSentHung h = terminateLogSentHung cur"
    if "find_history ?p (history g) = Some cur" for cur
    using FindOrCreateHistory_stored [OF assms(1) that] by auto
  ultimately show ?thesis
    by (auto simp: c)
qed

text \<open>
  Two runs of it on the example process, with \<^verbatim>\<open>terminateAttempts\<close> 2 and
  \<^verbatim>\<open>terminateAttemptsHung\<close> 3 before the check: one with the CPU figure 0, and one with
  the CPU figure that is 80.000001 as an exact quotient and 80 as the \<^verbatim>\<open>float\<close> the
  code compares with the threshold 80.
\<close>

theorem no_breach_resets_resource_counter_only_witness:
  "FindOrCreateHistory 1234 True None 0 [app_history 2 0 3 0] =
     (Some (app_history 2 0 3 0), [app_history 2 0 3 0]) \<and>
   queryHandle example_app_env \<and>
   MeasureProcessResources example_app_env (app_history 2 0 3 0) =
     (Finite 0, 100, True, app_history 2 0 3 0) \<and>
   \<not> float_greater (Finite 0) (to_float (real (unat (cpuThresholdPercent example_config)))) \<and>
   \<not> (True \<and> (100::nat) > unat (memThresholdMb example_config)) \<and>
   \<not> IsProcessHung 1234 [] \<and>
   CheckNormalProcess example_app_entry example_config [] example_app_env
     (example_global \<lparr> history := [app_history 2 0 3 0] \<rparr>) =
     (example_global \<lparr> history := [app_history 0 0 3 0] \<rparr>, []) \<and>
   (\<exists>h'. find_history 1234 [app_history 0 0 3 0] = Some h' \<and>
      terminateAttempts h' = 0 \<and> terminateLogSent h' = 0 \<and>
      terminateAttemptsHung h' = 3 \<and> terminateLogSentHung h' = 0) \<and>
   queryHandle example_busy_env \<and>
   MeasureProcessResources example_busy_env (app_history 2 0 3 0) =
     (Finite 80, 100, True,
      (app_history 2 0 3 0) \<lparr> ftKernel := 80000001, ftUser := 0, perfTime := 100000000 \<rparr>) \<and>
   (80 :: real) < 80000001 / 10000 / 10 / 10 \<and>
   \<not> float_greater (Finite 80) (to_float (real (unat (cpuThresholdPercent example_config)))) \<and>
   CheckNormalProcess example_app_entry example_config [] example_busy_env
     (example_global \<lparr> history := [app_history 2 0 3 0] \<rparr>) =
     (example_global
        \<lparr> history := [(app_history 0 0 3 0)
                         \<lparr> ftKernel := 80000001, ftUser := 0, perfTime := 100000000 \<rparr>] \<rparr>, []) \<and>
   (\<exists>h'. find_history 1234
            [(app_history 0 0 3 0) \<lparr> ftKernel := 80000001, ftUser := 0, perfTime := 100000000 \<rparr>] =
            Some h' \<and>
      terminateAttempts h' = 0 \<and> terminateLogSent h' = 0 \<and>
      terminateAttemptsHung h' = 3 \<and> terminateLogSentHung h' = 0)"
proof -
  have find: "FindOrCreateHistory (th32ProcessID example_app_entry) (historyMalloc env)
      (baselineTimes env) (baselinePerf env)
      (history (example_global \<lparr> history := [app_history 2 0 3 0] \<rparr>)) =
      (Some (app_history 2 0 3 0), [app_history 2 0 3 0])" for env
    by (simp add: example_app_facts example_app_find)
  have handle: "queryHandle example_app_env" "queryHandle example_busy_env"
    by (simp_all add: example_busy_env_def example_app_env_def)
  have cpu: "\<not> float_greater (Finite 0) (to_float (real (unat (cpuThresholdPercent example_config))))"
    "\<not> float_greater (Finite 80) (to_float (real (unat (cpuThresholdPercent example_config))))"
    by (simp_all add: example_app_facts exact_values)
  have mem: "\<not> (True \<and> (100::nat) > unat (memThresholdMb example_config))"
    by (simp add: example_app_facts)
  have hung: "\<not> IsProcessHung (th32ProcessID example_app_entry) []"
    by simp
  note t1 = no_breach_resets_resource_counter_only
      [OF find handle(1) example_app_measure cpu(1) mem hung]
  note t2 = no_breach_resets_resource_counter_only
      [OF find handle(2) example_busy_measure cpu(2) mem hung]
  have r1: "\<exists>h'. find_history 1234 [app_history 0 0 3 0] = Some h' \<and>
      terminateAttempts h' = 0 \<and> terminateLogSent h' = 0 \<and>
      terminateAttemptsHung h' = 3 \<and> terminateLogSentHung h' = 0"
    using t1 [THEN conjunct1]
    by (simp add: example_app_open example_app_facts del: find_history.simps)
  have r2: "\<exists>h'. find_history 1234
            [(app_history 0 0 3 0) \<lparr> ftKernel := 80000001, ftUser := 0, perfTime := 100000000 \<rparr>] =
            Some h' \<and>
      terminateAttempts h' = 0 \<and> terminateLogSent h' = 0 \<and>
      terminateAttemptsHung h' = 3 \<and> terminateLogSentHung h' = 0"
    using t2 [THEN conjunct1]
    by (simp add: example_busy_open example_app_facts del: find_history.simps)
  show ?thesis
    using handle cpu mem r1 r2 example_app_measure [of 2 0 3 0] example_busy_measure [of 2 0 3 0]
      example_app_open [of "[]" 2 0 3 0] example_busy_open [of 2 0 3 0] just_over_80(6)
    by (simp add: example_app_find example_app_facts del: find_history.simps)
qed

subsection \<open>Which counter a check reads and writes\<close>

text \<open>
  Claim C2, as the claim has it, fails on the example process: it is hung, within the
  resource limits (CPU 0, 100 MB), and can be opened for query. The attempt made for
  the hang goes through \<^verbatim>\<open>CheckProcessResourcesAndTerminate\<close>: after the failed
  \<^verbatim>\<open>TerminateProcess\<close> it is \<^verbatim>\<open>terminateAttempts\<close> that is 1, and
  \<^verbatim>\<open>terminateAttemptsHung\<close> is still 0. And with \<^verbatim>\<open>terminateAttempts\<close> at 5 no attempt is
  made for the hang, although \<^verbatim>\<open>terminateAttemptsHung\<close> is 0.
\<close>

theorem hang_breach_counts_on_resource_counter:
  "queryHandle example_app_env \<and> IsProcessHung 1234 [1234] \<and>
   MeasureProcessResources example_app_env (app_history 0 0 0 0) =
     (Finite 0, 100, True, app_history 0 0 0 0) \<and>
   cpuThresholdPercent example_config = 80 \<and> memThresholdMb example_config = 500 \<and>
   CheckNormalProcess example_app_entry example_config [1234] example_app_env
     (example_global \<lparr> history := [app_history 0 0 0 0] \<rparr>) =
     (example_global \<lparr> history := [app_history 1 0 0 0] \<rparr>,
      [Log (TerminatedProcessEvent 1234 WindowNotResponding), OpenProcessTerminate 1234,
       TerminateProcess 1234, Log (FailedToTerminate 1234)]) \<and>
   terminateAttempts (app_history 1 0 0 0) = 1 \<and> terminateAttemptsHung (app_history 1 0 0 0) = 0 \<and>
   CheckNormalProcess example_app_entry example_config [1234] example_app_env
     (example_global \<lparr> history := [app_history 5 1 0 0] \<rparr>) =
     (example_global \<lparr> history := [app_history 5 1 0 0] \<rparr>, []) \<and>
   terminateAttemptsHung (app_history 5 1 0 0) = 0"
  by (simp add: example_app_open example_app_measure example_app_facts)

text \<open>
  Claim C2, amended: the counter goes with the path \<^verbatim>\<open>CheckNormalProcess\<close> takes, not
  with the kind of breach. \<open>hist\<close> is the node \<^verbatim>\<open>FindOrCreateHistory\<close> hands out, which
  is the node of the process in the history when there is one.

  The process could be opened for query (\<^verbatim>\<open>CheckProcessResourcesAndTerminate\<close>): a
  termination is attempted exactly when a reason applies, whichever it is, and
  \<^verbatim>\<open>terminateAttempts\<close> is below the limit; a hang is a reason; the reason does not depend
  on the two hang fields; a \<^verbatim>\<open>TerminateProcess\<close> that failed adds one to
  \<^verbatim>\<open>terminateAttempts\<close>; and \<^verbatim>\<open>terminateAttemptsHung\<close> and \<^verbatim>\<open>terminateLogSentHung\<close> are
  after the check what they were.

  The process could not be opened for query (\<^verbatim>\<open>CheckProcessHungAndTerminate\<close> with the
  node): a termination is attempted exactly when the process is hung and
  \<^verbatim>\<open>terminateAttemptsHung\<close> is below the limit; a \<^verbatim>\<open>TerminateProcess\<close> that failed adds
  one to \<^verbatim>\<open>terminateAttemptsHung\<close>; and \<^verbatim>\<open>terminateAttempts\<close> and \<^verbatim>\<open>terminateLogSent\<close>
  are after the check what they were.

  There is no node (\<^verbatim>\<open>malloc\<close> failed): a termination is attempted exactly when the
  process is hung, with no counter, and the history is left as it was.
\<close>

theorem retry_counters_go_with_the_path:
  assumes "FindOrCreateHistory (th32ProcessID pe) (historyMalloc env) (baselineTimes env)
             (baselinePerf env) (history g) = (hist, hs)"
      and "CheckNormalProcess pe cfg hungList env g = (g', acts)"
  shows "(\<forall>h. hist = Some h \<and> queryHandle env \<longrightarrow>
            (OpenProcessTerminate (th32ProcessID pe) \<in> set acts \<longleftrightarrow>
               breach_reason env h (th32ProcessID pe) cfg hungList \<noteq> None \<and>
               terminateAttempts h < TERMINATE_RETRY_LIMIT) \<and>
            (IsProcessHung (th32ProcessID pe) hungList \<longrightarrow>
               breach_reason env h (th32ProcessID pe) cfg hungList \<noteq> None) \<and>
            (\<forall>a l. breach_reason env (h \<lparr> terminateAttemptsHung := a, terminateLogSentHung := l \<rparr>)
                      (th32ProcessID pe) cfg hungList =
                    breach_reason env h (th32ProcessID pe) cfg hungList) \<and>
            (Log (SuccessfullyTerminated (th32ProcessID pe)) \<notin> set acts \<longrightarrow>
               (\<exists>h'. find_history (th32ProcessID pe) (history g') = Some h' \<and>
                  terminateAttemptsHung h' = terminateAttemptsHung h \<and>
                  terminateLogSentHung h' = terminateLogSentHung h \<and>
                  (TerminateProcess (th32ProcessID pe) \<in> set acts \<longrightarrow>
                     terminateAttempts h' = terminateAttempts h + 1)))) \<and>
         (\<forall>h. hist = Some h \<and> \<not> queryHandle env \<longrightarrow>
            (OpenProcessTerminate (th32ProcessID pe) \<in> set acts \<longleftrightarrow>
               IsProcessHung (th32ProcessID pe) hungList \<and>
               terminateAttemptsHung h < TERMINATE_RETRY_LIMIT) \<and>
            (Log (SuccessfullyTerminated (th32ProcessID pe)) \<notin> set acts \<longrightarrow>
               (\<exists>h'. find_history (th32ProcessID pe) (history g') = Some h' \<and>
                  terminateAttempts h' = terminateAttempts h \<and>
                  terminateLogSent h' = terminateLogSent h \<and>
                  (TerminateProcess (th32ProcessID pe) \<in> set acts \<longrightarrow>
                     terminateAttemptsHung h' = terminateAttemptsHung h + 1)))) \<and>
         (hist = None \<longrightarrow>
            (OpenProcessTerminate (th32ProcessID pe) \<in> set acts \<longleftrightarrow>
               IsProcessHung (th32ProcessID pe) hungList) \<and>
            history g' = history g) \<and>
         (\<forall>cur. find_history (th32ProcessID pe) (history g) = Some cur \<longrightarrow>
            hist = Some (cur \<lparr> seen := True \<rparr>))"
proof -
  let ?p = "th32ProcessID pe"
  have opened:
    "(OpenProcessTerminate ?p \<in> set acts \<longleftrightarrow>
        breach_reason env h ?p cfg hungList \<noteq> None \<and> terminateAttempts h < TERMINATE_RETRY_LIMIT) \<and>
     (Log (SuccessfullyTerminated ?p) \<notin> set acts \<longrightarrow>
        (\<exists>h'. find_history ?p (history g') = Some h' \<and>
           terminateAttemptsHung h' = terminateAttemptsHung h \<and>
           terminateLogSentHung h' = terminateLogSentHung h \<and>
           (TerminateProcess ?p \<in> set acts \<longrightarrow> terminateAttempts h' = terminateAttempts h + 1)))"
    if node: "hist = Some h" and handle: "queryHandle env" for h
  proof -
    obtain h' removed shown' where
      r: "CheckProcessResourcesAndTerminate h ?p cfg hungList env
            (notifyOnTermination (config g)) (accessDeniedShown g) = (h', removed, shown', acts)"
      and f: "\<not> removed \<longrightarrow> find_history ?p (history g') = Some h'"
      using normal_check_opened [OF assms(1) [unfolded node] handle assms(2)] by auto
    note s = resource_check_summary [OF r]
    show ?thesis
      using s(2,3,5) s(6) f by auto
  qed
  have closed:
    "(OpenProcessTerminate ?p \<in> set acts \<longleftrightarrow>
        IsProcessHung ?p hungList \<and> terminateAttemptsHung h < TERMINATE_RETRY_LIMIT) \<and>
     (Log (SuccessfullyTerminated ?p) \<notin> set acts \<longrightarrow>
        (\<exists>h'. find_history ?p (history g') = Some h' \<and>
           terminateAttempts h' = terminateAttempts h \<and> terminateLogSent h' = terminateLogSent h \<and>
           (TerminateProcess ?p \<in> set acts \<longrightarrow>
              terminateAttemptsHung h' = terminateAttemptsHung h + 1)))"
    if node: "hist = Some h" and handle: "\<not> queryHandle env" for h
  proof -
    obtain h' removed shown' where
      r: "CheckProcessHungAndTerminate (Some h) ?p hungList env (accessDeniedShown g) =
            (Some h', removed, shown', acts)"
      and f: "\<not> removed \<longrightarrow> find_history ?p (history g') = Some h'"
      using normal_check_closed [OF assms(1) [unfolded node] handle assms(2)] by auto
    note s = hang_check_summary [OF r]
    show ?thesis
      using s(1,2,4) f by auto
  qed
  have null: "(OpenProcessTerminate ?p \<in> set acts \<longleftrightarrow> IsProcessHung ?p hungList) \<and>
              history g' = history g"
    if "hist = None"
    using normal_check_null [OF assms(1) [unfolded that] assms(2)] by simp
  have stored: "hist = Some (cur \<lparr> seen := True \<rparr>)"
    if "find_history ?p (history g) = Some cur" for cur
    using FindOrCreateHistory_stored [OF assms(1) that] .
  show ?thesis
    using opened closed null stored breach_reason_hung [of ?p hungList env _ cfg]
      breach_reason_hang_fields [of env _ _ _ ?p cfg hungList]
    by (intro conjI allI impI) blast+
qed

theorem retry_counters_go_with_the_path_witness:
  "FindOrCreateHistory 1234 True None 0 [app_history 0 0 5 1] =
     (Some (app_history 0 0 5 1), [app_history 0 0 5 1]) \<and>
   queryHandle example_app_env \<and> \<not> queryHandle (example_app_env \<lparr> queryHandle := False \<rparr>) \<and>
   IsProcessHung 1234 [1234] \<and>
   find_history 1234 [app_history 0 0 5 1] = Some (app_history 0 0 5 1) \<and>
   breach_reason example_app_env (app_history 0 0 5 1) 1234 example_config [1234] =
     Some WindowNotResponding \<and>
   CheckNormalProcess example_app_entry example_config [1234] example_app_env
     (example_global \<lparr> history := [app_history 0 0 5 1] \<rparr>) =
     (example_global \<lparr> history := [app_history 1 0 5 1] \<rparr>,
      [Log (TerminatedProcessEvent 1234 WindowNotResponding), OpenProcessTerminate 1234,
       TerminateProcess 1234, Log (FailedToTerminate 1234)]) \<and>
   find_history 1234 [app_history 1 0 5 1] = Some (app_history 1 0 5 1) \<and>
   terminateAttempts (app_history 1 0 5 1) = terminateAttempts (app_history 0 0 5 1) + 1 \<and>
   terminateAttemptsHung (app_history 1 0 5 1) = terminateAttemptsHung (app_history 0 0 5 1) \<and>
   CheckNormalProcess example_app_entry example_config [1234]
     (example_app_env \<lparr> queryHandle := False \<rparr>)
     (example_global \<lparr> history := [app_history 5 1 0 0] \<rparr>) =
     (example_global \<lparr> history := [app_history 5 1 1 0] \<rparr>,
      [OpenProcessTerminate 1234, TerminateProcess 1234, Log (FailedToTerminate 1234)]) \<and>
   terminateAttemptsHung (app_history 5 1 1 0) = terminateAttemptsHung (app_history 5 1 0 0) + 1 \<and>
   terminateAttempts (app_history 5 1 1 0) = terminateAttempts (app_history 5 1 0 0) \<and>
   FindOrCreateHistory 1234 False None 0 [] = (None, []) \<and>
   CheckNormalProcess example_app_entry example_config [1234]
     (example_app_env \<lparr> historyMalloc := False \<rparr>) example_global =
     (example_global,
      [OpenProcessTerminate 1234, TerminateProcess 1234, Log (FailedToTerminate 1234)])"
  using retry_counters_go_with_the_path
    [of example_app_entry example_app_env "example_global \<lparr> history := [app_history 0 0 5 1] \<rparr>"
        "Some (app_history 0 0 5 1)" "[app_history 0 0 5 1]" example_config "[1234]"
        "example_global \<lparr> history := [app_history 1 0 5 1] \<rparr>"
        "[Log (TerminatedProcessEvent 1234 WindowNotResponding), OpenProcessTerminate 1234,
          TerminateProcess 1234, Log (FailedToTerminate 1234)]"]
    retry_counters_go_with_the_path
    [of example_app_entry "example_app_env \<lparr> queryHandle := False \<rparr>"
        "example_global \<lparr> history := [app_history 5 1 0 0] \<rparr>"
        "Some (app_history 5 1 0 0)" "[app_history 5 1 0 0]" example_config "[1234]"
        "example_global \<lparr> history := [app_history 5 1 1 0] \<rparr>"
        "[OpenProcessTerminate 1234, TerminateProcess 1234, Log (FailedToTerminate 1234)]"]
    retry_counters_go_with_the_path
    [of example_app_entry "example_app_env \<lparr> historyMalloc := False \<rparr>" example_global
        None "[]" example_config "[1234]" example_global
        "[OpenProcessTerminate 1234, TerminateProcess 1234, Log (FailedToTerminate 1234)]"]
  by (simp add: example_app_facts example_app_find example_app_find_null example_app_open
      example_app_closed example_app_null example_breach_reason example_global_fields
      TERMINATE_RETRY_LIMIT_def)
     (simp add: app_history_def example_app_env_def)

subsection \<open>At the retry limit\<close>

lemma new_history_flag: "resource_flag_consistent (new_history p ptimes perf)"
  by (simp add: resource_flag_consistent_def new_history_fields TERMINATE_RETRY_LIMIT_def)

text \<open>
  Claim C4, as the claim has it, fails on the example process, in both of its parts.

  An attempt at the limit: the process is hung and cannot be opened for query, and
  \<^verbatim>\<open>TerminateProcess\<close> fails; the fifth such scan brings \<^verbatim>\<open>terminateAttemptsHung\<close> to 5
  and writes the exhaustion line. In the next scan the process is still hung and can
  be opened: a termination is attempted for the hang, with \<^verbatim>\<open>terminateAttemptsHung\<close>
  still 5 and the node still there.

  No exhaustion line: instead, the process is seen not hung once (it still cannot be
  opened), which puts \<^verbatim>\<open>terminateAttemptsHung\<close> back to 0 and leaves
  \<^verbatim>\<open>terminateLogSentHung\<close> at 1. Five more scans hung with \<^verbatim>\<open>TerminateProcess\<close>
  failing bring the counter to 5 again, and neither the fifth nor the scan after it
  writes an exhaustion line.
\<close>

theorem retry_limit_counterexample:
  "CheckNormalProcess example_app_entry example_config [1234]
     (example_app_env \<lparr> queryHandle := False \<rparr>)
     (example_global \<lparr> history := [app_history 0 0 4 0] \<rparr>) =
     (example_global \<lparr> history := [app_history 0 0 5 1] \<rparr>,
      [OpenProcessTerminate 1234, TerminateProcess 1234, Log (FailedToTerminate 1234),
       Log (AttemptsExhaustedWillStopTrying 1234)]) \<and>
   terminateAttemptsHung (app_history 0 0 5 1) = TERMINATE_RETRY_LIMIT \<and>
   CheckNormalProcess example_app_entry example_config [1234] example_app_env
     (example_global \<lparr> history := [app_history 0 0 5 1] \<rparr>) =
     (example_global \<lparr> history := [app_history 1 0 5 1] \<rparr>,
      [Log (TerminatedProcessEvent 1234 WindowNotResponding), OpenProcessTerminate 1234,
       TerminateProcess 1234, Log (FailedToTerminate 1234)]) \<and>
   CheckNormalProcess example_app_entry example_config []
     (example_app_env \<lparr> queryHandle := False \<rparr>)
     (example_global \<lparr> history := [app_history 0 0 5 1] \<rparr>) =
     (example_global \<lparr> history := [app_history 0 0 0 1] \<rparr>, []) \<and>
   CheckNormalProcess example_app_entry example_config [1234]
     (example_app_env \<lparr> queryHandle := False \<rparr>)
     (example_global \<lparr> history := [app_history 0 0 0 1] \<rparr>) =
     (example_global \<lparr> history := [app_history 0 0 1 1] \<rparr>,
      [OpenProcessTerminate 1234, TerminateProcess 1234, Log (FailedToTerminate 1234)]) \<and>
   CheckNormalProcess example_app_entry example_config [1234]
     (example_app_env \<lparr> queryHandle := False \<rparr>)
     (example_global \<lparr> history := [app_history 0 0 1 1] \<rparr>) =
     (example_global \<lparr> history := [app_history 0 0 2 1] \<rparr>,
      [OpenProcessTerminate 1234, TerminateProcess 1234, Log (FailedToTerminate 1234)]) \<and>
   CheckNormalProcess example_app_entry example_config [1234]
     (example_app_env \<lparr> queryHandle := False \<rparr>)
     (example_global \<lparr> history := [app_history 0 0 2 1] \<rparr>) =
     (example_global \<lparr> history := [app_history 0 0 3 1] \<rparr>,
      [OpenProcessTerminate 1234, TerminateProcess 1234, Log (FailedToTerminate 1234)]) \<and>
   CheckNormalProcess example_app_entry example_config [1234]
     (example_app_env \<lparr> queryHandle := False \<rparr>)
     (example_global \<lparr> history := [app_history 0 0 3 1] \<rparr>) =
     (example_global \<lparr> history := [app_history 0 0 4 1] \<rparr>,
      [OpenProcessTerminate 1234, TerminateProcess 1234, Log (FailedToTerminate 1234)]) \<and>
   CheckNormalProcess example_app_entry example_config [1234]
     (example_app_env \<lparr> queryHandle := False \<rparr>)
     (example_global \<lparr> history := [app_history 0 0 4 1] \<rparr>) =
     (example_global \<lparr> history := [app_history 0 0 5 1] \<rparr>,
      [OpenProcessTerminate 1234, TerminateProcess 1234, Log (FailedToTerminate 1234)]) \<and>
   CheckNormalProcess example_app_entry example_config [1234]
     (example_app_env \<lparr> queryHandle := False \<rparr>)
     (example_global \<lparr> history := [app_history 0 0 5 1] \<rparr>) =
     (example_global \<lparr> history := [app_history 0 0 5 1] \<rparr>, []) \<and>
   exhaustion_lines 1234
     [OpenProcessTerminate 1234, TerminateProcess 1234, Log (FailedToTerminate 1234)] = 0"
  by (simp add: example_app_open example_app_closed example_app_facts TERMINATE_RETRY_LIMIT_def
      exhaustion_lines_def)

text \<open>
  Claim C4, amended: the limit is that of the counter of the path \<^verbatim>\<open>CheckNormalProcess\<close>
  takes. \<open>hist\<close> is the node \<^verbatim>\<open>FindOrCreateHistory\<close> hands out, which is the node of the
  process in the history when there is one.

  The process could be opened for query. With \<^verbatim>\<open>terminateAttempts\<close> at the limit no
  termination is attempted, the node stays, and its counter stays as it is when a
  reason applies and goes to 0 when none does. With \<^verbatim>\<open>terminateAttempts\<close> below the
  limit and a reason, a termination is attempted, whatever \<^verbatim>\<open>terminateAttemptsHung\<close>
  is. The exhaustion line of this path is written once each time the limit is reached:
  if \<^verbatim>\<open>terminateLogSent\<close> is set exactly when \<^verbatim>\<open>terminateAttempts\<close> is at the limit, as
  it is in a new node, then this is so after the check, and the check writes one
  exhaustion line when the counter gets from below the limit to the limit in it, and
  none otherwise.

  The process could not be opened for query. With \<^verbatim>\<open>terminateAttemptsHung\<close> at the
  limit no termination is attempted, the node stays, and its counter stays as it is
  when the process is hung and goes to 0 when it is not. With
  \<^verbatim>\<open>terminateAttemptsHung\<close> below the limit and the process hung, a termination is
  attempted, whatever \<^verbatim>\<open>terminateAttempts\<close> is. The check leaves \<^verbatim>\<open>terminateAttempts\<close>
  and \<^verbatim>\<open>terminateLogSent\<close> as they were.

  There is no node (\<^verbatim>\<open>malloc\<close> failed): there is no limit, a hung process is attempted.
\<close>

theorem retry_limit_holds_per_path:
  assumes "FindOrCreateHistory (th32ProcessID pe) (historyMalloc env) (baselineTimes env)
             (baselinePerf env) (history g) = (hist, hs)"
      and "CheckNormalProcess pe cfg hungList env g = (g', acts)"
  shows "(\<forall>h. hist = Some h \<and> queryHandle env \<longrightarrow>
            (TERMINATE_RETRY_LIMIT \<le> terminateAttempts h \<longrightarrow>
               (\<forall>q. OpenProcessTerminate q \<notin> set acts \<and> TerminateProcess q \<notin> set acts) \<and>
               (\<exists>h'. find_history (th32ProcessID pe) (history g') = Some h' \<and>
                  terminateAttempts h' =
                    (if breach_reason env h (th32ProcessID pe) cfg hungList = None then 0
                     else terminateAttempts h))) \<and>
            (terminateAttempts h < TERMINATE_RETRY_LIMIT \<and>
             breach_reason env h (th32ProcessID pe) cfg hungList \<noteq> None \<longrightarrow>
               OpenProcessTerminate (th32ProcessID pe) \<in> set acts) \<and>
            (resource_flag_consistent h \<longrightarrow>
               (Log (SuccessfullyTerminated (th32ProcessID pe)) \<in> set acts \<longrightarrow>
                  exhaustion_lines (th32ProcessID pe) acts = 0) \<and>
               (Log (SuccessfullyTerminated (th32ProcessID pe)) \<notin> set acts \<longrightarrow>
                  (\<exists>h'. find_history (th32ProcessID pe) (history g') = Some h' \<and>
                     resource_flag_consistent h' \<and>
                     exhaustion_lines (th32ProcessID pe) acts =
                       (if terminateAttempts h < TERMINATE_RETRY_LIMIT \<and>
                           TERMINATE_RETRY_LIMIT \<le> terminateAttempts h' then 1 else 0))))) \<and>
         (\<forall>h. hist = Some h \<and> \<not> queryHandle env \<longrightarrow>
            (TERMINATE_RETRY_LIMIT \<le> terminateAttemptsHung h \<longrightarrow>
               (\<forall>q. OpenProcessTerminate q \<notin> set acts \<and> TerminateProcess q \<notin> set acts) \<and>
               (\<exists>h'. find_history (th32ProcessID pe) (history g') = Some h' \<and>
                  terminateAttemptsHung h' =
                    (if IsProcessHung (th32ProcessID pe) hungList then terminateAttemptsHung h
                     else 0))) \<and>
            (terminateAttemptsHung h < TERMINATE_RETRY_LIMIT \<and>
             IsProcessHung (th32ProcessID pe) hungList \<longrightarrow>
               OpenProcessTerminate (th32ProcessID pe) \<in> set acts) \<and>
            (Log (SuccessfullyTerminated (th32ProcessID pe)) \<notin> set acts \<longrightarrow>
               (\<exists>h'. find_history (th32ProcessID pe) (history g') = Some h' \<and>
                  terminateAttempts h' = terminateAttempts h \<and>
                  terminateLogSent h' = terminateLogSent h))) \<and>
         (hist = None \<and> IsProcessHung (th32ProcessID pe) hungList \<longrightarrow>
            OpenProcessTerminate (th32ProcessID pe) \<in> set acts) \<and>
         (\<forall>cur. find_history (th32ProcessID pe) (history g) = Some cur \<longrightarrow>
            hist = Some (cur \<lparr> seen := True \<rparr>)) \<and>
         (\<forall>cur. find_history (th32ProcessID pe) (history g) = None \<and> hist = Some cur \<longrightarrow>
            resource_flag_consistent cur)"
proof -
  let ?p = "th32ProcessID pe"
  have opened:
    "(TERMINATE_RETRY_LIMIT \<le> terminateAttempts h \<longrightarrow>
        (\<forall>q. OpenProcessTerminate q \<notin> set acts \<and> TerminateProcess q \<notin> set acts) \<and>
        (\<exists>h'. find_history ?p (history g') = Some h' \<and>
           terminateAttempts h' =
             (if breach_reason env h ?p cfg hungList = None then 0 else terminateAttempts h))) \<and>
     (terminateAttempts h < TERMINATE_RETRY_LIMIT \<and> breach_reason env h ?p cfg hungList \<noteq> None \<longrightarrow>
        OpenProcessTerminate ?p \<in> set acts) \<and>
     (resource_flag_consistent h \<longrightarrow>
        (Log (SuccessfullyTerminated ?p) \<in> set acts \<longrightarrow> exhaustion_lines ?p acts = 0) \<and>
        (Log (SuccessfullyTerminated ?p) \<notin> set acts \<longrightarrow>
           (\<exists>h'. find_history ?p (history g') = Some h' \<and> resource_flag_consistent h' \<and>
              exhaustion_lines ?p acts =
                (if terminateAttempts h < TERMINATE_RETRY_LIMIT \<and>
                    TERMINATE_RETRY_LIMIT \<le> terminateAttempts h' then 1 else 0))))"
    if node: "hist = Some h" and handle: "queryHandle env" for h
  proof -
    obtain h' removed shown' where
      r: "CheckProcessResourcesAndTerminate h ?p cfg hungList env
            (notifyOnTermination (config g)) (accessDeniedShown g) = (h', removed, shown', acts)"
      and f: "\<not> removed \<longrightarrow> find_history ?p (history g') = Some h'"
      using normal_check_opened [OF assms(1) [unfolded node] handle assms(2)] by auto
    note s = resource_check_summary [OF r]
    have limit: "(\<forall>q. OpenProcessTerminate q \<notin> set acts \<and> TerminateProcess q \<notin> set acts) \<and>
        (\<exists>h'. find_history ?p (history g') = Some h' \<and>
           terminateAttempts h' =
             (if breach_reason env h ?p cfg hungList = None then 0 else terminateAttempts h))"
      if "TERMINATE_RETRY_LIMIT \<le> terminateAttempts h"
      using s(4) s(7) [OF that] f that by (meson not_le)
    have lines: "exhaustion_lines ?p acts = 0"
      if "resource_flag_consistent h" and "Log (SuccessfullyTerminated ?p) \<in> set acts"
    proof -
      have "terminateAttempts h < TERMINATE_RETRY_LIMIT"
        using s(5) s(7) that(2) by (meson not_le)
      moreover have "terminateAttempts h' = terminateAttempts h"
        using r s(5) that(2)
      proof (cases rule: resource_check_cases)
        case (attempted reason att' ls' sh acts1)
        then show ?thesis
          using TryTerminateProcess_cases(4) [OF attempted(3)] s(5) that(2) by simp
      qed simp_all
      ultimately show ?thesis
        using s(8) [OF that(1)] by simp
    qed
    show ?thesis
      using limit lines s(3) s(5) s(8) f by auto
  qed
  have closed:
    "(TERMINATE_RETRY_LIMIT \<le> terminateAttemptsHung h \<longrightarrow>
        (\<forall>q. OpenProcessTerminate q \<notin> set acts \<and> TerminateProcess q \<notin> set acts) \<and>
        (\<exists>h'. find_history ?p (history g') = Some h' \<and>
           terminateAttemptsHung h' =
             (if IsProcessHung ?p hungList then terminateAttemptsHung h else 0))) \<and>
     (terminateAttemptsHung h < TERMINATE_RETRY_LIMIT \<and> IsProcessHung ?p hungList \<longrightarrow>
        OpenProcessTerminate ?p \<in> set acts) \<and>
     (Log (SuccessfullyTerminated ?p) \<notin> set acts \<longrightarrow>
        (\<exists>h'. find_history ?p (history g') = Some h' \<and>
           terminateAttempts h' = terminateAttempts h \<and> terminateLogSent h' = terminateLogSent h))"
    if node: "hist = Some h" and handle: "\<not> queryHandle env" for h
  proof -
    obtain h' removed shown' where
      r: "CheckProcessHungAndTerminate (Some h) ?p hungList env (accessDeniedShown g) =
            (Some h', removed, shown', acts)"
      and f: "\<not> removed \<longrightarrow> find_history ?p (history g') = Some h'"
      using normal_check_closed [OF assms(1) [unfolded node] handle assms(2)] by auto
    note s = hang_check_summary [OF r]
    have limit: "(\<forall>q. OpenProcessTerminate q \<notin> set acts \<and> TerminateProcess q \<notin> set acts) \<and>
        (\<exists>h'. find_history ?p (history g') = Some h' \<and>
           terminateAttemptsHung h' =
             (if IsProcessHung ?p hungList then terminateAttemptsHung h else 0))"
      if at: "TERMINATE_RETRY_LIMIT \<le> terminateAttemptsHung h"
    proof -
      have none: "\<forall>q. OpenProcessTerminate q \<notin> set acts \<and> TerminateProcess q \<notin> set acts"
        using s(3) at by (meson not_le)
      have "\<not> removed"
        using r at by (cases rule: hang_check_cases) simp_all
      then show ?thesis
        using none s(1) f at by auto
    qed
    show ?thesis
      using limit s(1,2,4) f by auto
  qed
  have null: "OpenProcessTerminate ?p \<in> set acts"
    if "hist = None" and "IsProcessHung ?p hungList"
    using normal_check_null [OF assms(1) [unfolded that(1)] assms(2)] that(2) by simp
  have stored: "hist = Some (cur \<lparr> seen := True \<rparr>)"
    if "find_history ?p (history g) = Some cur" for cur
    using FindOrCreateHistory_stored [OF assms(1) that] .
  have fresh: "resource_flag_consistent cur"
    if "find_history ?p (history g) = None" and "hist = Some cur" for cur
    using assms(1) that new_history_flag
    by (auto simp: FindOrCreateHistory_def Let_def split: if_splits)
  show ?thesis
    using opened closed null stored fresh
    by (intro conjI allI impI) blast+
qed

theorem retry_limit_holds_per_path_witness:
  "FindOrCreateHistory 1234 True None 0 [app_history 5 1 0 0] =
     (Some (app_history 5 1 0 0), [app_history 5 1 0 0]) \<and>
   queryHandle example_app_env \<and> \<not> queryHandle (example_app_env \<lparr> queryHandle := False \<rparr>) \<and>
   IsProcessHung 1234 [1234] \<and>
   TERMINATE_RETRY_LIMIT \<le> terminateAttempts (app_history 5 1 0 0) \<and>
   breach_reason example_app_env (app_history 5 1 0 0) 1234 example_config [1234] =
     Some WindowNotResponding \<and>
   CheckNormalProcess example_app_entry example_config [1234] example_app_env
     (example_global \<lparr> history := [app_history 5 1 0 0] \<rparr>) =
     (example_global \<lparr> history := [app_history 5 1 0 0] \<rparr>, []) \<and>
   (\<exists>h'. find_history 1234 [app_history 5 1 0 0] = Some h' \<and> terminateAttempts h' = 5) \<and>
   resource_flag_consistent (app_history 4 0 5 1) \<and>
   terminateAttempts (app_history 4 0 5 1) < TERMINATE_RETRY_LIMIT \<and>
   TERMINATE_RETRY_LIMIT \<le> terminateAttemptsHung (app_history 4 0 5 1) \<and>
   CheckNormalProcess example_app_entry example_config [1234] example_app_env
     (example_global \<lparr> history := [app_history 4 0 5 1] \<rparr>) =
     (example_global \<lparr> history := [app_history 5 1 5 1] \<rparr>,
      [Log (TerminatedProcessEvent 1234 WindowNotResponding), OpenProcessTerminate 1234,
       TerminateProcess 1234, Log (FailedToTerminate 1234),
       Log (AttemptsExhaustedWillStopTrying 1234)]) \<and>
   exhaustion_lines 1234
     [Log (TerminatedProcessEvent 1234 WindowNotResponding), OpenProcessTerminate 1234,
      TerminateProcess 1234, Log (FailedToTerminate 1234),
      Log (AttemptsExhaustedWillStopTrying 1234)] = 1 \<and>
   resource_flag_consistent (app_history 5 1 5 1) \<and>
   TERMINATE_RETRY_LIMIT \<le> terminateAttemptsHung (app_history 5 1 5 1) \<and>
   CheckNormalProcess example_app_entry example_config [1234]
     (example_app_env \<lparr> queryHandle := False \<rparr>)
     (example_global \<lparr> history := [app_history 5 1 5 1] \<rparr>) =
     (example_global \<lparr> history := [app_history 5 1 5 1] \<rparr>, []) \<and>
   (\<exists>h'. find_history 1234 [app_history 5 1 5 1] = Some h' \<and> terminateAttemptsHung h' = 5) \<and>
   terminateAttemptsHung (app_history 5 1 0 0) < TERMINATE_RETRY_LIMIT \<and>
   CheckNormalProcess example_app_entry example_config [1234]
     (example_app_env \<lparr> queryHandle := False \<rparr>)
     (example_global \<lparr> history := [app_history 5 1 0 0] \<rparr>) =
     (example_global \<lparr> history := [app_history 5 1 1 0] \<rparr>,
      [OpenProcessTerminate 1234, TerminateProcess 1234, Log (FailedToTerminate 1234)]) \<and>
   FindOrCreateHistory 1234 False None 0 [] = (None, []) \<and>
   CheckNormalProcess example_app_entry example_config [1234]
     (example_app_env \<lparr> historyMalloc := False \<rparr>) example_global =
     (example_global,
      [OpenProcessTerminate 1234, TerminateProcess 1234, Log (FailedToTerminate 1234)]) \<and>
   queryHandle example_busy_env \<and>
   MeasureProcessResources example_busy_env (app_history 5 1 0 0) =
     (Finite 80, 100, True,
      (app_history 5 1 0 0) \<lparr> ftKernel := 80000001, ftUser := 0, perfTime := 100000000 \<rparr>) \<and>
   (80 :: real) < 80000001 / 10000 / 10 / 10 \<and>
   breach_reason example_busy_env (app_history 5 1 0 0) 1234 example_config [] = None \<and>
   CheckNormalProcess example_app_entry example_config [] example_busy_env
     (example_global \<lparr> history := [app_history 5 1 0 0] \<rparr>) =
     (example_global
        \<lparr> history := [(app_history 0 0 0 0)
                         \<lparr> ftKernel := 80000001, ftUser := 0, perfTime := 100000000 \<rparr>] \<rparr>, []) \<and>
   (\<exists>h'. find_history 1234
            [(app_history 0 0 0 0) \<lparr> ftKernel := 80000001, ftUser := 0, perfTime := 100000000 \<rparr>] =
            Some h' \<and> terminateAttempts h' = 0)"
proof -
  have facts: "queryHandle example_app_env"
    "\<not> queryHandle (example_app_env \<lparr> queryHandle := False \<rparr>)"
    "IsProcessHung 1234 [1234]"
    "IsProcessHung (th32ProcessID example_app_entry) [1234]"
    "TERMINATE_RETRY_LIMIT \<le> terminateAttempts (app_history 5 1 0 0)"
    "resource_flag_consistent (app_history 4 0 5 1)"
    "terminateAttempts (app_history 4 0 5 1) < TERMINATE_RETRY_LIMIT"
    "TERMINATE_RETRY_LIMIT \<le> terminateAttemptsHung (app_history 4 0 5 1)"
    "resource_flag_consistent (app_history 5 1 5 1)"
    "TERMINATE_RETRY_LIMIT \<le> terminateAttemptsHung (app_history 5 1 5 1)"
    "terminateAttemptsHung (app_history 5 1 0 0) < TERMINATE_RETRY_LIMIT"
    by (simp_all add: example_app_facts TERMINATE_RETRY_LIMIT_def resource_flag_consistent_def)
  have reason: "breach_reason example_app_env (app_history a l ah lh) 1234 example_config [1234] =
      Some WindowNotResponding" for a l ah lh
    by (simp add: example_breach_reason)
  have find: "FindOrCreateHistory (th32ProcessID example_app_entry) (historyMalloc env)
      (baselineTimes env) (baselinePerf env)
      (history (example_global \<lparr> history := [app_history a l ah lh] \<rparr>)) =
      (Some (app_history a l ah lh), [app_history a l ah lh])" for env a l ah lh
    by (simp add: example_app_facts example_app_find)
  have find_null: "FindOrCreateHistory (th32ProcessID example_app_entry)
      (historyMalloc (example_app_env \<lparr> historyMalloc := False \<rparr>))
      (baselineTimes (example_app_env \<lparr> historyMalloc := False \<rparr>))
      (baselinePerf (example_app_env \<lparr> historyMalloc := False \<rparr>))
      (history example_global) = (None, [])"
    by (simp add: example_app_facts example_app_find_null example_global_fields)
  have found: "find_history 1234 [app_history a l ah lh] = Some (app_history a l ah lh)" for a l ah lh
    by (simp add: app_history_def)
  have check1: "CheckNormalProcess example_app_entry example_config [1234] example_app_env
      (example_global \<lparr> history := [app_history 5 1 0 0] \<rparr>) =
      (example_global \<lparr> history := [app_history 5 1 0 0] \<rparr>, [])"
    by (simp add: example_app_open example_app_facts)
  have check2: "CheckNormalProcess example_app_entry example_config [1234] example_app_env
      (example_global \<lparr> history := [app_history 4 0 5 1] \<rparr>) =
      (example_global \<lparr> history := [app_history 5 1 5 1] \<rparr>,
       [Log (TerminatedProcessEvent 1234 WindowNotResponding), OpenProcessTerminate 1234,
        TerminateProcess 1234, Log (FailedToTerminate 1234),
        Log (AttemptsExhaustedWillStopTrying 1234)])"
    by (simp add: example_app_open example_app_facts)
  have check3: "CheckNormalProcess example_app_entry example_config [1234]
      (example_app_env \<lparr> queryHandle := False \<rparr>)
      (example_global \<lparr> history := [app_history 5 1 5 1] \<rparr>) =
      (example_global \<lparr> history := [app_history 5 1 5 1] \<rparr>, [])"
    by (simp add: example_app_closed example_app_facts)
  have check4: "CheckNormalProcess example_app_entry example_config [1234]
      (example_app_env \<lparr> queryHandle := False \<rparr>)
      (example_global \<lparr> history := [app_history 5 1 0 0] \<rparr>) =
      (example_global \<lparr> history := [app_history 5 1 1 0] \<rparr>,
       [OpenProcessTerminate 1234, TerminateProcess 1234, Log (FailedToTerminate 1234)])"
    by (simp add: example_app_closed example_app_facts)
  have check5: "CheckNormalProcess example_app_entry example_config [1234]
      (example_app_env \<lparr> historyMalloc := False \<rparr>) example_global =
      (example_global,
       [OpenProcessTerminate 1234, TerminateProcess 1234, Log (FailedToTerminate 1234)])"
    by (simp add: example_app_null example_app_facts)
  note t1 = retry_limit_holds_per_path [OF find check1, THEN conjunct1, rule_format,
      of "app_history 5 1 0 0", THEN conjunct1, rule_format]
  note t2 = retry_limit_holds_per_path [OF find check2, THEN conjunct1, rule_format,
      of "app_history 4 0 5 1", THEN conjunct2, THEN conjunct2, rule_format]
  note t3 = retry_limit_holds_per_path [OF find check3, THEN conjunct2, THEN conjunct1, rule_format,
      of "app_history 5 1 5 1", THEN conjunct1, rule_format]
  note t4 = retry_limit_holds_per_path [OF find check4, THEN conjunct2, THEN conjunct1, rule_format,
      of "app_history 5 1 0 0", THEN conjunct2, THEN conjunct1, rule_format]
  note t5 = retry_limit_holds_per_path [OF find_null check5, THEN conjunct2, THEN conjunct2,
      THEN conjunct1, rule_format]
  have busy: "queryHandle example_busy_env"
    "breach_reason example_busy_env (app_history 5 1 0 0) 1234 example_config [] = None"
    by (simp_all add: example_busy_reason example_busy_handle)
  note t6 = retry_limit_holds_per_path [OF find [of example_busy_env 5 1 0 0]
      example_busy_open [of 5 1 0 0], THEN conjunct1, rule_format,
      of "app_history 5 1 0 0", THEN conjunct1, rule_format]
  have r6: "\<exists>h'. find_history 1234
            [(app_history 0 0 0 0) \<lparr> ftKernel := 80000001, ftUser := 0, perfTime := 100000000 \<rparr>] =
            Some h' \<and> terminateAttempts h' = 0"
    using t6 [OF _ facts(5)] busy
    by (simp add: example_app_facts del: find_history.simps)
  have r1: "\<exists>h'. find_history 1234 [app_history 5 1 0 0] = Some h' \<and> terminateAttempts h' = 5"
    using t1 [OF _ facts(5)] facts(1) by (simp add: example_app_facts reason)
  have r2: "exhaustion_lines 1234
     [Log (TerminatedProcessEvent 1234 WindowNotResponding), OpenProcessTerminate 1234,
      TerminateProcess 1234, Log (FailedToTerminate 1234),
      Log (AttemptsExhaustedWillStopTrying 1234)] = 1"
    using t2 [OF _ facts(6), THEN conjunct2, rule_format] facts(1)
    by (auto simp: example_app_facts found TERMINATE_RETRY_LIMIT_def simp del: find_history.simps)
  have r3: "\<exists>h'. find_history 1234 [app_history 5 1 5 1] = Some h' \<and> terminateAttemptsHung h' = 5"
    using t3 [OF _ facts(10)] facts(2) by (simp add: example_app_facts)
  have r4: "OpenProcessTerminate 1234 \<in>
      set [OpenProcessTerminate 1234, TerminateProcess 1234, Log (FailedToTerminate 1234)]"
    using t4 facts(2,4,11) by (simp add: example_app_facts)
  have r5: "OpenProcessTerminate 1234 \<in>
      set [OpenProcessTerminate 1234, TerminateProcess 1234, Log (FailedToTerminate 1234)]"
    using t5 facts(4) by (simp add: example_app_facts)
  show ?thesis
    using facts reason [of 5 1 0 0] check1 check2 check3 check4 check5 r1 r2 r3 r4 r5 r6 busy
      example_busy_measure [of 5 1 0 0] example_busy_open [of 5 1 0 0] just_over_80(6)
    by (simp add: example_app_find example_app_find_null del: find_history.simps)
qed


section \<open>History sweep: eviction and re-appearance\<close>

lemma CheckProcesses_append:
  "CheckProcesses (xs @ ys) cfg hungList self g =
     (let (g1, acts1) = CheckProcesses xs cfg hungList self g;
          (g2, acts2) = CheckProcesses ys cfg hungList self g1
      in (g2, acts1 @ acts2))"
proof (induction xs arbitrary: g)
  case Nil
  then show ?case by (simp add: case_prod_beta)
next
  case (Cons a xs)
  obtain pe env where a: "a = (pe, env)" by (cases a)
  show ?case by (simp add: a Cons.IH case_prod_beta Let_def)
qed

lemma scan_start:
  "(if consecutiveSnapshotFailures_after g > 0
    then g \<lparr> consecutiveSnapshotFailures_after := 0 \<rparr> else g) =
   g \<lparr> consecutiveSnapshotFailures_after := 0 \<rparr>"
  by (simp add: word_gt_0)

lemma ProcessSnapshot_entries:
  assumes "snapshot env = Some (before @ (pe, e) # after)"
  shows "fst (ProcessSnapshot cfg env g) =
           (let ga = scan_until before cfg env g;
                gb = fst (CheckProcess pe cfg (hungWindows env) (currentProcessId env) e ga);
                gc = fst (CheckProcesses after cfg (hungWindows env) (currentProcessId env) gb)
            in gc \<lparr> history := CleanupHistory (history gc) \<rparr>)"
proof -
  have "fst (if consecutiveSnapshotFailures_after g > 0
             then (g \<lparr> consecutiveSnapshotFailures_after := 0 \<rparr>,
                   [Log (SnapshotSucceededAfter (consecutiveSnapshotFailures_after g))])
             else (g, [])) = g \<lparr> consecutiveSnapshotFailures_after := 0 \<rparr>"
    by (simp add: word_gt_0)
  then show ?thesis
    using assms
    by (simp add: ProcessSnapshot_def scan_until_def CheckProcesses_append Let_def case_prod_beta)
qed

lemma ProcessSnapshot_absent:
  assumes "\<forall>h \<in> set (history g). pid h \<noteq> p"
      and "\<forall>entries. snapshot env = Some entries \<longrightarrow> (\<forall>(pe, e) \<in> set entries. th32ProcessID pe \<noteq> p)"
  shows "\<forall>h \<in> set (history (fst (ProcessSnapshot cfg env g))). pid h \<noteq> p"
proof (cases "snapshot env")
  case None
  then show ?thesis
    using assms(1) by (simp add: ProcessSnapshot_def Let_def)
next
  case (Some entries)
  define g1 where "g1 = (fst (if consecutiveSnapshotFailures_after g > 0
      then (g \<lparr> consecutiveSnapshotFailures_after := 0 \<rparr>,
            [Log (SnapshotSucceededAfter (consecutiveSnapshotFailures_after g))])
      else (g, []))) \<lparr> history := map (\<lambda>h. h \<lparr> seen := False \<rparr>) (history g) \<rparr>"
  have g1: "\<forall>h \<in> set (history g1). pid h \<noteq> p"
    using assms(1) by (auto simp: g1_def)
  show ?thesis
  proof (cases "entries = []")
    case True
    then show ?thesis
      using Some assms(1) by (auto simp: ProcessSnapshot_def Let_def case_prod_beta)
  next
    case False
    have "\<forall>(pe, e) \<in> set entries. th32ProcessID pe \<noteq> p"
      using assms(2) Some by simp
    then have "\<forall>h \<in> set (history (fst (CheckProcesses entries cfg (hungWindows env)
        (currentProcessId env) g1))). pid h \<noteq> p"
      using g1 by (intro absent_stays_absent_checks)
    moreover have "history (fst (ProcessSnapshot cfg env g)) =
        CleanupHistory (history (fst (CheckProcesses entries cfg (hungWindows env)
          (currentProcessId env) g1)))"
      using Some False by (simp add: ProcessSnapshot_def Let_def case_prod_beta g1_def)
    ultimately show ?thesis
      using CleanupHistory_set by fastforce
  qed
qed

lemma MonitorScans_absent:
  assumes "\<forall>h \<in> set (history g). pid h \<noteq> p"
      and "\<forall>env \<in> set envs. \<forall>entries. snapshot env = Some entries \<longrightarrow>
             (\<forall>(pe, e) \<in> set entries. th32ProcessID pe \<noteq> p)"
  shows "\<forall>h \<in> set (history (fst (MonitorScans cfg envs g))). pid h \<noteq> p"
  using assms
proof (induction envs arbitrary: g)
  case Nil
  then show ?case by simp
next
  case (Cons env envs)
  have "\<forall>h \<in> set (history (fst (ProcessSnapshot cfg env g))). pid h \<noteq> p"
    using Cons.prems by (intro ProcessSnapshot_absent) simp_all
  from Cons.IH [OF this] Cons.prems(2)
  show ?case by (simp add: case_prod_beta)
qed

lemma scan_until_absent:
  assumes "\<forall>h \<in> set (history g). pid h \<noteq> p"
      and "\<forall>(pe, e) \<in> set before. th32ProcessID pe \<noteq> p"
  shows "\<forall>h \<in> set (history (scan_until before cfg env g)). pid h \<noteq> p"
  unfolding scan_until_def
  using assms by (intro absent_stays_absent_checks) auto

lemma example_stale_sweep:
  "ProcessSnapshot example_config example_own_scan example_stale_global = (example_global, [])"
  by (simp add: ProcessSnapshot_def example_own_scan_def CheckProcess_def example_stale_global_def
      example_stale_history_def example_global_def)

lemma example_empty_sweep:
  "ProcessSnapshot example_config example_empty_scan example_stale_global =
     (example_global \<lparr> history := [example_stale_history \<lparr> seen := False \<rparr>] \<rparr>, [])"
  by (simp add: ProcessSnapshot_def example_empty_scan_def example_stale_global_def
      example_global_fields)

text \<open>
  Claim C6, as the claim has it, fails when the snapshot is obtained and
  \<^verbatim>\<open>Process32FirstW\<close> then fails: \<^verbatim>\<open>ProcessSnapshot\<close> returns before \<^verbatim>\<open>CleanupHistory\<close>.
  The history holds a node for process 1234, the enumeration delivers nothing, so 1234
  is absent from it, and after the scan the node is still there, with its three failed
  terminations and its old baseline.
\<close>

theorem history_kept_when_enumeration_fails:
  "snapshot example_empty_scan = Some [] \<and>
   history example_stale_global = [example_stale_history] \<and>
   pid example_stale_history = 1234 \<and>
   history (fst (ProcessSnapshot example_config example_empty_scan example_stale_global)) =
     [example_stale_history \<lparr> seen := False \<rparr>] \<and>
   pid (example_stale_history \<lparr> seen := False \<rparr>) = 1234 \<and>
   terminateAttempts (example_stale_history \<lparr> seen := False \<rparr>) = 3 \<and>
   ftKernel (example_stale_history \<lparr> seen := False \<rparr>) = 999"
  by (simp add: example_empty_sweep)
     (simp add: example_empty_scan_def example_stale_global_def example_stale_history_def)

text \<open>
  Claim C6, amended. Take a scan whose snapshot was obtained and delivers at least one
  entry (\<^verbatim>\<open>Process32FirstW\<close> succeeds, so the loop and the sweep run), and a process ID
  \<open>p\<close> that no entry of the snapshot has: after the scan the history has no node for
  \<open>p\<close>. Let any number of scans follow in which \<open>p\<close> does not appear (snapshots that
  fail, that deliver nothing, or that deliver other processes): the history still has
  no node for \<open>p\<close>. Then comes a scan in which an entry \<open>pe\<close> has the process ID \<open>p\<close>,
  after entries \<open>before\<close> that do not. This scan is: the entries before, the check of
  \<open>pe\<close>, the entries after, the sweep. When \<open>pe\<close> is checked the history has no node for
  \<open>p\<close>, so the call of \<^verbatim>\<open>FindOrCreateHistory\<close> in this check makes a new node (or
  returns the null pointer when \<^verbatim>\<open>malloc\<close> fails): all four counters and flags zero,
  and as baseline the process times and the performance counter read in that call, or
  zero when the times cannot be read. If \<open>pe\<close> is checked as a normal process that
  could be opened for query, the check is \<^verbatim>\<open>CheckProcessResourcesAndTerminate\<close> on this
  new node, and the node of \<open>p\<close> in the history after the check is what it made of it.
\<close>

theorem history_sweep_evicts_absent:
  assumes "snapshot env = Some entries" and "entries \<noteq> []"
      and "\<forall>(pe, e) \<in> set entries. th32ProcessID pe \<noteq> p"
      and "ProcessSnapshot cfg env g = (g', acts)"
      and "MonitorScans cfg' envs g' = (g'', later)"
      and "\<forall>env' \<in> set envs. \<forall>entries'. snapshot env' = Some entries' \<longrightarrow>
             (\<forall>(pe', e') \<in> set entries'. th32ProcessID pe' \<noteq> p)"
      and "snapshot env3 = Some (before @ (pe, e) # after)"
      and "th32ProcessID pe = p"
      and "\<forall>(pe', e') \<in> set before. th32ProcessID pe' \<noteq> p"
  shows "(\<forall>h \<in> set (history g'). pid h \<noteq> p) \<and>
         (\<forall>h \<in> set (history g''). pid h \<noteq> p) \<and>
         fst (ProcessSnapshot cfg3 env3 g'') =
           (let ga = scan_until before cfg3 env3 g'';
                gb = fst (CheckProcess pe cfg3 (hungWindows env3) (currentProcessId env3) e ga);
                gc = fst (CheckProcesses after cfg3 (hungWindows env3) (currentProcessId env3) gb)
            in gc \<lparr> history := CleanupHistory (history gc) \<rparr>) \<and>
         find_history p (history (scan_until before cfg3 env3 g'')) = None \<and>
         FindOrCreateHistory p (historyMalloc e) (baselineTimes e) (baselinePerf e)
             (history (scan_until before cfg3 env3 g'')) =
           (if historyMalloc e
            then (Some (new_history p (baselineTimes e) (baselinePerf e)),
                  new_history p (baselineTimes e) (baselinePerf e) #
                  history (scan_until before cfg3 env3 g''))
            else (None, history (scan_until before cfg3 env3 g''))) \<and>
         terminateAttempts (new_history p (baselineTimes e) (baselinePerf e)) = 0 \<and>
         terminateAttemptsHung (new_history p (baselineTimes e) (baselinePerf e)) = 0 \<and>
         terminateLogSent (new_history p (baselineTimes e) (baselinePerf e)) = 0 \<and>
         terminateLogSentHung (new_history p (baselineTimes e) (baselinePerf e)) = 0 \<and>
         (\<forall>c k u. baselineTimes e = Some (c, k, u) \<longrightarrow>
            ftCreate (new_history p (baselineTimes e) (baselinePerf e)) = c \<and>
            ftKernel (new_history p (baselineTimes e) (baselinePerf e)) = k \<and>
            ftUser (new_history p (baselineTimes e) (baselinePerf e)) = u \<and>
            perfTime (new_history p (baselineTimes e) (baselinePerf e)) = baselinePerf e) \<and>
         (baselineTimes e = None \<longrightarrow>
            ftKernel (new_history p (baselineTimes e) (baselinePerf e)) = 0 \<and>
            ftUser (new_history p (baselineTimes e) (baselinePerf e)) = 0 \<and>
            perfTime (new_history p (baselineTimes e) (baselinePerf e)) = 0) \<and>
         (\<forall>gb actsb.
            historyMalloc e \<and> queryHandle e \<and>
            CheckNormalProcess pe cfg3 (hungWindows env3) e (scan_until before cfg3 env3 g'') =
              (gb, actsb) \<longrightarrow>
            (\<exists>h' removed shown'.
               CheckProcessResourcesAndTerminate (new_history p (baselineTimes e) (baselinePerf e))
                 p cfg3 (hungWindows env3) e
                 (notifyOnTermination (config (scan_until before cfg3 env3 g'')))
                 (accessDeniedShown (scan_until before cfg3 env3 g'')) =
                 (h', removed, shown', actsb) \<and>
               (\<not> removed \<longrightarrow> find_history p (history gb) = Some h')))"
proof -
  let ?ga = "scan_until before cfg3 env3 g''"
  let ?new = "new_history p (baselineTimes e) (baselinePerf e)"
  have evicted: "\<forall>h \<in> set (history g'). pid h \<noteq> p"
  proof
    fix h assume "h \<in> set (history g')"
    then show "pid h \<noteq> p"
      using ProcessSnapshot_history [OF assms(1,2), of h cfg g] assms(3,4) by auto
  qed
  have later: "\<forall>h \<in> set (history g''). pid h \<noteq> p"
    using MonitorScans_absent [OF evicted assms(6), of cfg'] assms(5) by simp
  have absent: "\<forall>h \<in> set (history ?ga). pid h \<noteq> p"
    using later assms(9) by (rule scan_until_absent)
  have none: "find_history p (history ?ga) = None"
    using absent by (simp add: find_history_None)
  have made: "FindOrCreateHistory p (historyMalloc e) (baselineTimes e) (baselinePerf e) (history ?ga) =
      (if historyMalloc e then (Some ?new, ?new # history ?ga) else (None, history ?ga))"
    using absent by (rule FindOrCreateHistory_absent)
  have normal: "\<exists>h' removed shown'.
      CheckProcessResourcesAndTerminate ?new p cfg3 (hungWindows env3) e
        (notifyOnTermination (config ?ga)) (accessDeniedShown ?ga) = (h', removed, shown', actsb) \<and>
      (\<not> removed \<longrightarrow> find_history p (history gb) = Some h')"
    if "historyMalloc e" and "queryHandle e"
      and "CheckNormalProcess pe cfg3 (hungWindows env3) e ?ga = (gb, actsb)" for gb actsb
    using normal_check_opened [of pe e ?ga ?new "?new # history ?ga" cfg3 "hungWindows env3" gb actsb]
      made that assms(8) by simp
  have fields: "terminateAttempts ?new = 0 \<and> terminateAttemptsHung ?new = 0 \<and>
      terminateLogSent ?new = 0 \<and> terminateLogSentHung ?new = 0 \<and>
      (\<forall>c k u. baselineTimes e = Some (c, k, u) \<longrightarrow>
         ftCreate ?new = c \<and> ftKernel ?new = k \<and> ftUser ?new = u \<and> perfTime ?new = baselinePerf e) \<and>
      (baselineTimes e = None \<longrightarrow> ftKernel ?new = 0 \<and> ftUser ?new = 0 \<and> perfTime ?new = 0)"
    by (auto simp: new_history_fields)
  show ?thesis
    using evicted later ProcessSnapshot_entries [OF assms(7), of cfg3 g''] none made fields normal
    by (intro conjI) blast+
qed

lemma example_between_scans:
  "MonitorScans example_config [example_empty_scan] example_global = (example_global, [[]])"
  by (simp add: ProcessSnapshot_def example_empty_scan_def example_global_def)

lemma example_back_check:
  "CheckProcess example_app_entry example_config [] 4242 example_back_env example_global =
     (example_global \<lparr> history := [new_history 1234 (Some (7, 8, 9)) 10] \<rparr>, [])"
  unfolding example_app_check
  by (simp add: normal_check_defs new_history_def example_back_env_def
      example_app_entry_def example_app_env_def example_config_def example_global_fields)

lemma example_global_reset: "example_global \<lparr> history := [] \<rparr> = example_global"
  by (simp add: example_global_def)

lemma example_back_scan:
  "ProcessSnapshot example_config example_app_scan example_global =
     (example_global \<lparr> history := [(new_history 1234 (Some (7, 8, 9)) 10) \<lparr> seen := False \<rparr>] \<rparr>, [])"
  by (simp add: ProcessSnapshot_def example_app_scan_def example_global_fields example_global_reset
      example_back_check new_history_def)

theorem history_sweep_evicts_absent_witness:
  "snapshot example_own_scan =
     Some [(\<lparr> th32ProcessID = 4242, szExeFile = ''ProcessMonitor.exe'' \<rparr>, example_system_env)] \<and>
   history example_stale_global = [example_stale_history] \<and>
   pid example_stale_history = 1234 \<and> terminateAttempts example_stale_history = 3 \<and>
   ftKernel example_stale_history = 999 \<and>
   ProcessSnapshot example_config example_own_scan example_stale_global = (example_global, []) \<and>
   history example_global = [] \<and>
   MonitorScans example_config [example_empty_scan] example_global = (example_global, [[]]) \<and>
   snapshot example_empty_scan = Some [] \<and>
   snapshot example_app_scan = Some ([] @ (example_app_entry, example_back_env) # []) \<and>
   th32ProcessID example_app_entry = 1234 \<and>
   historyMalloc example_back_env \<and> baselineTimes example_back_env = Some (7, 8, 9) \<and>
   baselinePerf example_back_env = 10 \<and>
   find_history 1234 (history (scan_until [] example_config example_app_scan example_global)) = None \<and>
   ProcessSnapshot example_config example_app_scan example_global =
     (example_global \<lparr> history := [(new_history 1234 (Some (7, 8, 9)) 10) \<lparr> seen := False \<rparr>] \<rparr>, []) \<and>
   terminateAttempts (new_history 1234 (Some (7, 8, 9)) 10) = 0 \<and>
   ftKernel (new_history 1234 (Some (7, 8, 9)) 10) = 8 \<and>
   perfTime (new_history 1234 (Some (7, 8, 9)) 10) = 10"
proof -
  have entries: "snapshot example_own_scan =
     Some [(\<lparr> th32ProcessID = 4242, szExeFile = ''ProcessMonitor.exe'' \<rparr>, example_system_env)]"
    by (simp add: example_own_scan_def)
  have nonempty: "[(\<lparr> th32ProcessID = 4242, szExeFile = ''ProcessMonitor.exe'' \<rparr>, example_system_env)] \<noteq> []"
    by simp
  have absent: "\<forall>(pe, e) \<in> set [(\<lparr> th32ProcessID = 4242, szExeFile = ''ProcessMonitor.exe'' \<rparr>,
      example_system_env)]. th32ProcessID pe \<noteq> 1234"
    by simp
  have between: "\<forall>env' \<in> set [example_empty_scan]. \<forall>entries'. snapshot env' = Some entries' \<longrightarrow>
      (\<forall>(pe', e') \<in> set entries'. th32ProcessID pe' \<noteq> 1234)"
    by (simp add: example_empty_scan_def)
  have reappears: "snapshot example_app_scan = Some ([] @ (example_app_entry, example_back_env) # [])"
    by (simp add: example_app_scan_def)
  have pid: "th32ProcessID example_app_entry = 1234"
    by (simp add: example_app_entry_def)
  have before: "\<forall>(pe', e') \<in> set []. th32ProcessID pe' \<noteq> (1234 :: DWORD)"
    by simp
  have stale: "history example_stale_global = [example_stale_history]"
    "pid example_stale_history = 1234" "terminateAttempts example_stale_history = 3"
    "ftKernel example_stale_history = 999"
    by (simp_all add: example_stale_global_def example_stale_history_def)
  have env: "historyMalloc example_back_env" "baselineTimes example_back_env = Some (7, 8, 9)"
    "baselinePerf example_back_env = 10" "snapshot example_empty_scan = Some []"
    by (simp_all add: example_back_env_def example_app_env_def example_empty_scan_def)
  note t = history_sweep_evicts_absent [OF entries nonempty absent example_stale_sweep
      example_between_scans between reappears pid before, of example_config]
  have none: "find_history 1234
      (history (scan_until [] example_config example_app_scan example_global)) = None"
    using t by blast
  have fields: "terminateAttempts (new_history 1234 (Some (7, 8, 9)) 10) = 0"
    "ftKernel (new_history 1234 (Some (7, 8, 9)) 10) = 8"
    "perfTime (new_history 1234 (Some (7, 8, 9)) 10) = 10"
    using t env(2,3) by auto
  show ?thesis
    using entries stale env reappears pid none fields example_stale_sweep example_between_scans
      example_back_scan
    by (simp add: example_global_fields del: MonitorScans.simps)
qed

end
